theory Spec2Isabelle
  imports Main "HOL-Library.Word"
begin

unbundle bit_operations_syntax

section \<open>The FAT filesystem driver (fs/fat.c)\<close>

text \<open>
  The driver is written for the 32-bit i386 target: \<open>unsigned\<close>, \<open>unsigned long\<close> and
  \<open>grub_uint32_t\<close> are 32-bit words, \<open>grub_ssize_t\<close> is a 32-bit word read as two's
  complement where the code compares it. On-disk integers are little-endian and are decoded
  byte by byte, so \<open>grub_le_to_cpu16\<close> and \<open>grub_le_to_cpu32\<close> are the identity on decoded
  fields.
\<close>

type_synonym u8 = "8 word"
type_synonym u16 = "16 word"
type_synonym u32 = "32 word"

subsection \<open>Errors\<close>

datatype grub_err =
    GRUB_ERR_BAD_FS string
  | GRUB_ERR_BAD_FS_CLUSTER u32
  | GRUB_ERR_BAD_FILE_TYPE string
  | GRUB_ERR_FILE_NOT_FOUND string
  | GRUB_ERR_DISK

text \<open>
  \<open>GRUB_ERR_BAD_FS_CLUSTER n\<close> is \<open>grub_error (GRUB_ERR_BAD_FS, "invalid cluster %u", n)\<close>;
  \<open>GRUB_ERR_DISK\<close> is whatever error a failed \<open>grub_disk_read\<close> leaves in \<open>grub_errno\<close>.
\<close>

subsection \<open>The block device\<close>

text \<open>
  Modelled from the spec: the block device (\<open>grub_disk_read\<close> is not part of fat.c). A
  device has 512-byte sectors and serves \<open>read(sector, offset, length)\<close>; reads may straddle
  sectors. A read that is not wholly inside the device fails.
\<close>

record grub_disk =
  disk_bytes :: "nat \<Rightarrow> u8"
  disk_size :: nat

definition GRUB_DISK_SECTOR_BITS :: nat where
  "GRUB_DISK_SECTOR_BITS = 9"

definition grub_disk_read :: "grub_disk \<Rightarrow> nat \<Rightarrow> nat \<Rightarrow> nat \<Rightarrow> u8 list option" where
  "grub_disk_read disk sector offset sz =
     (let start = sector * 2 ^ GRUB_DISK_SECTOR_BITS + offset
      in if start + sz \<le> disk_size disk
         then Some (map (disk_bytes disk) [start ..< start + sz])
         else None)"

definition le16 :: "u8 list \<Rightarrow> u16" where
  "le16 bs = ucast (bs ! 0) OR push_bit 8 (ucast (bs ! 1))"

definition le32 :: "u8 list \<Rightarrow> u32" where
  "le32 bs = ucast (bs ! 0) OR push_bit 8 (ucast (bs ! 1))
             OR push_bit 16 (ucast (bs ! 2)) OR push_bit 24 (ucast (bs ! 3))"

subsection \<open>On-disk and in-memory structures\<close>

definition GRUB_FAT_DIR_ENTRY_SIZE :: nat where "GRUB_FAT_DIR_ENTRY_SIZE = 32"

definition GRUB_FAT_ATTR_READ_ONLY :: u8 where "GRUB_FAT_ATTR_READ_ONLY = 0x01"
definition GRUB_FAT_ATTR_HIDDEN :: u8 where "GRUB_FAT_ATTR_HIDDEN = 0x02"
definition GRUB_FAT_ATTR_SYSTEM :: u8 where "GRUB_FAT_ATTR_SYSTEM = 0x04"
definition GRUB_FAT_ATTR_VOLUME_ID :: u8 where "GRUB_FAT_ATTR_VOLUME_ID = 0x08"
definition GRUB_FAT_ATTR_DIRECTORY :: u8 where "GRUB_FAT_ATTR_DIRECTORY = 0x10"
definition GRUB_FAT_ATTR_ARCHIVE :: u8 where "GRUB_FAT_ATTR_ARCHIVE = 0x20"

definition GRUB_FAT_ATTR_LONG_NAME :: u8 where
  "GRUB_FAT_ATTR_LONG_NAME =
     GRUB_FAT_ATTR_READ_ONLY OR GRUB_FAT_ATTR_HIDDEN OR GRUB_FAT_ATTR_SYSTEM
     OR GRUB_FAT_ATTR_VOLUME_ID"

definition GRUB_FAT_ATTR_VALID :: u8 where
  "GRUB_FAT_ATTR_VALID =
     GRUB_FAT_ATTR_READ_ONLY OR GRUB_FAT_ATTR_HIDDEN OR GRUB_FAT_ATTR_SYSTEM
     OR GRUB_FAT_ATTR_DIRECTORY OR GRUB_FAT_ATTR_ARCHIVE"

record grub_fat_bpb =
  bytes_per_sector :: u16
  sectors_per_cluster :: u8
  num_reserved_sectors :: u16
  num_fats :: u8
  num_root_entries :: u16
  num_total_sectors_16 :: u16
  media :: u8
  sectors_per_fat_16 :: u16
  num_total_sectors_32 :: u32
  sectors_per_fat_32 :: u32
  extended_flags :: u16
  fs_version :: u16
  bpb_root_cluster :: u32

text \<open>The packed struct is 52 bytes long; the fields the driver uses sit at these offsets.\<close>

definition decode_bpb :: "u8 list \<Rightarrow> grub_fat_bpb" where
  "decode_bpb bs =
     \<lparr> bytes_per_sector = le16 (drop 11 bs),
       sectors_per_cluster = bs ! 13,
       num_reserved_sectors = le16 (drop 14 bs),
       num_fats = bs ! 16,
       num_root_entries = le16 (drop 17 bs),
       num_total_sectors_16 = le16 (drop 19 bs),
       media = bs ! 21,
       sectors_per_fat_16 = le16 (drop 22 bs),
       num_total_sectors_32 = le32 (drop 32 bs),
       sectors_per_fat_32 = le32 (drop 36 bs),
       extended_flags = le16 (drop 40 bs),
       fs_version = le16 (drop 42 bs),
       bpb_root_cluster = le32 (drop 44 bs) \<rparr>"

record grub_fat_data =
  logical_sector_bits :: int
  num_sectors :: u32
  fat_sector :: u16
  sectors_per_fat :: u32
  fat_size :: int
  root_cluster :: u32
  root_sector :: u32
  num_root_sectors :: u32
  cluster_bits :: int
  cluster_eof_mark :: u32
  cluster_sector :: u32
  num_clusters :: u32
  attr :: u8
  file_size :: u32
  file_cluster :: u32
  cur_cluster_num :: u32
  cur_cluster :: u32

subsection \<open>fat_log2\<close>

text \<open>
  The loop of \<open>fat_log2\<close>; the C function returns before the loop when \<open>x = 0\<close>, so the
  loop only ever sees \<open>x \<noteq> 0\<close>.
\<close>

function fat_log2_loop :: "nat \<Rightarrow> int \<Rightarrow> int" where
  "fat_log2_loop x i =
     (if x \<noteq> 0 \<and> x mod 2 = 0 then fat_log2_loop (x div 2) (i + 1)
      else if x \<noteq> 1 then - 1 else i)"
  by pat_completeness auto
termination
  by (relation "measure (\<lambda>(x, i). x)") auto

declare fat_log2_loop.simps [simp del]

definition fat_log2 :: "nat \<Rightarrow> int" where
  "fat_log2 x = (if x = 0 then - 1 else fat_log2_loop x 0)"

subsection \<open>grub_fat_mount\<close>

definition not_a_fat :: "grub_err + grub_fat_data" where
  "not_a_fat = Inl (GRUB_ERR_BAD_FS ''not a fat filesystem'')"

text \<open>The last part of mount: the sanity checks on the first FAT entry.\<close>

definition mount_check_fat :: "grub_disk \<Rightarrow> grub_fat_bpb \<Rightarrow> grub_fat_data
    \<Rightarrow> grub_err + grub_fat_data" where
  "mount_check_fat disk bpb data =
     (if num_sectors data \<le> ucast (fat_sector data) then not_a_fat
      else case grub_disk_read disk (unat (fat_sector data)) 0 4 of
        None \<Rightarrow> not_a_fat
      | Some bs \<Rightarrow>
          let first_fat0 = le32 bs;
              (first_fat, magic) =
                (if fat_size data = 32 then (first_fat0 AND 0x0fffffff, 0x0fffff00)
                 else if fat_size data = 16 then (first_fat0 AND 0x0000ffff, 0xff00)
                 else (first_fat0 AND 0x00000fff, 0x0f00))
          in if first_fat \<noteq> (magic OR ucast (media bpb)) then not_a_fat
             else Inr (data\<lparr> file_cluster := root_cluster data,
                             cur_cluster_num := - 1,
                             attr := GRUB_FAT_ATTR_DIRECTORY \<rparr>))"

text \<open>The FAT32 and FAT12/16 branches.\<close>

definition mount_variant :: "grub_disk \<Rightarrow> grub_fat_bpb \<Rightarrow> grub_fat_data
    \<Rightarrow> grub_err + grub_fat_data" where
  "mount_variant disk bpb data =
     (if sectors_per_fat_16 bpb = 0 then
        let flags = extended_flags bpb;
            data1 = data\<lparr> root_cluster := bpb_root_cluster bpb,
                           fat_size := 32,
                           cluster_eof_mark := 0x0ffffff8 \<rparr>;
            active_fat = (ucast (flags AND 0xf) :: u32)
        in if flags AND 0x80 \<noteq> 0 \<and> active_fat > ucast (num_fats bpb) then not_a_fat
           else
             let data2 =
                   (if flags AND 0x80 \<noteq> 0
                    then data1\<lparr> fat_sector :=
                           ucast ((ucast (fat_sector data1) :: u32)
                                  + active_fat * sectors_per_fat data1) \<rparr>
                    else data1)
             in if num_root_entries bpb \<noteq> 0 \<or> fs_version bpb \<noteq> 0 then not_a_fat
                else mount_check_fat disk bpb data2
      else
        let data1 = data\<lparr> root_cluster := - 1 \<rparr>;
            data2 =
              (if num_clusters data1 \<le> 4085 + 2
               then data1\<lparr> fat_size := 12, cluster_eof_mark := 0x0ff8 \<rparr>
               else data1\<lparr> fat_size := 16, cluster_eof_mark := 0xfff8 \<rparr>)
        in mount_check_fat disk bpb data2)"

text \<open>
  \<open>grub_fat_mount_bpb mem disk bpb\<close> is the body of \<open>grub_fat_mount\<close> after the BPB has been
  read; \<open>mem\<close> is the freshly allocated handle, whose fields hold whatever the allocator
  left there until mount assigns them.
\<close>

definition grub_fat_mount_bpb :: "grub_fat_data \<Rightarrow> grub_disk \<Rightarrow> grub_fat_bpb
    \<Rightarrow> grub_err + grub_fat_data" where
  "grub_fat_mount_bpb mem disk bpb =
     (let lsb0 = fat_log2 (unat (bytes_per_sector bpb))
      in if lsb0 < int GRUB_DISK_SECTOR_BITS then not_a_fat
      else
      let lsb = lsb0 - int GRUB_DISK_SECTOR_BITS;
          cb0 = fat_log2 (unat (sectors_per_cluster bpb))
      in if cb0 < 0 then not_a_fat
      else
      let cb = cb0 + lsb;
          fs = (push_bit (nat lsb) (num_reserved_sectors bpb) :: u16)
      in if fs = 0 then not_a_fat
      else
      let spf = (push_bit (nat lsb)
                   (if sectors_per_fat_16 bpb \<noteq> 0 then ucast (sectors_per_fat_16 bpb)
                    else sectors_per_fat_32 bpb) :: u32)
      in if spf = 0 then not_a_fat
      else
      let ns = (push_bit (nat lsb)
                  (if num_total_sectors_16 bpb \<noteq> 0 then ucast (num_total_sectors_16 bpb)
                   else num_total_sectors_32 bpb) :: u32)
      in if ns = 0 then not_a_fat
      else if num_fats bpb = 0 then not_a_fat
      else
      let rs = (ucast fs + ucast (num_fats bpb) * spf :: u32);
          nrs = (push_bit (nat lsb)
                   (drop_bit (nat lsb + GRUB_DISK_SECTOR_BITS)
                      (ucast (num_root_entries bpb) * of_nat GRUB_FAT_DIR_ENTRY_SIZE
                       + ucast (bytes_per_sector bpb) - 1)) :: u32);
          cs = rs + nrs;
          nc = drop_bit (nat (cb + lsb)) (ns - cs) + 2
      in if nc \<le> 2 then not_a_fat
      else mount_variant disk bpb
             (mem\<lparr> logical_sector_bits := lsb,
                   cluster_bits := cb,
                   fat_sector := fs,
                   sectors_per_fat := spf,
                   num_sectors := ns,
                   root_sector := rs,
                   num_root_sectors := nrs,
                   cluster_sector := cs,
                   num_clusters := nc \<rparr>))"

text \<open>
  \<open>grub_fat_mount\<close>: a null disk or a failed read of the BPB (52 bytes at byte 0) takes the
  same \<open>fail\<close> exit as every failed check.
\<close>

definition grub_fat_mount :: "grub_fat_data \<Rightarrow> grub_disk option \<Rightarrow> grub_err + grub_fat_data" where
  "grub_fat_mount mem diskp =
     (case diskp of
        None \<Rightarrow> not_a_fat
      | Some disk \<Rightarrow>
          (case grub_disk_read disk 0 0 52 of
             None \<Rightarrow> not_a_fat
           | Some bs \<Rightarrow> grub_fat_mount_bpb mem disk (decode_bpb bs)))"

subsection \<open>grub_fat_read_data\<close>

text \<open>
  What a walk along the cluster chain ends with: the target cluster is reached, the chain
  has ended (\<open>return ret\<close>), or the call fails (\<open>return -1\<close> with the error).
\<close>

datatype walk_result = Walk_OK | Walk_EOF | Walk_Err grub_err

definition fat_offset :: "grub_fat_data \<Rightarrow> u32" where
  "fat_offset data =
     (if fat_size data = 32 then push_bit 2 (cur_cluster data)
      else if fat_size data = 16 then push_bit 1 (cur_cluster data)
      else cur_cluster data + drop_bit 1 (cur_cluster data))"

text \<open>
  The bytes of the FAT entry land in the low bytes of the 32-bit \<open>next_cluster\<close>; when
  only two bytes are read (FAT12, FAT16) the masks below remove the upper bytes, which are
  taken as zero here.
\<close>

definition decode_next_cluster :: "grub_fat_data \<Rightarrow> u8 list \<Rightarrow> u32" where
  "decode_next_cluster data bs =
     (let next_cluster = le32 (bs @ [0, 0, 0, 0])
      in if fat_size data = 16 then next_cluster AND 0xFFFF
         else if fat_size data = 12 then
           (if cur_cluster data AND 1 \<noteq> 0 then drop_bit 4 next_cluster else next_cluster)
           AND 0x0FFF
         else next_cluster)"

definition read_next_cluster :: "grub_disk \<Rightarrow> grub_fat_data \<Rightarrow> u32 option" where
  "read_next_cluster disk data =
     map_option (decode_next_cluster data)
       (grub_disk_read disk (unat (fat_sector data)) (unat (fat_offset data))
          (nat (drop_bit 3 (fat_size data + 7))))"

text \<open>The inner loop: \<open>while (logical_cluster > data->cur_cluster_num)\<close>.\<close>

function walk_chain :: "grub_disk \<Rightarrow> grub_fat_data \<Rightarrow> u32 \<Rightarrow> grub_fat_data \<times> walk_result" where
  "walk_chain disk data logical_cluster =
     (if logical_cluster > cur_cluster_num data then
        (case read_next_cluster disk data of
           None \<Rightarrow> (data, Walk_Err GRUB_ERR_DISK)
         | Some next_cluster \<Rightarrow>
             if next_cluster \<ge> cluster_eof_mark data then (data, Walk_EOF)
             else if next_cluster < 2 \<or> next_cluster \<ge> num_clusters data
               then (data, Walk_Err (GRUB_ERR_BAD_FS_CLUSTER next_cluster))
             else walk_chain disk
                    (data\<lparr> cur_cluster := next_cluster,
                           cur_cluster_num := cur_cluster_num data + 1 \<rparr>)
                    logical_cluster)
      else (data, Walk_OK))"
  by pat_completeness auto
termination
proof (relation "measure (\<lambda>(disk, data, lc). unat lc - unat (cur_cluster_num data))")
  show "wf (measure (\<lambda>(disk, data, lc). unat lc - unat (cur_cluster_num data)))"
    by simp
next
  fix disk :: grub_disk and data :: grub_fat_data and logical_cluster x2 :: u32
  assume lt: "cur_cluster_num data < logical_cluster"
  then have "unat (cur_cluster_num data) < unat logical_cluster"
    by (simp add: word_less_nat_alt)
  moreover have "unat logical_cluster < 2 ^ 32"
    using unsigned_less [of logical_cluster, where 'a=nat] by simp
  ultimately have "unat (cur_cluster_num data) + unat (1::u32) < 2 ^ LENGTH(32)"
    by simp
  then have "unat (cur_cluster_num data + 1) = unat (cur_cluster_num data) + unat (1::u32)"
    by (simp only: unat_add_lem)
  with \<open>unat (cur_cluster_num data) < unat logical_cluster\<close>
  show "((disk, data\<lparr>cur_cluster := x2,
                       cur_cluster_num := cur_cluster_num data + 1\<rparr>, logical_cluster),
          (disk, data, logical_cluster))
        \<in> measure (\<lambda>(disk, data, lc). unat lc - unat (cur_cluster_num data))"
    by simp
qed

declare walk_chain.simps [simp del]

text \<open>
  The outcome of a read: the handle with its cursor as the call leaves it, the physical
  clusters whose data was read from the device (in order), and the return value:
  \<open>Inl e\<close> is \<open>return -1\<close> with \<open>grub_errno = e\<close>, \<open>Inr bs\<close> is the return of
  \<open>length bs\<close> with \<open>bs\<close> in the buffer.
\<close>

type_synonym read_outcome = "grub_fat_data \<times> u32 list \<times> (grub_err + u8 list)"

text \<open>
  The outer loop: \<open>while (len)\<close>. The delivered bytes \<open>buf\<close> stand for both \<open>ret\<close> (their
  number) and the buffer filled so far. The loop does not return when it makes no progress,
  which is the value \<open>None\<close>.
\<close>

partial_function (option) read_loop ::
    "grub_disk \<Rightarrow> nat \<Rightarrow> grub_fat_data \<Rightarrow> u32 \<Rightarrow> u32 \<Rightarrow> u32 \<Rightarrow> u8 list \<Rightarrow> u32 list
     \<Rightarrow> read_outcome option" where
  "read_loop disk logical_cluster_bits data logical_cluster offset len buf clusters =
     (if len = 0 then Some (data, clusters, Inr buf)
      else
        (case walk_chain disk data logical_cluster of
           (data1, Walk_EOF) \<Rightarrow> Some (data1, clusters, Inr buf)
         | (data1, Walk_Err e) \<Rightarrow> Some (data1, clusters, Inl e)
         | (data1, Walk_OK) \<Rightarrow>
             let sector = cluster_sector data1
                    + push_bit (nat (cluster_bits data1 + logical_sector_bits data1))
                        (cur_cluster data1 - 2);
                 size0 = push_bit logical_cluster_bits 1 - offset;
                 sz = (if len <s size0 then len else size0)
             in (case grub_disk_read disk (unat sector) (unat offset) (unat sz) of
                   None \<Rightarrow> Some (data1, clusters @ [cur_cluster data1], Inl GRUB_ERR_DISK)
                 | Some bs \<Rightarrow>
                     read_loop disk logical_cluster_bits data1 (logical_cluster + 1) 0
                       (len - sz) (buf @ bs) (clusters @ [cur_cluster data1]))))"

definition grub_fat_read_data :: "grub_disk \<Rightarrow> grub_fat_data \<Rightarrow> u32 \<Rightarrow> u32
    \<Rightarrow> read_outcome option" where
  "grub_fat_read_data disk data offset len =
     (if file_cluster data = - 1 then
        let size0 = push_bit GRUB_DISK_SECTOR_BITS (num_root_sectors data) - offset;
            sz = (if len <s size0 then len else size0)
        in (case grub_disk_read disk (unat (root_sector data)) (unat offset) (unat sz) of
              None \<Rightarrow> Some (data, [], Inl GRUB_ERR_DISK)
            | Some bs \<Rightarrow> Some (data, [], Inr bs))
      else
        let logical_cluster_bits =
              nat (cluster_bits data + logical_sector_bits data + int GRUB_DISK_SECTOR_BITS);
            logical_cluster = signed_drop_bit logical_cluster_bits offset;
            offset1 = offset AND (push_bit logical_cluster_bits 1 - 1);
            data1 = (if logical_cluster < cur_cluster_num data
                     then data\<lparr> cur_cluster_num := 0, cur_cluster := file_cluster data \<rparr>
                     else data)
        in read_loop disk logical_cluster_bits data1 logical_cluster offset1 len [] [])"

subsection \<open>String helpers\<close>

text \<open>
  Modelled from the spec: the string helpers of the kernel (\<open>grub_isspace\<close>,
  \<open>grub_tolower\<close>, \<open>grub_strndup\<close>, C strings) are not part of fat.c. They are the usual C
  ones: whitespace is space, tab, newline and carriage return; case folding maps \<open>A..Z\<close> to
  \<open>a..z\<close>; a C string ends before its first NUL byte; \<open>grub_strndup s n\<close> copies the string
  \<open>s\<close>, at most \<open>n\<close> bytes of it.
\<close>

definition grub_isspace :: "u8 \<Rightarrow> bool" where
  "grub_isspace c \<longleftrightarrow> c = 0x0A \<or> c = 0x0D \<or> c = 0x20 \<or> c = 0x09"

definition grub_tolower :: "u8 \<Rightarrow> u8" where
  "grub_tolower c = (if 0x41 \<le> c \<and> c \<le> 0x5A then c - 0x41 + 0x61 else c)"

definition cstring :: "u8 list \<Rightarrow> u8 list" where
  "cstring bs = takeWhile (\<lambda>b. b \<noteq> 0) bs"

definition grub_strndup :: "u8 list \<Rightarrow> nat \<Rightarrow> u8 list" where
  "grub_strndup s n = take n (cstring s)"

subsection \<open>grub_fat_find_dir\<close>

text \<open>
  The local variables of the scanning loop: the record \<open>dir\<close> read last, the long-name
  state \<open>slot\<close>, \<open>slots\<close>, \<open>checksum\<close> and \<open>unibuf\<close>, and the state of the caller's hook.
\<close>

record 'h dir_scan =
  ds_dir :: "u8 list"
  ds_slot :: int
  ds_slots :: int
  ds_checksum :: int
  ds_unibuf :: "u16 list"
  ds_hook :: 'h

datatype scan_step = Scan_Continue | Scan_Break

text \<open>
  A hook takes its own state, the file name and \<open>dir.attr & GRUB_FAT_ATTR_DIRECTORY\<close>, and
  returns its new state and whether it returned non-zero.
\<close>

type_synonym 'h fat_hook = "'h \<Rightarrow> u8 list \<Rightarrow> u8 \<Rightarrow> 'h \<times> bool"

text \<open>
  The 13 UTF-16 code units of a long-name record: \<open>name1\<close> (5 units at byte 1),
  \<open>name2\<close> (6 units at byte 14) and \<open>name3\<close> (2 units at byte 28).
\<close>

definition long_name_units :: "u8 list \<Rightarrow> u16 list" where
  "long_name_units dir =
     map (\<lambda>k. le16 (drop (1 + 2 * k) dir)) [0 ..< 5]
     @ map (\<lambda>k. le16 (drop (14 + 2 * k) dir)) [0 ..< 6]
     @ map (\<lambda>k. le16 (drop (28 + 2 * k) dir)) [0 ..< 2]"

definition write_units :: "u16 list \<Rightarrow> nat \<Rightarrow> u16 list \<Rightarrow> u16 list" where
  "write_units unibuf n us = take n unibuf @ us @ drop (n + length us) unibuf"

text \<open>Handle long name entries: the branch \<open>dir.attr == GRUB_FAT_ATTR_LONG_NAME\<close>.\<close>

definition long_name_entry :: "'h dir_scan \<Rightarrow> 'h dir_scan" where
  "long_name_entry st =
     (let dir = ds_dir st;
          id0 = dir ! 0;
          long_name_checksum = uint (dir ! 13);
          id = (if id0 AND 0x40 \<noteq> 0 then id0 AND 0x3f else id0);
          st1 = (if id0 AND 0x40 \<noteq> 0
                 then st\<lparr> ds_slots := uint id, ds_slot := uint id,
                          ds_checksum := long_name_checksum \<rparr>
                 else st)
      in if uint id \<noteq> ds_slot st1 \<or> ds_slot st1 = 0
            \<or> ds_checksum st1 \<noteq> long_name_checksum
         then st1\<lparr> ds_checksum := - 1 \<rparr>
         else
           let slot = ds_slot st1 - 1
           in st1\<lparr> ds_slot := slot,
                    ds_unibuf := write_units (ds_unibuf st1) (nat (slot * 13))
                                   (long_name_units dir) \<rparr>)"

text \<open>
  The checksum loop: \<open>sum = ((sum >> 1) | (sum << 7)) + dir.name[i]\<close>, computed in \<open>int\<close>
  and stored into the \<open>grub_uint8_t sum\<close>.
\<close>

definition sum8dot3_step :: "u8 \<Rightarrow> u8 \<Rightarrow> u8" where
  "sum8dot3_step s b =
     ucast ((drop_bit 1 (ucast s :: u32) OR push_bit 7 (ucast s)) + ucast b)"

definition sum8dot3 :: "u8 list \<Rightarrow> u8" where
  "sum8dot3 name = foldl sum8dot3_step 0 name"

text \<open>
  Convert the 8.3 file name. \<open>filep\<close> is the index into \<open>filename\<close> at which the final NUL
  is stored.
\<close>

definition name_part :: "u8 list \<Rightarrow> u8 list" where
  "name_part bs = map grub_tolower (takeWhile (\<lambda>c. c \<noteq> 0 \<and> \<not> grub_isspace c) bs)"

definition convert_8dot3 :: "u8 list \<Rightarrow> u8 list" where
  "convert_8dot3 name =
     (let base = name_part (take 8 name);
          ext = name_part (take 3 (drop 8 name));
          filename = base @ [0x2E] @ ext;
          filep = length base + length ext;
          filep1 = (if filename ! filep \<noteq> 0x2E then filep + 1 else filep)
      in take filep1 filename)"

text \<open>
  The tail of the loop body shared by both name forms: list mode calls the hook, which
  may stop the scan; otherwise the name is compared with \<open>dirname\<close>.
\<close>

definition match_name :: "'h fat_hook option \<Rightarrow> u8 list \<Rightarrow> u8 list \<Rightarrow> 'h dir_scan
    \<Rightarrow> ('h dir_scan \<times> scan_step) option" where
  "match_name call_hook dirname filename st =
     (let dirflag = (ds_dir st ! 11) AND GRUB_FAT_ATTR_DIRECTORY
      in case call_hook of
           Some hook \<Rightarrow>
             if dirname = [] then
               (let (h, stop) = hook (ds_hook st) filename dirflag
                in Some (st\<lparr> ds_hook := h \<rparr>, if stop then Scan_Break else Scan_Continue))
             else if dirname = filename then
               Some (st\<lparr> ds_hook := fst (hook (ds_hook st) filename dirflag) \<rparr>, Scan_Break)
             else None
         | None \<Rightarrow> if dirname = filename then Some (st, Scan_Break) else None)"

text \<open>
  One pass through the loop body, after a record of 32 bytes with a non-zero first byte
  has been read into \<open>dir\<close>. \<open>utf16_to_utf8\<close> is the kernel's \<open>grub_utf16_to_utf8\<close>.
\<close>

definition scan_record :: "(u16 list \<Rightarrow> u8 list) \<Rightarrow> 'h fat_hook option \<Rightarrow> u8 list
    \<Rightarrow> 'h dir_scan \<Rightarrow> 'h dir_scan \<times> scan_step" where
  "scan_record utf16_to_utf8 call_hook dirname st =
     (if ds_dir st ! 11 = GRUB_FAT_ATTR_LONG_NAME then (long_name_entry st, Scan_Continue)
      else if ds_dir st ! 0 = 0xe5 \<or> (ds_dir st ! 11) AND NOT GRUB_FAT_ATTR_VALID \<noteq> 0
        then (st, Scan_Continue)
      else
        let st1 = (if ds_dir st ! 0 = 0x05 then st\<lparr> ds_dir := (ds_dir st)[0 := 0xe5] \<rparr>
                   else st);
            short = (\<lambda>st2.
              case match_name call_hook dirname (convert_8dot3 (take 11 (ds_dir st2))) st2 of
                Some r \<Rightarrow> r
              | None \<Rightarrow> (st2, Scan_Continue))
        in if ds_checksum st1 \<noteq> - 1 \<and> ds_slot st1 = 0 then
             (if uint (sum8dot3 (take 11 (ds_dir st1))) = ds_checksum st1 then
                let filename = cstring (utf16_to_utf8
                                 (take (nat (ds_slots st1 * 13)) (ds_unibuf st1)))
                in (case match_name call_hook dirname filename st1 of
                      Some (st2, Scan_Break) \<Rightarrow> (st2, Scan_Break)
                    | Some (st2, Scan_Continue) \<Rightarrow>
                        (st2\<lparr> ds_checksum := - 1 \<rparr>, Scan_Continue)
                    | None \<Rightarrow> short (st1\<lparr> ds_checksum := - 1 \<rparr>))
              else short (st1\<lparr> ds_checksum := - 1 \<rparr>))
           else short st1)"

text \<open>
  The scanning loop \<open>while (1)\<close>. It leaves with the handle, the local variables and the
  error it raised, if any. A read that fails leaves its error in \<open>grub_errno\<close>; a short
  read or a record whose name starts with NUL ends the directory, which is the error
  "file not found" unless the hook is being called.
\<close>

partial_function (option) find_dir_loop ::
    "(u16 list \<Rightarrow> u8 list) \<Rightarrow> grub_disk \<Rightarrow> 'h fat_hook option \<Rightarrow> u8 list
     \<Rightarrow> grub_fat_data \<Rightarrow> u32 \<Rightarrow> 'h dir_scan
     \<Rightarrow> (grub_fat_data \<times> 'h dir_scan \<times> grub_err option) option" where
  "find_dir_loop utf16_to_utf8 disk call_hook dirname data offset st =
     (let offset1 = offset + of_nat GRUB_FAT_DIR_ENTRY_SIZE
      in case grub_fat_read_data disk data offset1 (of_nat GRUB_FAT_DIR_ENTRY_SIZE) of
           None \<Rightarrow> None
         | Some (data1, clusters, Inl e) \<Rightarrow> Some (data1, st, Some e)
         | Some (data1, clusters, Inr bs) \<Rightarrow>
             let st1 = st\<lparr> ds_dir := bs @ drop (length bs) (ds_dir st) \<rparr>
             in if length bs \<noteq> GRUB_FAT_DIR_ENTRY_SIZE \<or> ds_dir st1 ! 0 = 0 then
                  Some (data1, st1,
                        if call_hook = None
                        then Some (GRUB_ERR_FILE_NOT_FOUND ''file not found'') else None)
                else
                  (case scan_record utf16_to_utf8 call_hook dirname st1 of
                     (st2, Scan_Break) \<Rightarrow> Some (data1, st2, None)
                   | (st2, Scan_Continue) \<Rightarrow>
                       find_dir_loop utf16_to_utf8 disk call_hook dirname data1 offset1 st2))"

text \<open>
  The local variables as the loop starts. \<open>dir\<close> and \<open>unibuf\<close> hold nothing the code has
  written yet; they are taken as zero. \<open>unibuf\<close> has room for \<open>0x40 * 13\<close> code units.
\<close>

definition init_scan :: "'h \<Rightarrow> 'h dir_scan" where
  "init_scan h =
     \<lparr> ds_dir = replicate 32 0, ds_slot = - 1, ds_slots = - 1, ds_checksum = - 1,
       ds_unibuf = replicate (0x40 * 13) 0, ds_hook = h \<rparr>"

text \<open>
  \<open>grub_fat_find_dir\<close> returns the state of the hook and either the error left in
  \<open>grub_errno\<close> or the updated handle with the returned pointer \<open>dirp\<close> (the rest of the
  path from its next slash, or null). Paths are C strings without NUL bytes.
\<close>

definition grub_fat_find_dir ::
    "(u16 list \<Rightarrow> u8 list) \<Rightarrow> grub_disk \<Rightarrow> grub_fat_data \<Rightarrow> u8 list
     \<Rightarrow> 'h fat_hook option \<Rightarrow> 'h
     \<Rightarrow> ('h \<times> (grub_err + grub_fat_data \<times> u8 list option)) option" where
  "grub_fat_find_dir utf16_to_utf8 disk data path hook h =
     (if attr data AND GRUB_FAT_ATTR_DIRECTORY = 0
      then Some (h, Inl (GRUB_ERR_BAD_FILE_TYPE ''not a directory''))
      else
        let path1 = dropWhile (\<lambda>c. c = 0x2F) path;
            dirp = (if 0x2F \<in> set path1 then Some (dropWhile (\<lambda>c. c \<noteq> 0x2F) path1)
                    else None);
            dirname = takeWhile (\<lambda>c. c \<noteq> 0x2F) path1;
            call_hook = (if dirp = None then hook else None)
        in case find_dir_loop utf16_to_utf8 disk call_hook dirname data
                  (- of_nat GRUB_FAT_DIR_ENTRY_SIZE) (init_scan h) of
             None \<Rightarrow> None
           | Some (data1, st, Some e) \<Rightarrow> Some (ds_hook st, Inl e)
           | Some (data1, st, None) \<Rightarrow>
               Some (ds_hook st,
                     Inr (data1\<lparr> attr := ds_dir st ! 11,
                                 file_size := le32 (drop 28 (ds_dir st)),
                                 file_cluster :=
                                   push_bit 16 (ucast (le16 (drop 20 (ds_dir st))))
                                   OR ucast (le16 (drop 26 (ds_dir st))),
                                 cur_cluster_num := - 1 \<rparr>,
                          dirp)))"

subsection \<open>The driver's operations\<close>

text \<open>\<open>grub_fat_dir\<close>: the loop \<open>do ... while (p && grub_errno == GRUB_ERR_NONE)\<close>.\<close>

partial_function (option) dir_loop ::
    "(u16 list \<Rightarrow> u8 list) \<Rightarrow> grub_disk \<Rightarrow> 'h fat_hook option \<Rightarrow> grub_fat_data
     \<Rightarrow> u8 list \<Rightarrow> 'h \<Rightarrow> ('h \<times> grub_err option) option" where
  "dir_loop utf16_to_utf8 disk hook data p h =
     (case grub_fat_find_dir utf16_to_utf8 disk data p hook h of
        None \<Rightarrow> None
      | Some (h1, Inl e) \<Rightarrow> Some (h1, Some e)
      | Some (h1, Inr (data1, None)) \<Rightarrow> Some (h1, None)
      | Some (h1, Inr (data1, Some p1)) \<Rightarrow> dir_loop utf16_to_utf8 disk hook data1 p1 h1)"

definition grub_fat_dir ::
    "(u16 list \<Rightarrow> u8 list) \<Rightarrow> grub_fat_data \<Rightarrow> grub_disk \<Rightarrow> u8 list
     \<Rightarrow> 'h fat_hook option \<Rightarrow> 'h \<Rightarrow> ('h \<times> grub_err option) option" where
  "grub_fat_dir utf16_to_utf8 mem disk path hook h =
     (case grub_fat_mount mem (Some disk) of
        Inl e \<Rightarrow> Some (h, Some e)
      | Inr data \<Rightarrow> dir_loop utf16_to_utf8 disk hook data path h)"

text \<open>\<open>grub_fat_open\<close>: the loop \<open>do ... while (p)\<close>, left at the first error.\<close>

partial_function (option) open_loop ::
    "(u16 list \<Rightarrow> u8 list) \<Rightarrow> grub_disk \<Rightarrow> grub_fat_data \<Rightarrow> u8 list
     \<Rightarrow> (grub_err + grub_fat_data) option" where
  "open_loop utf16_to_utf8 disk data p =
     (case grub_fat_find_dir utf16_to_utf8 disk data p (None :: unit fat_hook option) () of
        None \<Rightarrow> None
      | Some (h1, Inl e) \<Rightarrow> Some (Inl e)
      | Some (h1, Inr (data1, None)) \<Rightarrow> Some (Inr data1)
      | Some (h1, Inr (data1, Some p1)) \<Rightarrow> open_loop utf16_to_utf8 disk data1 p1)"

text \<open>
  On success \<open>grub_fat_open\<close> stores the handle in \<open>file->data\<close> and its \<open>file_size\<close> in
  \<open>file->size\<close>; the result here is that handle.
\<close>

definition grub_fat_open ::
    "(u16 list \<Rightarrow> u8 list) \<Rightarrow> grub_fat_data \<Rightarrow> grub_disk \<Rightarrow> u8 list
     \<Rightarrow> (grub_err + grub_fat_data) option" where
  "grub_fat_open utf16_to_utf8 mem disk name =
     (case grub_fat_mount mem (Some disk) of
        Inl e \<Rightarrow> Some (Inl e)
      | Inr data \<Rightarrow>
          (case open_loop utf16_to_utf8 disk data name of
             None \<Rightarrow> None
           | Some (Inl e) \<Rightarrow> Some (Inl e)
           | Some (Inr data1) \<Rightarrow>
               if attr data1 AND GRUB_FAT_ATTR_DIRECTORY \<noteq> 0
               then Some (Inl (GRUB_ERR_BAD_FILE_TYPE ''not a file''))
               else Some (Inr data1)))"

text \<open>
  \<open>grub_fat_read\<close> forwards \<open>file->data\<close>, \<open>file->offset\<close> and \<open>len\<close> to the positional
  reader.
\<close>

definition grub_fat_read :: "grub_disk \<Rightarrow> grub_fat_data \<Rightarrow> u32 \<Rightarrow> u32 \<Rightarrow> read_outcome option" where
  "grub_fat_read disk file_data file_offset len =
     grub_fat_read_data disk file_data file_offset len"

text \<open>
  \<open>grub_fat_label\<close>: the loop over the raw records of the root directory. The result is
  the error returned, or \<open>*label\<close> (null or the duplicated name).
\<close>

partial_function (option) label_loop ::
    "grub_disk \<Rightarrow> grub_fat_data \<Rightarrow> u32 \<Rightarrow> (grub_err + u8 list option) option" where
  "label_loop disk data offset =
     (let offset1 = offset + of_nat GRUB_FAT_DIR_ENTRY_SIZE
      in case grub_fat_read_data disk data offset1 (of_nat GRUB_FAT_DIR_ENTRY_SIZE) of
           None \<Rightarrow> None
         | Some (data1, clusters, Inl e) \<Rightarrow> Some (Inl e)
         | Some (data1, clusters, Inr dir) \<Rightarrow>
             if length dir \<noteq> GRUB_FAT_DIR_ENTRY_SIZE \<or> dir ! 0 = 0 then Some (Inr None)
             else if dir ! 11 = GRUB_FAT_ATTR_VOLUME_ID
               then Some (Inr (Some (grub_strndup dir 11)))
             else label_loop disk data1 offset1)"

definition grub_fat_label :: "grub_fat_data \<Rightarrow> grub_disk
    \<Rightarrow> (grub_err + u8 list option) option" where
  "grub_fat_label mem disk =
     (case grub_fat_mount mem (Some disk) of
        Inl e \<Rightarrow> Some (Inl e)
      | Inr data \<Rightarrow>
          if attr data AND GRUB_FAT_ATTR_DIRECTORY = 0
          then Some (Inl (GRUB_ERR_BAD_FILE_TYPE ''not a directory''))
          else label_loop disk data (- of_nat GRUB_FAT_DIR_ENTRY_SIZE))"

section \<open>Specification-level notions\<close>

text \<open>
  The BPB that mount decodes from the first bytes of a device.
\<close>

definition mounted_bpb :: "grub_disk \<Rightarrow> grub_fat_bpb option" where
  "mounted_bpb disk = map_option decode_bpb (grub_disk_read disk 0 0 52)"

text \<open>A power of two, in a form that can be evaluated.\<close>

definition is_pow2 :: "nat \<Rightarrow> bool" where
  "is_pow2 n = (\<exists>k\<le>n. n = 2 ^ k)"

text \<open>
  The geometry of section 4.1 of the specification, as functions of the BPB:
  \<open>logical_sector_bits = log2(bytes_per_sector) - 9\<close>,
  \<open>cluster_bits = log2(sectors_per_cluster) + logical_sector_bits\<close>, the FAT, root
  directory and cluster region placed one after the other, and
  \<open>num_clusters = ((num_sectors - cluster_sector) >> (cluster_bits + logical_sector_bits)) + 2\<close>.
\<close>

definition geom_logical_sector_bits :: "grub_fat_bpb \<Rightarrow> int" where
  "geom_logical_sector_bits bpb =
     fat_log2 (unat (bytes_per_sector bpb)) - int GRUB_DISK_SECTOR_BITS"

definition geom_cluster_bits :: "grub_fat_bpb \<Rightarrow> int" where
  "geom_cluster_bits bpb =
     fat_log2 (unat (sectors_per_cluster bpb)) + geom_logical_sector_bits bpb"

definition geom_fat_sector :: "grub_fat_bpb \<Rightarrow> u16" where
  "geom_fat_sector bpb =
     push_bit (nat (geom_logical_sector_bits bpb)) (num_reserved_sectors bpb)"

definition geom_sectors_per_fat :: "grub_fat_bpb \<Rightarrow> u32" where
  "geom_sectors_per_fat bpb =
     push_bit (nat (geom_logical_sector_bits bpb))
       (if sectors_per_fat_16 bpb \<noteq> 0 then ucast (sectors_per_fat_16 bpb)
        else sectors_per_fat_32 bpb)"

definition geom_num_sectors :: "grub_fat_bpb \<Rightarrow> u32" where
  "geom_num_sectors bpb =
     push_bit (nat (geom_logical_sector_bits bpb))
       (if num_total_sectors_16 bpb \<noteq> 0 then ucast (num_total_sectors_16 bpb)
        else num_total_sectors_32 bpb)"

definition geom_root_sector :: "grub_fat_bpb \<Rightarrow> u32" where
  "geom_root_sector bpb =
     ucast (geom_fat_sector bpb) + ucast (num_fats bpb) * geom_sectors_per_fat bpb"

definition geom_num_root_sectors :: "grub_fat_bpb \<Rightarrow> u32" where
  "geom_num_root_sectors bpb =
     push_bit (nat (geom_logical_sector_bits bpb))
       (drop_bit (nat (geom_logical_sector_bits bpb) + GRUB_DISK_SECTOR_BITS)
          (ucast (num_root_entries bpb) * of_nat GRUB_FAT_DIR_ENTRY_SIZE
           + ucast (bytes_per_sector bpb) - 1))"

definition geom_cluster_sector :: "grub_fat_bpb \<Rightarrow> u32" where
  "geom_cluster_sector bpb = geom_root_sector bpb + geom_num_root_sectors bpb"

definition geom_num_clusters :: "grub_fat_bpb \<Rightarrow> u32" where
  "geom_num_clusters bpb =
     drop_bit (nat (geom_cluster_bits bpb + geom_logical_sector_bits bpb))
       (geom_num_sectors bpb - geom_cluster_sector bpb) + 2"

definition geometry_ok :: "grub_fat_bpb \<Rightarrow> bool" where
  "geometry_ok bpb \<longleftrightarrow>
     is_pow2 (unat (bytes_per_sector bpb)) \<and> 512 \<le> unat (bytes_per_sector bpb)
     \<and> is_pow2 (unat (sectors_per_cluster bpb))
     \<and> 1 \<le> unat (num_fats bpb)
     \<and> 0 < geom_sectors_per_fat bpb
     \<and> 2 < geom_num_clusters bpb"

text \<open>
  The discrimination of the FAT variant as the specification words it (by cluster count
  first), and as the branches of mount make it (by \<open>sectors_per_fat_16\<close> first). Each gives
  \<open>fat_size\<close> and \<open>cluster_eof_mark\<close>.
\<close>

definition spec_fat_variant :: "grub_fat_bpb \<Rightarrow> grub_fat_data \<Rightarrow> int \<times> u32" where
  "spec_fat_variant bpb d =
     (if num_clusters d \<le> 4085 + 2 then (12, 0x0ff8)
      else if sectors_per_fat_16 bpb \<noteq> 0 then (16, 0xfff8)
      else (32, 0x0ffffff8))"

definition code_fat_variant :: "grub_fat_bpb \<Rightarrow> grub_fat_data \<Rightarrow> int \<times> u32" where
  "code_fat_variant bpb d =
     (if sectors_per_fat_16 bpb = 0 then (32, 0x0ffffff8)
      else if num_clusters d \<le> 4085 + 2 then (12, 0x0ff8)
      else (16, 0xfff8))"

text \<open>
  The authoritative decode of a packed FAT12 table: entry \<open>c\<close> is the 12 bits from bit
  \<open>12 * c\<close> of the table read as a little-endian bit string (bit \<open>j\<close> of the table is bit
  \<open>j mod 8\<close> of byte \<open>j div 8\<close>). \<open>fat_table\<close> is the active FAT on the device, by byte.
\<close>

definition fat_table :: "grub_disk \<Rightarrow> grub_fat_data \<Rightarrow> nat \<Rightarrow> u8" where
  "fat_table disk data i =
     disk_bytes disk (unat (fat_sector data) * 2 ^ GRUB_DISK_SECTOR_BITS + i)"

definition fat12_entry_bits :: "(nat \<Rightarrow> u8) \<Rightarrow> nat \<Rightarrow> bool list" where
  "fat12_entry_bits tbl c =
     map (\<lambda>i. bit (tbl ((12 * c + i) div 8)) ((12 * c + i) mod 8)) [0 ..< 12]"

definition fat12_bitwise_decode :: "(nat \<Rightarrow> u8) \<Rightarrow> nat \<Rightarrow> u32" where
  "fat12_bitwise_decode tbl c = horner_sum of_bool 2 (fat12_entry_bits tbl c)"

section \<open>Test volumes\<close>

text \<open>
  A device is given by its size and by segments of bytes (first byte, end, contents);
  every other byte is zero. The handle that mount fills in is allocated with all fields
  zero.
\<close>

fun seg_bytes :: "(nat \<times> nat \<times> u8 list) list \<Rightarrow> nat \<Rightarrow> u8" where
  "seg_bytes [] a = 0"
| "seg_bytes ((s, e, bs) # r) a =
     (if s \<le> a \<and> a < e then bs ! (a - s) else seg_bytes r a)"

definition mk_disk :: "nat \<Rightarrow> (nat \<times> nat \<times> u8 list) list \<Rightarrow> grub_disk" where
  "mk_disk n segs = \<lparr> disk_bytes = seg_bytes segs, disk_size = n \<rparr>"

definition mem0 :: grub_fat_data where
  "mem0 = \<lparr> logical_sector_bits = 0, num_sectors = 0, fat_sector = 0, sectors_per_fat = 0,
            fat_size = 0, root_cluster = 0, root_sector = 0, num_root_sectors = 0,
            cluster_bits = 0, cluster_eof_mark = 0, cluster_sector = 0, num_clusters = 0,
            attr = 0, file_size = 0, file_cluster = 0, cur_cluster_num = 0,
            cur_cluster = 0 \<rparr>"

text \<open>
  The 52 bytes of a BPB: 11 bytes of jump and OEM name, then the fields in the order of
  the packed struct.
\<close>

definition bpb_bytes :: "u8 list \<Rightarrow> u8 list \<Rightarrow> u8 list" where
  "bpb_bytes fields16 fields32 =
     [0, 0, 0, 0, 0, 0, 0, 0, 0, 0, 0] @ fields16 @ [0, 0, 0, 0, 0, 0, 0, 0] @ fields32"

text \<open>A directory entry: name, attribute, first cluster (high and low half), size.\<close>

definition entry32 :: "string \<Rightarrow> u8 \<Rightarrow> u8 list \<Rightarrow> u8 list \<Rightarrow> u8 list \<Rightarrow> u8 list" where
  "entry32 name a cluster_high cluster_low sz =
     map of_char name @ [a, 0, 0, 0, 0, 0, 0, 0, 0] @ cluster_high @ [0, 0, 0, 0]
     @ cluster_low @ sz"

text \<open>
  A volume of 100 sectors of 512 bytes, one sector per cluster, one FAT of one sector after
  one reserved sector, \<open>sectors_per_fat_16 = 0\<close>, \<open>sectors_per_fat_32 = 1\<close>, root cluster 2,
  media byte \<open>0xF8\<close>; the FAT starts with \<open>F8 FF FF 0F\<close>.
\<close>

definition fat32_tiny_boot :: "u8 list" where
  "fat32_tiny_boot =
     bpb_bytes [0x00, 0x02, 1, 1, 0, 1, 0, 0, 100, 0, 0xF8, 0, 0, 0, 0, 0, 0]
       [1, 0, 0, 0, 0, 0, 0, 0, 2, 0, 0, 0, 0, 0, 0, 0]"

definition fat32_tiny_fat :: "u8 list" where
  "fat32_tiny_fat = [0xF8, 0xFF, 0xFF, 0x0F]"

definition fat32_tiny :: grub_disk where
  "fat32_tiny = mk_disk 51200 [(0, 52, fat32_tiny_boot), (512, 516, fat32_tiny_fat)]"

definition fat32_tiny_bpb :: grub_fat_bpb where
  "fat32_tiny_bpb = \<lparr> bytes_per_sector = 512, sectors_per_cluster = 1,
     num_reserved_sectors = 1, num_fats = 1, num_root_entries = 0,
     num_total_sectors_16 = 100, media = 0xF8, sectors_per_fat_16 = 0,
     num_total_sectors_32 = 0, sectors_per_fat_32 = 1, extended_flags = 0,
     fs_version = 0, bpb_root_cluster = 2 \<rparr>"

definition fat32_tiny_handle :: grub_fat_data where
  "fat32_tiny_handle = \<lparr> logical_sector_bits = 0, num_sectors = 100, fat_sector = 1,
            sectors_per_fat = 1,
            fat_size = 32, root_cluster = 2, root_sector = 2, num_root_sectors = 0,
            cluster_bits = 0, cluster_eof_mark = 0x0ffffff8, cluster_sector = 2,
            num_clusters = 100,
            attr = 0x10, file_size = 0, file_cluster = 2, cur_cluster_num = 0xffffffff,
            cur_cluster = 0 \<rparr>"

text \<open>The same volume with \<open>bytes_per_sector = 513\<close>.\<close>

definition bad_sector_size_boot :: "u8 list" where
  "bad_sector_size_boot =
     bpb_bytes [0x01, 0x02, 1, 1, 0, 1, 0, 0, 100, 0, 0xF8, 0, 0, 0, 0, 0, 0]
       [1, 0, 0, 0, 0, 0, 0, 0, 2, 0, 0, 0, 0, 0, 0, 0]"

definition bad_sector_size :: grub_disk where
  "bad_sector_size =
     mk_disk 51200 [(0, 52, bad_sector_size_boot), (512, 516, fat32_tiny_fat)]"

definition bad_sector_size_bpb :: grub_fat_bpb where
  "bad_sector_size_bpb = fat32_tiny_bpb\<lparr> bytes_per_sector := 513 \<rparr>"

text \<open>
  A FAT12 volume of 64 sectors of 512 bytes, one sector per cluster: one reserved sector,
  two FATs of one sector each (sectors 1 and 2), a root directory of 16 entries (sector 3),
  clusters from sector 4. The FAT holds the chains 2 \<rightarrow> 3 \<rightarrow> end and 4 \<rightarrow> end. The root
  directory holds the volume label \<open>MY VOLUME\<close>, \<open>HELLO.TXT\<close> (6 bytes, cluster 4),
  \<open>BIG.BIN\<close> (600 bytes, cluster 2) and \<open>EMPTY\<close> (0 bytes, first cluster 0). Cluster 4
  starts with the six bytes of \<open>HELLO.TXT\<close>.
\<close>

definition fat12_boot :: "u8 list" where
  "fat12_boot =
     bpb_bytes [0x00, 0x02, 1, 1, 0, 2, 16, 0, 64, 0, 0xF8, 1, 0, 0, 0, 0, 0]
       [0, 0, 0, 0, 0, 0, 0, 0, 0, 0, 0, 0, 0, 0, 0, 0]"

definition fat12_fat :: "u8 list" where
  "fat12_fat = [0xF8, 0xFF, 0xFF, 0x03, 0xF0, 0xFF, 0xFF, 0x0F, 0x00]"

definition fat12_label :: "u8 list" where
  "fat12_label = entry32 ''MY VOLUME  '' 0x08 [0, 0] [0, 0] [0, 0, 0, 0]"

definition fat12_hello :: "u8 list" where
  "fat12_hello = entry32 ''HELLO   TXT'' 0x20 [0, 0] [4, 0] [6, 0, 0, 0]"

definition fat12_big :: "u8 list" where
  "fat12_big = entry32 ''BIG     BIN'' 0x20 [0, 0] [2, 0] [0x58, 0x02, 0, 0]"

definition fat12_empty :: "u8 list" where
  "fat12_empty = entry32 ''EMPTY      '' 0x20 [0, 0] [0, 0] [0, 0, 0, 0]"

definition fat12_big_head :: "u8 list" where
  "fat12_big_head = [0x42, 0x49, 0x47, 0x31]"

definition fat12_big_middle :: "u8 list" where
  "fat12_big_middle = [0x61, 0x62, 0x63, 0x64, 0x65, 0x66, 0x67, 0x68]"

definition fat12_hello_data :: "u8 list" where
  "fat12_hello_data = map of_char ''hello'' @ [0x0A, 0, 0, 0, 0, 0, 0, 0, 0, 0, 0]"

definition fat12_segments :: "(nat \<times> nat \<times> u8 list) list" where
  "fat12_segments =
     [(0, 52, fat12_boot), (512, 521, fat12_fat),
      (1536, 1568, fat12_label), (1568, 1600, fat12_hello), (1600, 1632, fat12_big),
      (1632, 1664, fat12_empty),
      (2048, 2052, fat12_big_head), (2556, 2564, fat12_big_middle),
      (3072, 3088, fat12_hello_data)]"

definition fat12_vol :: grub_disk where
  "fat12_vol = mk_disk 32768 fat12_segments"

definition fat12_bpb :: grub_fat_bpb where
  "fat12_bpb = \<lparr> bytes_per_sector = 512, sectors_per_cluster = 1,
     num_reserved_sectors = 1, num_fats = 2, num_root_entries = 16,
     num_total_sectors_16 = 64, media = 0xF8, sectors_per_fat_16 = 1,
     num_total_sectors_32 = 0, sectors_per_fat_32 = 0, extended_flags = 0,
     fs_version = 0, bpb_root_cluster = 0 \<rparr>"

definition fat12_handle :: grub_fat_data where
  "fat12_handle = \<lparr> logical_sector_bits = 0, num_sectors = 64, fat_sector = 1,
            sectors_per_fat = 1,
            fat_size = 12, root_cluster = 0xffffffff, root_sector = 3,
            num_root_sectors = 1,
            cluster_bits = 0, cluster_eof_mark = 0x0ff8, cluster_sector = 4,
            num_clusters = 62,
            attr = 0x10, file_size = 0, file_cluster = 0xffffffff,
            cur_cluster_num = 0xffffffff, cur_cluster = 0 \<rparr>"

text \<open>The bytes of the device from address \<open>a\<close>, \<open>n\<close> of them.\<close>

definition disk_range :: "grub_disk \<Rightarrow> nat \<Rightarrow> nat \<Rightarrow> u8 list" where
  "disk_range disk a n = map (disk_bytes disk) [a ..< a + n]"

definition seg_range :: "(nat \<times> nat \<times> u8 list) list \<Rightarrow> nat \<Rightarrow> nat \<Rightarrow> u8 list" where
  "seg_range segs a n = map (seg_bytes segs) [a ..< a + n]"

text \<open>
  The records of a directory as the driver reads them: \<open>dir_records disk data offset n\<close>
  reads \<open>n\<close> records of 32 bytes one after the other from \<open>offset\<close> on, through the
  positional reader, each read starting from the handle the one before left.
\<close>

fun dir_records :: "grub_disk \<Rightarrow> grub_fat_data \<Rightarrow> u32 \<Rightarrow> nat \<Rightarrow> u8 list list option" where
  "dir_records disk data offset 0 = Some []"
| "dir_records disk data offset (Suc n) =
     (case grub_fat_read_data disk data offset 32 of
        Some (data1, clusters, Inr bs) \<Rightarrow>
          if length bs = 32
          then map_option ((#) bs) (dir_records disk data1 (offset + 32) n)
          else None
      | _ \<Rightarrow> None)"

text \<open>
  The raw scan for the label over a list of records: a record whose name starts with NUL
  ends the directory (no label), a record whose attribute byte is exactly \<open>0x08\<close> gives the
  label, every other record is skipped. The result is \<open>None\<close> when the list is exhausted
  first.
\<close>

fun label_scan :: "u8 list list \<Rightarrow> u8 list option option" where
  "label_scan [] = None"
| "label_scan (r # rs) =
     (if r ! 0 = 0 then Some None
      else if r ! 11 = 0x08 then Some (Some (grub_strndup r 11))
      else label_scan rs)"

text \<open>
  Three variants of the FAT12 volume. In the first the third byte of the label's name is
  NUL. In the second the label entry has the attribute byte \<open>0x28\<close> (volume id and
  archive), so that no entry has the attribute \<open>0x08\<close>. In the third the root directory
  holds \<open>HELLO.TXT\<close>, then the old label as a deleted entry (first byte \<open>0xE5\<close>, attribute
  still \<open>0x08\<close>), then a live label \<open>NEWLABEL\<close>.
\<close>

definition fat12_nul_label :: grub_disk where
  "fat12_nul_label = mk_disk 32768 ((1536, 1568, fat12_label[2 := 0]) # fat12_segments)"

definition fat12_no_label :: grub_disk where
  "fat12_no_label = mk_disk 32768 ((1536, 1568, fat12_label[11 := 0x28]) # fat12_segments)"

definition fat12_new_label :: "u8 list" where
  "fat12_new_label = entry32 ''NEWLABEL   '' 0x08 [0, 0] [0, 0] [0, 0, 0, 0]"

definition fat12_deleted_label :: grub_disk where
  "fat12_deleted_label = mk_disk 32768
     ((1536, 1568, fat12_hello) # (1568, 1600, fat12_label[0 := 0xE5])
      # (1600, 1632, fat12_new_label) # fat12_segments)"

text \<open>
  The 8.3 name as the specification words it: bytes 0 to 7 are the base, 8 to 10 the
  extension, trailing spaces stripped, lowercased, joined by a dot only if an extension
  exists.
\<close>

definition strip_trailing_spaces :: "u8 list \<Rightarrow> u8 list" where
  "strip_trailing_spaces bs = rev (dropWhile (\<lambda>c. c = 0x20) (rev bs))"

definition spec_8dot3 :: "u8 list \<Rightarrow> u8 list" where
  "spec_8dot3 name =
     (let base = map grub_tolower (strip_trailing_spaces (take 8 name));
          ext = map grub_tolower (strip_trailing_spaces (take 3 (drop 8 name)))
      in if ext = [] then base else base @ [0x2E] @ ext)"

text \<open>
  A name part that is padded with spaces and has no NUL or whitespace byte before the
  padding.
\<close>

definition space_padded :: "u8 list \<Rightarrow> bool" where
  "space_padded bs \<longleftrightarrow>
     (\<forall>c \<in> set (strip_trailing_spaces bs). c \<noteq> 0 \<and> \<not> grub_isspace c)"

text \<open>
  A hook that records the names it is called with and never stops the scan, and a stand-in
  for \<open>grub_utf16_to_utf8\<close> that is right for code units below \<open>0x80\<close>.
\<close>

definition collect_names :: "u8 list list fat_hook" where
  "collect_names h filename dirflag = (h @ [filename], False)"

definition utf16_ascii :: "u16 list \<Rightarrow> u8 list" where
  "utf16_ascii us = map ucast us"

text \<open>A short entry \<open>A B.TXT\<close>, with a space inside the base.\<close>

definition entry_a_b :: "u8 list" where
  "entry_a_b = entry32 ''A B     TXT'' 0x20 [0, 0] [5, 0] [1, 0, 0, 0]"

text \<open>
  A short entry whose name starts with \<open>0x05\<close>, and one without extension.
\<close>

definition entry_05 :: "u8 list" where
  "entry_05 = (entry32 ''?BC     TXT'' 0x20 [0, 0] [5, 0] [1, 0, 0, 0])[0 := 0x05]"

definition entry_noext :: "u8 list" where
  "entry_noext = entry32 ''README     '' 0x20 [0, 0] [5, 0] [1, 0, 0, 0]"

text \<open>
  The checksum of a short name as the specification words it: the fold of
  \<open>s \<mapsto> rotate_right_8 (s) + b\<close> over the name bytes, from 0.
\<close>

definition spec_sum8dot3 :: "u8 list \<Rightarrow> u8" where
  "spec_sum8dot3 name = foldl (\<lambda>s b. word_rotr 1 s + b) 0 name"

text \<open>
  A long-name group of one slot for the name \<open>Ab.txt\<close> (id \<open>0x41\<close>, checksum \<open>0x6E\<close>),
  the short entry \<open>AB.TXT\<close> it belongs to, and a long-name slot with id 3 and no start
  flag.
\<close>

definition lfn_ab :: "u8 list" where
  "lfn_ab = [0x41, 0x41, 0, 0x62, 0, 0x2E, 0, 0x74, 0, 0x78, 0, 0x0F, 0, 0x6E,
             0x74, 0, 0, 0, 0xFF, 0xFF, 0xFF, 0xFF, 0xFF, 0xFF, 0xFF, 0xFF, 0, 0,
             0xFF, 0xFF, 0xFF, 0xFF]"

definition entry_ab :: "u8 list" where
  "entry_ab = entry32 ''AB      TXT'' 0x20 [0, 0] [5, 0] [1, 0, 0, 0]"

definition lfn_stray :: "u8 list" where
  "lfn_stray = lfn_ab[0 := 0x03]"

text \<open>
  One pass of the scanner over the record \<open>r\<close>, listing a directory with the recording
  hook.
\<close>

definition scan_test :: "u8 list \<Rightarrow> u8 list list dir_scan \<Rightarrow> u8 list list dir_scan" where
  "scan_test r st = fst (scan_record utf16_ascii (Some collect_names) [] (st\<lparr> ds_dir := r \<rparr>))"

text \<open>
  A device of 3 sectors of 512 bytes whose BPB announces two sectors per cluster, one
  reserved sector, two FATs of one sector each and a root directory of 16 entries: the
  FATs and the root directory fill sectors 1 to 3, so the cluster region would start at
  sector 4, after the end of the volume, which has no data cluster at all. The FAT starts
  with \<open>F8 FF\<close>.
\<close>

definition no_cluster_boot :: "u8 list" where
  "no_cluster_boot =
     bpb_bytes [0x00, 0x02, 2, 1, 0, 2, 16, 0, 3, 0, 0xF8, 1, 0, 0, 0, 0, 0]
       [0, 0, 0, 0, 0, 0, 0, 0, 0, 0, 0, 0, 0, 0, 0, 0]"

definition no_cluster_vol :: grub_disk where
  "no_cluster_vol =
     mk_disk 1536 [(0, 52, no_cluster_boot), (512, 516, [0xF8, 0xFF, 0xFF, 0xFF])]"

definition no_cluster_bpb :: grub_fat_bpb where
  "no_cluster_bpb = \<lparr> bytes_per_sector = 512, sectors_per_cluster = 2,
     num_reserved_sectors = 1, num_fats = 2, num_root_entries = 16,
     num_total_sectors_16 = 3, media = 0xF8, sectors_per_fat_16 = 1,
     num_total_sectors_32 = 0, sectors_per_fat_32 = 0, extended_flags = 0,
     fs_version = 0, bpb_root_cluster = 0 \<rparr>"

definition no_cluster_handle :: grub_fat_data where
  "no_cluster_handle = \<lparr> logical_sector_bits = 0, num_sectors = 3, fat_sector = 1,
            sectors_per_fat = 1,
            fat_size = 16, root_cluster = 0xffffffff, root_sector = 3,
            num_root_sectors = 1,
            cluster_bits = 1, cluster_eof_mark = 0xfff8, cluster_sector = 4,
            num_clusters = 0x80000001,
            attr = 0x10, file_size = 0, file_cluster = 0xffffffff,
            cur_cluster_num = 0xffffffff, cur_cluster = 0 \<rparr>"

text \<open>
  The cluster count of section 4.1 of the specification read over the integers, where the
  subtraction \<open>num_sectors - cluster_sector\<close> does not wrap around.
\<close>

definition spec_num_clusters :: "grub_fat_bpb \<Rightarrow> int" where
  "spec_num_clusters bpb =
     (uint (geom_num_sectors bpb) - uint (geom_cluster_sector bpb))
       div 2 ^ nat (geom_cluster_bits bpb + geom_logical_sector_bits bpb) + 2"

text \<open>
  The group of \<open>lfn_ab\<close> with the recorded checksum \<open>0xC2\<close>, which is the sum of the
  11 name bytes of \<open>entry_05\<close> as they are on the device.
\<close>

definition lfn_05 :: "u8 list" where
  "lfn_05 = lfn_ab[13 := 0xC2]"

text \<open>
  A long-name group of two slots for the name \<open>LongFileName.txt\<close> (checksum \<open>0xD4\<close>):
  the slot with id \<open>0x42\<close> comes first and holds the code units from 13 on, the slot with
  id 1 holds the first 13 code units; then the short entry \<open>LONGFI~1.TXT\<close>.
\<close>

definition lfn_long2 :: "u8 list" where
  "lfn_long2 = [0x42, 0x74, 0, 0x78, 0, 0x74, 0, 0, 0, 0xFF, 0xFF, 0x0F, 0, 0xD4,
                0xFF, 0xFF, 0xFF, 0xFF, 0xFF, 0xFF, 0xFF, 0xFF, 0xFF, 0xFF, 0xFF, 0xFF, 0, 0,
                0xFF, 0xFF, 0xFF, 0xFF]"

definition lfn_long1 :: "u8 list" where
  "lfn_long1 = [1, 0x4C, 0, 0x6F, 0, 0x6E, 0, 0x67, 0, 0x46, 0, 0x0F, 0, 0xD4,
                0x69, 0, 0x6C, 0, 0x65, 0, 0x4E, 0, 0x61, 0, 0x6D, 0, 0, 0,
                0x65, 0, 0x2E, 0]"

definition entry_long :: "u8 list" where
  "entry_long = entry32 ''LONGFI~1TXT'' 0x20 [0, 0] [5, 0] [1, 0, 0, 0]"

text \<open>
  One pass of the scanner over the record \<open>r\<close>, looking up the path component \<open>dn\<close>
  without a hook: whether the loop is left at this record.
\<close>

definition lookup_test :: "u8 list \<Rightarrow> u8 list \<Rightarrow> u8 list list dir_scan \<Rightarrow> scan_step" where
  "lookup_test dn r st = snd (scan_record utf16_ascii None dn (st\<lparr> ds_dir := r \<rparr>))"

text \<open>
  The condition under which, in the words of the specification, the long-name group stands
  for the entry: the group is complete and \<open>sum8dot3\<close> of the 11 name bytes of the entry
  equals the recorded checksum.
\<close>

definition spec_attach :: "'h dir_scan \<Rightarrow> u8 list \<Rightarrow> bool" where
  "spec_attach st entry \<longleftrightarrow>
     ds_slot st = 0 \<and> uint (spec_sum8dot3 (take 11 entry)) = ds_checksum st"


text \<open>
  A variant of the FAT12 volume whose first root entry is \<open>BAD.BIN\<close>, a file of 32 bytes
  whose first cluster is 1, and the handle that open leaves for it.
\<close>

definition fat12_bad_entry :: "u8 list" where
  "fat12_bad_entry = entry32 ''BAD     BIN'' 0x20 [0, 0] [1, 0] [32, 0, 0, 0]"

definition fat12_bad_first :: grub_disk where
  "fat12_bad_first = mk_disk 32768 ((1536, 1568, fat12_bad_entry) # fat12_segments)"

definition bad_handle :: grub_fat_data where
  "bad_handle = fat12_handle\<lparr> attr := 0x20, file_size := 32, file_cluster := 1 \<rparr>"

text \<open>
  A variant of the FAT12 volume whose first root entry is \<open>ALIAS.BIN\<close>, a file of 1024
  bytes whose first cluster is \<open>0xFFFFFFFF\<close> (both halves \<open>0xFFFF\<close>), and the handle that
  open leaves for it.
\<close>

definition fat12_alias_entry :: "u8 list" where
  "fat12_alias_entry = entry32 ''ALIAS   BIN'' 0x20 [0xFF, 0xFF] [0xFF, 0xFF] [0, 4, 0, 0]"

definition fat12_alias :: grub_disk where
  "fat12_alias = mk_disk 32768 ((1536, 1568, fat12_alias_entry) # fat12_segments)"


section \<open>Properties of mount\<close>

subsection \<open>fat_log2\<close>

lemma fat_log2_loop_pow2: "fat_log2_loop (2 ^ k) i = i + int k"
proof (induction k arbitrary: i)
  case 0
  show ?case by (subst fat_log2_loop.simps) simp
next
  case (Suc k)
  have "fat_log2_loop (2 ^ Suc k) i = fat_log2_loop (2 ^ k) (i + 1)"
    by (subst fat_log2_loop.simps) simp
  then show ?case using Suc.IH [of "i + 1"] by simp
qed

lemma fat_log2_loop_result:
  "0 \<le> i \<Longrightarrow> 0 \<le> fat_log2_loop x i \<Longrightarrow> x = 2 ^ nat (fat_log2_loop x i - i) \<and> i \<le> fat_log2_loop x i"
proof (induction x i rule: fat_log2_loop.induct)
  case (1 x i)
  show ?case
  proof (cases "x \<noteq> 0 \<and> x mod 2 = 0")
    case True
    then have eq: "fat_log2_loop x i = fat_log2_loop (x div 2) (i + 1)"
      by (subst fat_log2_loop.simps) simp
    from 1(1)[OF True] 1(2) 1(3) eq
    have ih: "x div 2 = 2 ^ nat (fat_log2_loop x i - (i + 1))" "i + 1 \<le> fat_log2_loop x i"
      by auto
    have "nat (fat_log2_loop x i - i) = Suc (nat (fat_log2_loop x i - (i + 1)))"
      using ih(2) by linarith
    moreover have "x = 2 * (x div 2)" using True by auto
    ultimately show ?thesis using ih by simp
  next
    case False
    then have eq: "fat_log2_loop x i = (if x \<noteq> 1 then - 1 else i)"
      by (subst fat_log2_loop.simps) (simp only: if_False)
    with 1(2) 1(3) show ?thesis by (auto split: if_splits)
  qed
qed

lemma is_pow2_iff: "is_pow2 n \<longleftrightarrow> (\<exists>k. n = 2 ^ k)"
  unfolding is_pow2_def
  by (metis less_exp order_less_imp_le)

lemma fat_log2_nonneg_iff: "0 \<le> fat_log2 x \<longleftrightarrow> is_pow2 x"
proof
  assume "0 \<le> fat_log2 x"
  then have "x \<noteq> 0" "0 \<le> fat_log2_loop x 0"
    by (auto simp: fat_log2_def split: if_splits)
  from fat_log2_loop_result [OF _ this(2)] show "is_pow2 x"
    by (auto simp: is_pow2_iff)
next
  assume "is_pow2 x"
  then obtain k where "x = 2 ^ k" by (auto simp: is_pow2_iff)
  then show "0 \<le> fat_log2 x"
    by (simp add: fat_log2_def fat_log2_loop_pow2)
qed

lemma fat_log2_pow2: "fat_log2 (2 ^ k) = int k"
  by (simp add: fat_log2_def fat_log2_loop_pow2)

lemma fat_log2_ge_iff: "int m \<le> fat_log2 x \<longleftrightarrow> is_pow2 x \<and> 2 ^ m \<le> x"
proof
  assume h: "int m \<le> fat_log2 x"
  then have p: "is_pow2 x" using fat_log2_nonneg_iff [of x] by simp
  then obtain k where k: "x = 2 ^ k" by (auto simp: is_pow2_iff)
  with h have "m \<le> k" by (simp add: fat_log2_pow2)
  then show "is_pow2 x \<and> 2 ^ m \<le> x" using p k by simp
next
  assume "is_pow2 x \<and> 2 ^ m \<le> x"
  then obtain k where k: "x = 2 ^ k" "(2::nat) ^ m \<le> 2 ^ k" by (auto simp: is_pow2_iff)
  then have "m \<le> k" by simp
  then show "int m \<le> fat_log2 x" using k by (simp add: fat_log2_pow2)
qed


lemma fat_log2_512: "fat_log2 512 = 9"
  using fat_log2_pow2 [of 9] by simp

lemma fat_log2_1: "fat_log2 1 = 0"
  using fat_log2_pow2 [of 0] by simp

lemma fat_log2_Suc0: "fat_log2 (Suc 0) = 0"
  using fat_log2_pow2 [of 0] by simp

subsection \<open>What a successful mount implies\<close>

lemma mount_check_fat_Inr:
  assumes "mount_check_fat disk bpb data = Inr d"
  shows "d = data\<lparr> file_cluster := root_cluster data, cur_cluster_num := - 1,
                   attr := GRUB_FAT_ATTR_DIRECTORY \<rparr>"
  using assms
  by (auto simp: mount_check_fat_def not_a_fat_def Let_def
           split: if_splits option.splits prod.splits)

lemma mount_variant_Inr:
  assumes "mount_variant disk bpb data = Inr d"
  shows "sectors_per_fat d = sectors_per_fat data" "num_clusters d = num_clusters data"
    "sectors_per_fat_16 bpb = 0 \<longrightarrow> fat_size d = 32 \<and> cluster_eof_mark d = 0x0ffffff8"
    "sectors_per_fat_16 bpb \<noteq> 0 \<and> num_clusters data \<le> 4085 + 2
       \<longrightarrow> fat_size d = 12 \<and> cluster_eof_mark d = 0x0ff8"
    "sectors_per_fat_16 bpb \<noteq> 0 \<and> \<not> num_clusters data \<le> 4085 + 2
       \<longrightarrow> fat_size d = 16 \<and> cluster_eof_mark d = 0xfff8"
  using assms
  by (auto simp: mount_variant_def not_a_fat_def Let_def
           split: if_splits dest!: mount_check_fat_Inr)

lemma mount_bpb_unfold:
  "grub_fat_mount_bpb mem disk bpb =
     (if fat_log2 (unat (bytes_per_sector bpb)) < 9 then not_a_fat
      else if fat_log2 (unat (sectors_per_cluster bpb)) < 0 then not_a_fat
      else if geom_fat_sector bpb = 0 then not_a_fat
      else if geom_sectors_per_fat bpb = 0 then not_a_fat
      else if geom_num_sectors bpb = 0 then not_a_fat
      else if num_fats bpb = 0 then not_a_fat
      else if geom_num_clusters bpb \<le> 2 then not_a_fat
      else mount_variant disk bpb
             (mem\<lparr> logical_sector_bits := geom_logical_sector_bits bpb,
                   cluster_bits := geom_cluster_bits bpb,
                   fat_sector := geom_fat_sector bpb,
                   sectors_per_fat := geom_sectors_per_fat bpb,
                   num_sectors := geom_num_sectors bpb,
                   root_sector := geom_root_sector bpb,
                   num_root_sectors := geom_num_root_sectors bpb,
                   cluster_sector := geom_cluster_sector bpb,
                   num_clusters := geom_num_clusters bpb \<rparr>))"
  unfolding grub_fat_mount_bpb_def Let_def geom_sectors_per_fat_def geom_num_clusters_def
      geom_logical_sector_bits_def geom_cluster_bits_def geom_num_sectors_def
      geom_cluster_sector_def geom_root_sector_def geom_num_root_sectors_def
      geom_fat_sector_def
  by (simp add: GRUB_DISK_SECTOR_BITS_def)

lemma mount_bpb_Inr:
  assumes "grub_fat_mount_bpb mem disk bpb = Inr d"
  shows "9 \<le> fat_log2 (unat (bytes_per_sector bpb))"
    "0 \<le> fat_log2 (unat (sectors_per_cluster bpb))"
    "num_fats bpb \<noteq> 0"
    "geom_sectors_per_fat bpb \<noteq> 0" "2 < geom_num_clusters bpb"
    "\<exists>data. mount_variant disk bpb data = Inr d
       \<and> sectors_per_fat data = geom_sectors_per_fat bpb
       \<and> num_clusters data = geom_num_clusters bpb"
  using assms unfolding mount_bpb_unfold
  by (auto split: if_splits simp: not_a_fat_def not_le)


lemma grub_fat_mount_Some:
  "grub_fat_mount mem (Some disk) =
     (case mounted_bpb disk of None \<Rightarrow> not_a_fat
      | Some bpb \<Rightarrow> grub_fat_mount_bpb mem disk bpb)"
  by (simp add: grub_fat_mount_def mounted_bpb_def split: option.splits)

lemma grub_fat_mount_Inr:
  assumes "grub_fat_mount mem diskp = Inr d"
  shows "\<exists>disk bpb. diskp = Some disk \<and> mounted_bpb disk = Some bpb
           \<and> grub_fat_mount_bpb mem disk bpb = Inr d"
  using assms
  by (cases diskp) (auto simp: grub_fat_mount_def mounted_bpb_def not_a_fat_def
      split: option.splits)

lemma one_le_unat_iff: "1 \<le> unat w \<longleftrightarrow> w \<noteq> 0"
  by (simp add: Suc_le_eq unat_gt_0)

subsection \<open>Mounting the test volumes\<close>

lemma disk_read_mk_disk:
  "grub_disk_read (mk_disk n segs) sector offset sz =
     (if sector * 512 + offset + sz \<le> n
      then Some (map (seg_bytes segs) [sector * 512 + offset ..< sector * 512 + offset + sz])
      else None)"
  by (simp add: grub_disk_read_def mk_disk_def GRUB_DISK_SECTOR_BITS_def Let_def)

lemma fat32_tiny_boot_literal: "fat32_tiny_boot =
     [0, 0, 0, 0, 0, 0, 0, 0, 0, 0, 0, 0, 2, 1, 1, 0, 1, 0, 0, 100, 0, 248, 0, 0, 0,
      0, 0, 0, 0, 0, 0, 0, 0, 0, 0, 0, 1, 0, 0, 0, 0, 0, 0, 0, 2, 0, 0, 0, 0, 0, 0, 0]"
  by (simp add: fat32_tiny_boot_def bpb_bytes_def)

lemma bad_sector_size_boot_literal: "bad_sector_size_boot =
     [0, 0, 0, 0, 0, 0, 0, 0, 0, 0, 0, 1, 2, 1, 1, 0, 1, 0, 0, 100, 0, 248, 0, 0, 0,
      0, 0, 0, 0, 0, 0, 0, 0, 0, 0, 0, 1, 0, 0, 0, 0, 0, 0, 0, 2, 0, 0, 0, 0, 0, 0, 0]"
  by (simp add: bad_sector_size_boot_def bpb_bytes_def)

lemma fat12_boot_literal: "fat12_boot =
     [0, 0, 0, 0, 0, 0, 0, 0, 0, 0, 0, 0, 2, 1, 1, 0, 2, 16, 0, 64, 0, 248, 1, 0, 0,
      0, 0, 0, 0, 0, 0, 0, 0, 0, 0, 0, 0, 0, 0, 0, 0, 0, 0, 0, 0, 0, 0, 0, 0, 0, 0, 0]"
  by (simp add: fat12_boot_def bpb_bytes_def)

lemma fat32_tiny_sector0: "grub_disk_read fat32_tiny 0 0 52 = Some fat32_tiny_boot"
  unfolding fat32_tiny_def disk_read_mk_disk
  by (simp add: upt_conv_Cons fat32_tiny_boot_literal)

lemma fat32_tiny_mounted_bpb: "mounted_bpb fat32_tiny = Some fat32_tiny_bpb"
  unfolding mounted_bpb_def fat32_tiny_sector0 fat32_tiny_boot_literal
  by (simp add: decode_bpb_def le16_def le32_def fat32_tiny_bpb_def)

lemma fat32_tiny_fat0: "grub_disk_read fat32_tiny 1 0 4 = Some [0xF8, 0xFF, 0xFF, 0x0F]"
  unfolding fat32_tiny_def disk_read_mk_disk
  by (simp add: upt_conv_Cons fat32_tiny_fat_def)

lemma fat32_tiny_mount:
  "grub_fat_mount mem0 (Some fat32_tiny) = Inr fat32_tiny_handle"
  unfolding grub_fat_mount_Some fat32_tiny_mounted_bpb option.case
  using fat32_tiny_fat0
  by (simp add: grub_fat_mount_bpb_def fat_log2_512 fat_log2_1 fat_log2_Suc0
      GRUB_DISK_SECTOR_BITS_def GRUB_FAT_DIR_ENTRY_SIZE_def mount_variant_def
      mount_check_fat_def Let_def le32_def mem0_def fat32_tiny_handle_def
      GRUB_FAT_ATTR_DIRECTORY_def word_le_nat_alt word_less_nat_alt fat32_tiny_bpb_def)

lemma bad_sector_size_sector0:
  "grub_disk_read bad_sector_size 0 0 52 = Some bad_sector_size_boot"
  unfolding bad_sector_size_def disk_read_mk_disk
  by (simp add: upt_conv_Cons bad_sector_size_boot_literal)

lemma bad_sector_size_mounted_bpb: "mounted_bpb bad_sector_size = Some bad_sector_size_bpb"
  unfolding mounted_bpb_def bad_sector_size_sector0 bad_sector_size_boot_literal
  by (simp add: decode_bpb_def le16_def le32_def fat32_tiny_bpb_def bad_sector_size_bpb_def)

lemma fat_log2_513: "fat_log2 513 = - 1"
  by (simp add: fat_log2_def fat_log2_loop.simps)

lemma bad_sector_size_geometry: "\<not> geometry_ok bad_sector_size_bpb"
  using fat_log2_nonneg_iff [of 513] fat_log2_513
  by (simp add: geometry_ok_def bad_sector_size_bpb_def fat32_tiny_bpb_def)

text \<open>
  Every device that shows the BPB and the first FAT bytes of the FAT12 test volume mounts
  to the same handle.
\<close>

lemma fat12_like_mount:
  assumes "mounted_bpb dk = Some fat12_bpb"
    and "grub_disk_read dk 1 0 4 = Some [0xF8, 0xFF, 0xFF, 0x03]"
  shows "grub_fat_mount mem0 (Some dk) = Inr fat12_handle"
  unfolding grub_fat_mount_Some assms(1) option.case
  using assms(2)
  by (simp add: grub_fat_mount_bpb_def fat_log2_512 fat_log2_1
      fat_log2_Suc0 GRUB_DISK_SECTOR_BITS_def GRUB_FAT_DIR_ENTRY_SIZE_def mount_variant_def
      mount_check_fat_def Let_def fat12_bpb_def le32_def mem0_def
      fat12_handle_def GRUB_FAT_ATTR_DIRECTORY_def word_le_nat_alt word_less_nat_alt)

lemma fat12_vol_sector0: "grub_disk_read fat12_vol 0 0 52 = Some fat12_boot"
  unfolding fat12_vol_def disk_read_mk_disk
  by (simp add: upt_conv_Cons fat12_segments_def fat12_boot_literal)

lemma fat12_boot_bpb: "decode_bpb fat12_boot = fat12_bpb"
  unfolding fat12_boot_literal
  by (simp add: decode_bpb_def le16_def le32_def fat12_bpb_def)

lemma fat12_vol_bpb: "mounted_bpb fat12_vol = Some fat12_bpb"
  by (simp add: mounted_bpb_def fat12_vol_sector0 fat12_boot_bpb)

lemma fat12_vol_fat0: "grub_disk_read fat12_vol 1 0 4 = Some [0xF8, 0xFF, 0xFF, 0x03]"
  unfolding fat12_vol_def disk_read_mk_disk
  by (simp add: upt_conv_Cons fat12_segments_def fat12_fat_def)

lemma fat12_mount:
  "grub_fat_mount mem0 (Some fat12_vol) = Inr fat12_handle"
  by (rule fat12_like_mount [OF fat12_vol_bpb fat12_vol_fat0])

subsection \<open>The claims about mount\<close>

text \<open>
  C1, as the specification states it: the variant of a mounted volume is decided by the
  cluster count first. The volume \<open>fat32_tiny\<close> mounts; it has 100 clusters, at most
  \<open>4085 + 2\<close>, and \<open>sectors_per_fat_16 = 0\<close>, and mount makes it FAT32 with end-of-chain
  mark \<open>0x0ffffff8\<close>, where the statement gives FAT12 with \<open>0x0ff8\<close>.
\<close>

theorem fat_variant_by_count_counterexample:
  "grub_fat_mount mem0 (Some fat32_tiny) = Inr fat32_tiny_handle
   \<and> mounted_bpb fat32_tiny = Some fat32_tiny_bpb
   \<and> (fat_size fat32_tiny_handle, cluster_eof_mark fat32_tiny_handle)
       \<noteq> spec_fat_variant fat32_tiny_bpb fat32_tiny_handle"
  using fat32_tiny_mount fat32_tiny_mounted_bpb
  by (simp add: spec_fat_variant_def fat32_tiny_handle_def word_le_nat_alt)

text \<open>
  C1, amended: for every BPB accepted by mount, \<open>sectors_per_fat_16 = 0\<close> makes the volume
  FAT32 whatever the cluster count; otherwise it is FAT12 if \<open>num_clusters \<le> 4085 + 2\<close> and
  FAT16 if not; \<open>fat_size\<close> and \<open>cluster_eof_mark\<close> are 32 and \<open>0x0ffffff8\<close>, 12 and
  \<open>0x0ff8\<close>, 16 and \<open>0xfff8\<close>.
\<close>

theorem mount_fat_variant:
  assumes "grub_fat_mount mem diskp = Inr d"
  shows "\<exists>disk bpb. diskp = Some disk \<and> mounted_bpb disk = Some bpb
     \<and> (fat_size d, cluster_eof_mark d) = code_fat_variant bpb d"
proof -
  from grub_fat_mount_Inr [OF assms] obtain disk bpb where
    h: "diskp = Some disk" "mounted_bpb disk = Some bpb"
       "grub_fat_mount_bpb mem disk bpb = Inr d"
    by blast
  from mount_bpb_Inr(6) [OF h(3)] obtain data where
    v: "mount_variant disk bpb data = Inr d" by blast
  from mount_variant_Inr [OF v]
  have "(fat_size d, cluster_eof_mark d) = code_fat_variant bpb d"
    by (auto simp: code_fat_variant_def)
  with h show ?thesis by blast
qed

theorem mount_fat_variant_witness:
  "grub_fat_mount mem0 (Some fat32_tiny) = Inr fat32_tiny_handle
   \<and> mounted_bpb fat32_tiny = Some fat32_tiny_bpb
   \<and> (fat_size fat32_tiny_handle, cluster_eof_mark fat32_tiny_handle)
       = code_fat_variant fat32_tiny_bpb fat32_tiny_handle
   \<and> code_fat_variant fat32_tiny_bpb fat32_tiny_handle = (32, 0x0ffffff8)"
  using mount_fat_variant [OF fat32_tiny_mount] fat32_tiny_mount fat32_tiny_mounted_bpb
  by (simp add: code_fat_variant_def fat32_tiny_bpb_def)

text \<open>
  What the checks of mount establish. A handle is returned only for a BPB whose
  \<open>bytes_per_sector\<close> is a power of two, at least 512, whose \<open>sectors_per_cluster\<close> is a
  power of two, with \<open>num_fats \<ge> 1\<close>, and whose fields \<open>sectors_per_fat\<close> and
  \<open>num_clusters\<close>, as mount computes them in 32 bits, are above 0 and above 2; every
  other BPB fails with "not a fat filesystem". Here \<open>num_clusters\<close> is the value of the
  handle, taken after the unsigned subtraction \<open>num_sectors - cluster_sector\<close>, which
  wraps around when the cluster region starts after the end of the volume.
\<close>

lemma mount_checks:
  "(grub_fat_mount mem diskp = Inr d \<longrightarrow>
      (\<exists>disk bpb. diskp = Some disk \<and> mounted_bpb disk = Some bpb \<and> geometry_ok bpb
         \<and> sectors_per_fat d = geom_sectors_per_fat bpb
         \<and> num_clusters d = geom_num_clusters bpb
         \<and> 0 < sectors_per_fat d \<and> 2 < num_clusters d))
   \<and> (mounted_bpb disk' = Some bpb' \<and> \<not> geometry_ok bpb' \<longrightarrow>
        grub_fat_mount mem (Some disk') = Inl (GRUB_ERR_BAD_FS ''not a fat filesystem''))"
proof (intro conjI impI)
  assume a: "grub_fat_mount mem diskp = Inr d"
  from grub_fat_mount_Inr [OF a] obtain disk bpb where
    h: "diskp = Some disk" "mounted_bpb disk = Some bpb"
       "grub_fat_mount_bpb mem disk bpb = Inr d"
    by blast
  note m = mount_bpb_Inr [OF h(3)]
  from m(6) obtain data where
    v: "mount_variant disk bpb data = Inr d"
       "sectors_per_fat data = geom_sectors_per_fat bpb"
       "num_clusters data = geom_num_clusters bpb" by blast
  note w = mount_variant_Inr(1,2) [OF v(1)]
  have g: "geometry_ok bpb"
    unfolding geometry_ok_def
    using m(1-5) fat_log2_ge_iff [of 9 "unat (bytes_per_sector bpb)"]
      fat_log2_nonneg_iff [of "unat (sectors_per_cluster bpb)"]
    by (simp add: one_le_unat_iff word_neq_0_conv del: One_nat_def)
  have "0 < sectors_per_fat d" "2 < num_clusters d"
    using w v(2,3) m(4,5) by (simp_all add: word_neq_0_conv)
  with g w v(2,3) h
  show "\<exists>disk bpb. diskp = Some disk \<and> mounted_bpb disk = Some bpb \<and> geometry_ok bpb
         \<and> sectors_per_fat d = geom_sectors_per_fat bpb
         \<and> num_clusters d = geom_num_clusters bpb
         \<and> 0 < sectors_per_fat d \<and> 2 < num_clusters d"
    by simp
next
  assume a: "mounted_bpb disk' = Some bpb' \<and> \<not> geometry_ok bpb'"
  have "grub_fat_mount_bpb mem disk' bpb' = not_a_fat"
  proof (rule ccontr)
    assume n: "grub_fat_mount_bpb mem disk' bpb' \<noteq> not_a_fat"
    have "\<not> fat_log2 (unat (bytes_per_sector bpb')) < 9"
      "\<not> fat_log2 (unat (sectors_per_cluster bpb')) < 0"
      "num_fats bpb' \<noteq> 0" "geom_sectors_per_fat bpb' \<noteq> 0"
      "\<not> geom_num_clusters bpb' \<le> 2"
      using n unfolding mount_bpb_unfold by (auto split: if_splits)
    then have "geometry_ok bpb'"
      unfolding geometry_ok_def
      using fat_log2_ge_iff [of 9 "unat (bytes_per_sector bpb')"]
        fat_log2_nonneg_iff [of "unat (sectors_per_cluster bpb')"]
      by (simp add: one_le_unat_iff word_neq_0_conv not_le del: One_nat_def)
    with a show False by simp
  qed
  with a show "grub_fat_mount mem (Some disk') = Inl (GRUB_ERR_BAD_FS ''not a fat filesystem'')"
    by (simp add: grub_fat_mount_Some not_a_fat_def)
qed

subsection \<open>A volume without data clusters\<close>

lemma fat_log2_2: "fat_log2 2 = 1"
  using fat_log2_pow2 [of 1] by simp

lemma no_cluster_boot_literal: "no_cluster_boot =
     [0, 0, 0, 0, 0, 0, 0, 0, 0, 0, 0, 0, 2, 2, 1, 0, 2, 16, 0, 3, 0, 248, 1, 0, 0,
      0, 0, 0, 0, 0, 0, 0, 0, 0, 0, 0, 0, 0, 0, 0, 0, 0, 0, 0, 0, 0, 0, 0, 0, 0, 0, 0]"
  by (simp add: no_cluster_boot_def bpb_bytes_def)

lemma no_cluster_sector0: "grub_disk_read no_cluster_vol 0 0 52 = Some no_cluster_boot"
  unfolding no_cluster_vol_def disk_read_mk_disk
  by (simp add: upt_conv_Cons no_cluster_boot_literal)

lemma no_cluster_mounted_bpb: "mounted_bpb no_cluster_vol = Some no_cluster_bpb"
  unfolding mounted_bpb_def no_cluster_sector0 no_cluster_boot_literal
  by (simp add: decode_bpb_def le16_def le32_def no_cluster_bpb_def)

lemma no_cluster_fat0: "grub_disk_read no_cluster_vol 1 0 4 = Some [0xF8, 0xFF, 0xFF, 0xFF]"
  unfolding no_cluster_vol_def disk_read_mk_disk
  by (simp add: upt_conv_Cons)

lemma no_cluster_geometry:
  "geom_logical_sector_bits no_cluster_bpb = 0" "geom_cluster_bits no_cluster_bpb = 1"
  "geom_num_sectors no_cluster_bpb = 3" "geom_cluster_sector no_cluster_bpb = 4"
  by (simp_all add: geom_logical_sector_bits_def geom_cluster_bits_def geom_num_sectors_def
      geom_cluster_sector_def geom_root_sector_def geom_num_root_sectors_def
      geom_fat_sector_def geom_sectors_per_fat_def no_cluster_bpb_def fat_log2_512 fat_log2_2
      GRUB_DISK_SECTOR_BITS_def GRUB_FAT_DIR_ENTRY_SIZE_def)

lemma mask_31: "(mask 31 :: u32) = 0x7FFFFFFF"
  by (simp add: mask_eq_exp_minus_1)

lemma no_cluster_mount:
  "grub_fat_mount mem0 (Some no_cluster_vol) = Inr no_cluster_handle"
  unfolding grub_fat_mount_Some no_cluster_mounted_bpb option.case
  using no_cluster_fat0
  by (simp add: grub_fat_mount_bpb_def fat_log2_512 fat_log2_2
      GRUB_DISK_SECTOR_BITS_def GRUB_FAT_DIR_ENTRY_SIZE_def mount_variant_def
      mount_check_fat_def Let_def no_cluster_bpb_def le32_def mem0_def
      no_cluster_handle_def GRUB_FAT_ATTR_DIRECTORY_def word_le_nat_alt word_less_nat_alt
      mask_31)

text \<open>
  C5, at a BPB with too few clusters. The BPB of \<open>no_cluster_vol\<close> gives a volume of 3
  sectors whose cluster region would start at sector 4: there is no data cluster, and the
  cluster count of the specification, \<open>((3 - 4) >> 1) + 2\<close> over the integers, is 1, not
  above 2, so that mount has to fail with "not a fat filesystem". Mount returns a handle
  instead, with \<open>num_clusters = 0x80000001\<close>: the subtraction is made on unsigned 32-bit
  values and wraps around to \<open>0xFFFFFFFF\<close> before the test \<open>num_clusters <= 2\<close>.
\<close>

theorem mount_no_data_cluster:
  "mounted_bpb no_cluster_vol = Some no_cluster_bpb
   \<and> geom_num_sectors no_cluster_bpb = 3 \<and> geom_cluster_sector no_cluster_bpb = 4
   \<and> spec_num_clusters no_cluster_bpb = 1
   \<and> grub_fat_mount mem0 (Some no_cluster_vol) = Inr no_cluster_handle
   \<and> num_clusters no_cluster_handle = 0x80000001"
  using no_cluster_mounted_bpb no_cluster_mount
  by (simp add: spec_num_clusters_def no_cluster_geometry no_cluster_handle_def)

section \<open>The FAT12 walker\<close>

lemma mask12: "(0x0FFF :: u32) = mask 12"
  by (simp add: mask_eq_exp_minus_1)

lemma bit_fat12_bitwise_decode:
  "bit (fat12_bitwise_decode tbl c) n \<longleftrightarrow>
     n < 12 \<and> bit (tbl ((12 * c + n) div 8)) ((12 * c + n) mod 8)"
  by (auto simp: fat12_bitwise_decode_def fat12_entry_bits_def bit_horner_sum_bit_word_iff)

lemma le32_two: "le32 ([b0, b1] @ [0, 0, 0, 0]) = ucast b0 OR push_bit 8 (ucast b1)"
  by (simp add: le32_def)

lemma bit_le_pair:
  "bit ((ucast (b0::u8) :: u32) OR push_bit 8 (ucast (b1::u8))) n \<longleftrightarrow>
     (if n < 8 then bit b0 n else n < 16 \<and> bit b1 (n - 8))"
  by (auto simp: bit_or_iff bit_push_bit_iff bit_ucast_iff dest: bit_imp_le_length)

lemma idx_even:
  assumes "even (C::nat)"
  shows "(12 * C + n) div 8 = C + C div 2 + n div 8" "(12 * C + n) mod 8 = n mod 8"
proof -
  from assms obtain k where k: "C = 2 * k" by (elim evenE)
  have e: "12 * C + n = n + 3 * k * 8" using k by simp
  have d: "(n + 3 * k * 8) div 8 = 3 * k + n div 8" by (rule div_mult_self1) simp
  have m: "(n + 3 * k * 8) mod 8 = n mod 8" by (rule mod_mult_self1)
  show "(12 * C + n) div 8 = C + C div 2 + n div 8" "(12 * C + n) mod 8 = n mod 8"
    unfolding e d m using k by simp_all
qed
lemma idx_odd:
  assumes "odd (C::nat)"
  shows "(12 * C + n) div 8 = C + C div 2 + (n + 4) div 8" "(12 * C + n) mod 8 = (n + 4) mod 8"
proof -
  from assms obtain k where k: "C = 2 * k + 1" by (elim oddE)
  have e: "12 * C + n = (n + 4) + (3 * k + 1) * 8" using k by simp
  have d: "((n + 4) + (3 * k + 1) * 8) div 8 = (3 * k + 1) + (n + 4) div 8"
    by (rule div_mult_self1) simp
  have m: "((n + 4) + (3 * k + 1) * 8) mod 8 = (n + 4) mod 8" by (rule mod_mult_self1)
  show "(12 * C + n) div 8 = C + C div 2 + (n + 4) div 8"
    "(12 * C + n) mod 8 = (n + 4) mod 8"
    unfolding e d m using k by simp_all
qed

lemma odd_word_unat: "c AND 1 \<noteq> 0 \<longleftrightarrow> odd (unat (c :: u32))"
proof -
  have "odd (unat c) \<longleftrightarrow> bit (unat c) 0" by (simp add: bit_0)
  also have "\<dots> \<longleftrightarrow> bit c 0" by (simp add: bit_unsigned_iff)
  also have "\<dots> \<longleftrightarrow> odd c" by (simp add: bit_0)
  also have "\<dots> \<longleftrightarrow> c AND 1 \<noteq> 0" by (simp add: and_one_eq even_iff_mod_2_eq_zero)
  finally show ?thesis by simp
qed

lemma decode12_unfold:
  assumes "fat_size d = 12"
  shows "decode_next_cluster d bs =
     (if odd (unat (cur_cluster d)) then drop_bit 4 (le32 (bs @ [0, 0, 0, 0]))
      else le32 (bs @ [0, 0, 0, 0])) AND mask 12"
  using assms by (simp add: decode_next_cluster_def Let_def mask12 odd_word_unat)

lemma bit_shift_mask12:
  fixes v :: u32
  shows "bit ((if p then drop_bit 4 v else v) AND mask 12) n \<longleftrightarrow>
     n < 12 \<and> (if p then bit v (n + 4) else bit v n)"
  by (auto simp: bit_and_iff bit_mask_iff bit_drop_bit_eq add.commute)

lemma bit_decode12:
  assumes "fat_size d = 12"
  shows "bit (decode_next_cluster d [b0, b1]) n \<longleftrightarrow>
     n < 12 \<and> (if odd (unat (cur_cluster d))
               then (if n + 4 < 8 then bit b0 (n + 4) else bit b1 (n + 4 - 8))
               else (if n < 8 then bit b0 n else bit b1 (n - 8)))"
  unfolding decode12_unfold [OF assms] bit_shift_mask12 le32_two bit_le_pair
  by auto

lemma fat12_decode_correct:
  assumes "fat_size d = 12"
  shows "decode_next_cluster d
           [tbl (unat (cur_cluster d) + unat (cur_cluster d) div 2),
            tbl (unat (cur_cluster d) + unat (cur_cluster d) div 2 + 1)]
         = fat12_bitwise_decode tbl (unat (cur_cluster d))"
proof (rule bit_word_eqI)
  fix n assume "n < LENGTH(32)"
  let ?C = "unat (cur_cluster d)"
  show "bit (decode_next_cluster d [tbl (?C + ?C div 2), tbl (?C + ?C div 2 + 1)]) n
      = bit (fat12_bitwise_decode tbl ?C) n"
  proof (cases "odd ?C")
    case True
    consider "n + 4 < 8" | "8 \<le> n + 4" "n + 4 < 16" | "12 \<le> n" by linarith
    then show ?thesis
    proof cases
      case 1
      then have "(n + 4) div 8 = 0" "(n + 4) mod 8 = n + 4" by simp_all
      with 1 True show ?thesis
        by (simp add: bit_decode12 [OF assms] bit_fat12_bitwise_decode idx_odd)
    next
      case 2
      then have "(n + 4) div 8 = 1" "(n + 4) mod 8 = n + 4 - 8"
        by (simp_all add: div_nat_eqI mod_if)
      with 2 True show ?thesis
        by (simp add: bit_decode12 [OF assms] bit_fat12_bitwise_decode idx_odd)
    next
      case 3
      then show ?thesis
        by (simp add: bit_decode12 [OF assms] bit_fat12_bitwise_decode)
    qed
  next
    case False
    consider "n < 8" | "8 \<le> n" "n < 16" | "12 \<le> n" by linarith
    then show ?thesis
    proof cases
      case 1
      then have "n div 8 = 0" "n mod 8 = n" by simp_all
      with 1 False show ?thesis
        by (simp add: bit_decode12 [OF assms] bit_fat12_bitwise_decode idx_even)
    next
      case 2
      then have "n div 8 = 1" "n mod 8 = n - 8"
        by (simp_all add: div_nat_eqI mod_if)
      with 2 False show ?thesis
        by (simp add: bit_decode12 [OF assms] bit_fat12_bitwise_decode idx_even)
    next
      case 3
      then show ?thesis
        by (simp add: bit_decode12 [OF assms] bit_fat12_bitwise_decode)
    qed
  qed
qed


lemma unat_fat12_offset:
  assumes "fat_size d = 12"
    and "unat (cur_cluster d) + unat (cur_cluster d) div 2 < 2 ^ 32"
  shows "unat (fat_offset d) = unat (cur_cluster d) + unat (cur_cluster d) div 2"
proof -
  have h: "unat (drop_bit 1 (cur_cluster d)) = unat (cur_cluster d) div 2"
    by (simp add: drop_bit_eq_div unat_div del: drop_bit_Suc)
  with assms(2) have "unat (cur_cluster d) + unat (drop_bit 1 (cur_cluster d)) < 2 ^ LENGTH(32)"
    by simp
  then have "unat (cur_cluster d + drop_bit 1 (cur_cluster d))
      = unat (cur_cluster d) + unat (drop_bit 1 (cur_cluster d))"
    by (simp only: unat_add_lem)
  with h assms(1) show ?thesis by (simp add: fat_offset_def)
qed

lemma disk_read_two:
  "grub_disk_read disk s off 2 =
     (if s * 2 ^ GRUB_DISK_SECTOR_BITS + off + 2 \<le> disk_size disk
      then Some [disk_bytes disk (s * 2 ^ GRUB_DISK_SECTOR_BITS + off),
                 disk_bytes disk (s * 2 ^ GRUB_DISK_SECTOR_BITS + off + 1)]
      else None)"
proof -
  have "[n ..< n + 2] = [n, n + 1]" for n :: nat
    by (simp add: upt_rec)
  then show ?thesis by (simp add: grub_disk_read_def Let_def)
qed

text \<open>
  C7: on a FAT12 volume with current cluster \<open>c\<close> the walker reads 2 bytes at FAT byte
  offset \<open>c + c / 2\<close>, shifts the little-endian value right by 4 iff \<open>c\<close> is odd and masks
  it to 12 bits, and the value it gets is the bit-wise decode of entry \<open>c\<close> of the packed
  table, for odd and for even \<open>c\<close>. (The offset is computed in 32 bits; cluster numbers of a
  FAT12 volume are far below the range where it would wrap.)
\<close>

theorem fat12_walker_decode:
  assumes "fat_size d = 12"
    and "unat (cur_cluster d) + unat (cur_cluster d) div 2 < 2 ^ 32"
  shows "fat_offset d = cur_cluster d + drop_bit 1 (cur_cluster d)
     \<and> unat (fat_offset d) = unat (cur_cluster d) + unat (cur_cluster d) div 2
     \<and> nat (drop_bit 3 (fat_size d + 7)) = 2
     \<and> decode_next_cluster d [b0, b1]
         = (if odd (unat (cur_cluster d))
            then drop_bit 4 (ucast b0 OR push_bit 8 (ucast b1))
            else ucast b0 OR push_bit 8 (ucast b1)) AND 0x0FFF
     \<and> read_next_cluster disk d
         = (if unat (fat_sector d) * 2 ^ GRUB_DISK_SECTOR_BITS + unat (fat_offset d) + 2
               \<le> disk_size disk
            then Some (fat12_bitwise_decode (fat_table disk d) (unat (cur_cluster d)))
            else None)"
proof (intro conjI)
  show "fat_offset d = cur_cluster d + drop_bit 1 (cur_cluster d)"
    using assms(1) by (simp add: fat_offset_def)
  show o: "unat (fat_offset d) = unat (cur_cluster d) + unat (cur_cluster d) div 2"
    by (rule unat_fat12_offset [OF assms])
  show two: "nat (drop_bit 3 (fat_size d + 7)) = 2"
    using assms(1) by (simp add: drop_bit_eq_div)
  show "decode_next_cluster d [b0, b1]
         = (if odd (unat (cur_cluster d))
            then drop_bit 4 (ucast b0 OR push_bit 8 (ucast b1))
            else ucast b0 OR push_bit 8 (ucast b1)) AND 0x0FFF"
    unfolding decode12_unfold [OF assms(1)] le32_two mask12 ..
  show "read_next_cluster disk d
         = (if unat (fat_sector d) * 2 ^ GRUB_DISK_SECTOR_BITS + unat (fat_offset d) + 2
               \<le> disk_size disk
            then Some (fat12_bitwise_decode (fat_table disk d) (unat (cur_cluster d)))
            else None)"
    unfolding read_next_cluster_def two disk_read_two o
    using fat12_decode_correct [OF assms(1), of "fat_table disk d"]
    by (simp add: fat_table_def add.assoc)
qed

lemma fat12_disk_size: "disk_size fat12_vol = 32768"
  by (simp add: fat12_vol_def mk_disk_def)

lemma fat12_table_bytes:
  "fat_table fat12_vol fat12_handle 3 = 0x03"
  "fat_table fat12_vol fat12_handle 4 = 0xF0"
  "fat_table fat12_vol fat12_handle 5 = 0xFF"
  by (simp_all add: fat_table_def fat12_vol_def mk_disk_def fat12_segments_def
      fat12_fat_def fat12_handle_def GRUB_DISK_SECTOR_BITS_def)

theorem fat12_walker_decode_witness:
  "fat_size (fat12_handle\<lparr>cur_cluster := 3\<rparr>) = 12
   \<and> unat (cur_cluster (fat12_handle\<lparr>cur_cluster := 3\<rparr>))
       + unat (cur_cluster (fat12_handle\<lparr>cur_cluster := 3\<rparr>)) div 2 < 2 ^ 32
   \<and> read_next_cluster fat12_vol (fat12_handle\<lparr>cur_cluster := 3\<rparr>)
       = Some (fat12_bitwise_decode (fat_table fat12_vol fat12_handle) 3)
   \<and> fat12_bitwise_decode (fat_table fat12_vol fat12_handle) 3 = 0xFFF"
proof -
  let ?d = "fat12_handle\<lparr>cur_cluster := 3\<rparr>"
  have h1: "fat_size ?d = 12" by (simp add: fat12_handle_def)
  have h2: "unat (cur_cluster ?d) + unat (cur_cluster ?d) div 2 < 2 ^ 32" by simp
  have t: "fat_table fat12_vol ?d = fat_table fat12_vol fat12_handle"
    by (rule ext) (simp add: fat_table_def)
  have v: "fat12_bitwise_decode (fat_table fat12_vol fat12_handle) 3 = 0xFFF"
    by (simp add: fat12_bitwise_decode_def fat12_entry_bits_def fat12_table_bytes
        upt_rec bit_numeral_simps)
  note w = fat12_walker_decode [OF h1 h2, of 0 0 fat12_vol]
  from w have o: "unat (fat_offset ?d) = 4" by simp
  have fs: "unat (fat_sector ?d) = 1" by (simp add: fat12_handle_def)
  from w have "read_next_cluster fat12_vol ?d
         = (if unat (fat_sector ?d) * 2 ^ GRUB_DISK_SECTOR_BITS + unat (fat_offset ?d) + 2
               \<le> disk_size fat12_vol
            then Some (fat12_bitwise_decode (fat_table fat12_vol ?d) (unat (cur_cluster ?d)))
            else None)"
    by blast
  then have "read_next_cluster fat12_vol ?d
       = Some (fat12_bitwise_decode (fat_table fat12_vol fat12_handle) 3)"
    unfolding o fs t by (simp add: fat12_disk_size GRUB_DISK_SECTOR_BITS_def)
  with h1 h2 v show ?thesis by simp
qed

section \<open>The label operation\<close>

subsection \<open>Signed comparison of small values\<close>

lemma sint_small:
  fixes w :: u32
  assumes "unat w < 2 ^ 31"
  shows "sint w = int (unat w)"
proof -
  from assms have "int (unat w) < int (2 ^ 31)" by (simp only: of_nat_less_iff)
  then have "uint w < 2 ^ 31" by simp
  moreover have "- (2 ^ 31) \<le> uint w"
    by (rule order_trans [of _ 0]) simp_all
  ultimately have "signed_take_bit 31 (uint w) = uint w"
    by (rule signed_take_bit_int_eq_self [rotated])
  then have "sint w = uint w" by (simp add: sint_uint)
  then show ?thesis by simp
qed

lemma sless_small:
  fixes a b :: u32
  assumes "unat a < 2 ^ 31" "unat b < 2 ^ 31"
  shows "a <s b \<longleftrightarrow> unat a < unat b"
  unfolding word_sless_alt sint_small [OF assms(1)] sint_small [OF assms(2)]
  by (simp only: of_nat_less_iff)
lemma mount_attr:
  assumes "grub_fat_mount mem diskp = Inr d"
  shows "attr d = GRUB_FAT_ATTR_DIRECTORY"
proof -
  from grub_fat_mount_Inr [OF assms] obtain disk bpb where
    "grub_fat_mount_bpb mem disk bpb = Inr d" by blast
  from mount_bpb_Inr(6) [OF this] obtain data where
    "mount_variant disk bpb data = Inr d" by blast
  then obtain data2 where "mount_check_fat disk bpb data2 = Inr d"
    by (auto simp: mount_variant_def Let_def not_a_fat_def split: if_splits)
  from mount_check_fat_Inr [OF this] show ?thesis by simp
qed

lemma label_loop_scan:
  "dir_records disk d (off + 32) n = Some rs \<Longrightarrow> label_scan rs = Some res
   \<Longrightarrow> label_loop disk d off = Some (Inr res)"
proof (induction n arbitrary: d off rs)
  case 0
  then show ?case by simp
next
  case (Suc n)
  from Suc.prems(1) obtain d1 cl bs rs' where
    r: "grub_fat_read_data disk d (off + 32) 32 = Some (d1, cl, Inr bs)"
    and l: "length bs = 32"
    and rest: "dir_records disk d1 (off + 32 + 32) n = Some rs'"
    and rs: "rs = bs # rs'"
    by (auto split: option.splits sum.splits if_splits)
  show ?case
  proof (cases "bs ! 0 = 0 \<or> bs ! 11 = 0x08")
    case True
    with Suc.prems(2) rs r l show ?thesis
      by (subst label_loop.simps)
         (auto simp: GRUB_FAT_DIR_ENTRY_SIZE_def GRUB_FAT_ATTR_VOLUME_ID_def Let_def)
  next
    case False
    with Suc.prems(2) rs have "label_scan rs' = Some res" by simp
    from Suc.IH [OF rest this] False r l show ?thesis
      by (subst label_loop.simps)
         (auto simp: GRUB_FAT_DIR_ENTRY_SIZE_def GRUB_FAT_ATTR_VOLUME_ID_def Let_def)
  qed
qed

lemma grub_fat_label_scan:
  assumes "grub_fat_mount mem (Some disk) = Inr d"
    and "dir_records disk d 0 n = Some rs" and "label_scan rs = Some res"
  shows "grub_fat_label mem disk = Some (Inr res)"
proof -
  have "label_loop disk d (- 32) = Some (Inr res)"
    using label_loop_scan [of disk d "- 32" n rs res] assms(2,3) by simp
  then show ?thesis
    using assms(1) mount_attr [OF assms(1)]
    by (simp add: grub_fat_label_def GRUB_FAT_ATTR_DIRECTORY_def GRUB_FAT_DIR_ENTRY_SIZE_def)
qed

lemma label_scan_skip:
  "\<forall>x\<in>set pre. x ! 0 \<noteq> 0 \<and> x ! 11 \<noteq> 0x08 \<Longrightarrow> label_scan (pre @ rs) = label_scan rs"
  by (induction pre) auto



lemma take_cstring:
  "0 \<notin> set (take n r) \<Longrightarrow> take n (cstring r) = take n r"
proof (induction r arbitrary: n)
  case Nil
  then show ?case by (simp add: cstring_def)
next
  case (Cons x xs)
  then show ?case by (cases n) (auto simp: cstring_def)
qed

lemma grub_disk_read_range:
  "grub_disk_read disk sector offset sz =
     (if sector * 512 + offset + sz \<le> disk_size disk
      then Some (disk_range disk (sector * 512 + offset) sz) else None)"
  by (simp add: grub_disk_read_def disk_range_def GRUB_DISK_SECTOR_BITS_def Let_def)

lemma root_read_fat12:
  assumes "disk_size dk = 32768" and "unat off + 32 \<le> 512"
  shows "grub_fat_read_data dk fat12_handle off 32
     = Some (fat12_handle, [], Inr (disk_range dk (1536 + unat off) 32))"
proof -
  have fc: "file_cluster fat12_handle = - 1" "num_root_sectors fat12_handle = 1"
    "root_sector fat12_handle = 3"
    by (simp_all add: fat12_handle_def)
  have le: "off \<le> 512" using assms(2) by (simp add: word_le_nat_alt)
  have s1: "unat (512 - off) = 512 - unat off"
    using le by (simp add: unat_sub)
  have "unat (32 :: u32) < unat (512 - off) \<or> unat (512 - off) = unat (32 :: u32)"
    using s1 assms(2) by auto
  moreover have "unat (512 - off) < 2 ^ 31" using s1 by simp
  ultimately have "(32 :: u32) <s 512 - off \<or> 512 - off = 32"
    using sless_small [of 32 "512 - off"] by (auto simp: word_unat_eq_iff)
  then show ?thesis
    using assms
    by (auto simp add: grub_fat_read_data_def fc GRUB_DISK_SECTOR_BITS_def Let_def
        grub_disk_read_range)
qed

subsection \<open>Reading the test volumes\<close>

lemma disk_range_mk_disk: "disk_range (mk_disk n segs) a k = seg_range segs a k"
  by (simp add: disk_range_def seg_range_def mk_disk_def)

lemma seg_range_hit:
  assumes "s \<le> a" "a + n \<le> e" "length bs = e - s"
  shows "seg_range ((s, e, bs) # r) a n = take n (drop (a - s) bs)"
proof (rule nth_equalityI)
  show "length (seg_range ((s, e, bs) # r) a n) = length (take n (drop (a - s) bs))"
    using assms by (simp add: seg_range_def)
next
  fix i assume "i < length (seg_range ((s, e, bs) # r) a n)"
  then have i: "i < n" by (simp add: seg_range_def)
  with assms have in_seg: "s \<le> a + i" "a + i < e" by arith+
  have idx: "a + i - s = a - s + i" using assms(1) by arith
  have len: "a - s + i < length bs" using assms i by arith
  have "seg_range ((s, e, bs) # r) a n ! i = seg_bytes ((s, e, bs) # r) (a + i)"
    using i by (simp add: seg_range_def)
  also have "\<dots> = bs ! (a + i - s)" using in_seg by simp
  also have "\<dots> = bs ! (a - s + i)" by (simp only: idx)
  also have "\<dots> = take n (drop (a - s) bs) ! i" using i len by simp
  finally show "seg_range ((s, e, bs) # r) a n ! i = take n (drop (a - s) bs) ! i" .
qed

lemma seg_range_miss:
  assumes "a + n \<le> s \<or> e \<le> a"
  shows "seg_range ((s, e, bs) # r) a n = seg_range r a n"
  using assms by (auto simp: seg_range_def)

lemma seg_range_none: "seg_range [] a n = replicate n 0"
proof -
  have "seg_bytes [] = (\<lambda>a. 0)" by (rule ext) simp
  then show ?thesis by (simp add: seg_range_def map_replicate_const)
qed

lemma length_entry32:
  "length name = 11 \<Longrightarrow> length h = 2 \<Longrightarrow> length l = 2 \<Longrightarrow> length z = 4
   \<Longrightarrow> length (entry32 name a h l z) = 32"
  by (simp add: entry32_def)

lemma fat12_lengths:
  "length fat12_label = 32" "length fat12_hello = 32" "length fat12_big = 32"
  "length fat12_empty = 32" "length fat12_new_label = 32"
  by (simp_all add: fat12_label_def fat12_hello_def fat12_big_def fat12_empty_def
      fat12_new_label_def length_entry32)

lemmas seg_read = disk_range_mk_disk seg_range_hit seg_range_miss seg_range_none

lemma fat12_vol_records:
  "disk_range fat12_vol 1536 32 = fat12_label"
  "disk_range fat12_vol 1568 32 = fat12_hello"
  "disk_range fat12_vol 1600 32 = fat12_big"
  "disk_range fat12_vol 1632 32 = fat12_empty"
  "disk_range fat12_vol 1664 32 = replicate 32 0"
  by (simp_all add: fat12_vol_def fat12_segments_def seg_read fat12_lengths)

lemma fat12_label_literal: "fat12_label =
  [77, 89, 32, 86, 79, 76, 85, 77, 69, 32, 32, 8, 0, 0, 0, 0, 0, 0, 0, 0, 0, 0, 0, 0, 0, 0,
   0, 0, 0, 0, 0, 0]"
  by (simp add: fat12_label_def entry32_def)

lemma fat12_vol_dir_records:
  "dir_records fat12_vol fat12_handle 0 (Suc 0) = Some [fat12_label]"
  by (simp add: root_read_fat12 fat12_disk_size fat12_vol_records fat12_lengths)

lemma fat12_vol_label:
  "grub_fat_label mem0 fat12_vol = Some (Inr (Some (map of_char ''MY VOLUME  '')))"
  using grub_fat_label_scan [OF fat12_mount fat12_vol_dir_records, of "Some (map of_char ''MY VOLUME  '')"]
  by (simp add: fat12_label_literal grub_strndup_def cstring_def)


lemma fat12_like_sector0:
  assumes "disk_size dk = 32768" "disk_range dk 0 52 = fat12_boot"
  shows "mounted_bpb dk = Some fat12_bpb"
  using assms by (simp add: mounted_bpb_def grub_disk_read_range fat12_boot_bpb)

lemma fat12_fat_length: "length fat12_fat = 9" "length fat12_boot = 52"
  by (simp_all add: fat12_fat_def fat12_boot_literal)

lemma variant_sizes:
  "disk_size fat12_nul_label = 32768" "disk_size fat12_no_label = 32768"
  "disk_size fat12_deleted_label = 32768"
  by (simp_all add: fat12_nul_label_def fat12_no_label_def fat12_deleted_label_def
      mk_disk_def)

lemma variant_boot:
  "disk_range fat12_nul_label 0 52 = fat12_boot"
  "disk_range fat12_no_label 0 52 = fat12_boot"
  "disk_range fat12_deleted_label 0 52 = fat12_boot"
  by (simp_all add: fat12_nul_label_def fat12_no_label_def fat12_deleted_label_def
      fat12_segments_def seg_read fat12_lengths fat12_fat_length)

lemma variant_fat0:
  "grub_disk_read fat12_nul_label 1 0 4 = Some [0xF8, 0xFF, 0xFF, 0x03]"
  "grub_disk_read fat12_no_label 1 0 4 = Some [0xF8, 0xFF, 0xFF, 0x03]"
  "grub_disk_read fat12_deleted_label 1 0 4 = Some [0xF8, 0xFF, 0xFF, 0x03]"
  by (simp_all add: grub_disk_read_range variant_sizes)
     (simp_all add: fat12_nul_label_def fat12_no_label_def fat12_deleted_label_def
      fat12_segments_def seg_read fat12_lengths fat12_fat_length fat12_fat_def)

lemma variant_mount:
  "grub_fat_mount mem0 (Some fat12_nul_label) = Inr fat12_handle"
  "grub_fat_mount mem0 (Some fat12_no_label) = Inr fat12_handle"
  "grub_fat_mount mem0 (Some fat12_deleted_label) = Inr fat12_handle"
proof -
  show "grub_fat_mount mem0 (Some fat12_nul_label) = Inr fat12_handle"
    by (rule fat12_like_mount
        [OF fat12_like_sector0 [OF variant_sizes(1) variant_boot(1)] variant_fat0(1)])
  show "grub_fat_mount mem0 (Some fat12_no_label) = Inr fat12_handle"
    by (rule fat12_like_mount
        [OF fat12_like_sector0 [OF variant_sizes(2) variant_boot(2)] variant_fat0(2)])
  show "grub_fat_mount mem0 (Some fat12_deleted_label) = Inr fat12_handle"
    by (rule fat12_like_mount
        [OF fat12_like_sector0 [OF variant_sizes(3) variant_boot(3)] variant_fat0(3)])
qed

lemma nul_label_records:
  "dir_records fat12_nul_label fat12_handle 0 (Suc 0) = Some [fat12_label[2 := 0]]"
  by (simp add: root_read_fat12 variant_sizes)
     (simp add: fat12_nul_label_def seg_read fat12_lengths)

lemma no_label_records:
  "dir_records fat12_no_label fat12_handle 0 (Suc (Suc (Suc (Suc (Suc 0)))))
     = Some [fat12_label[11 := 0x28], fat12_hello, fat12_big, fat12_empty, replicate 32 0]"
  by (simp add: root_read_fat12 variant_sizes)
     (simp add: fat12_no_label_def fat12_segments_def seg_read fat12_lengths)

lemma deleted_label_records:
  "dir_records fat12_deleted_label fat12_handle 0 (Suc (Suc (Suc 0)))
     = Some [fat12_hello, fat12_label[0 := 0xE5], fat12_new_label]"
  by (simp add: root_read_fat12 variant_sizes)
     (simp add: fat12_deleted_label_def fat12_segments_def seg_read fat12_lengths)

lemma fat12_hello_literal: "fat12_hello =
  [72, 69, 76, 76, 79, 32, 32, 32, 84, 88, 84, 32, 0, 0, 0, 0, 0, 0, 0, 0, 0, 0, 0, 0, 0, 0,
   4, 0, 6, 0, 0, 0]"
  by (simp add: fat12_hello_def entry32_def)

lemma fat12_big_literal: "fat12_big =
  [66, 73, 71, 32, 32, 32, 32, 32, 66, 73, 78, 32, 0, 0, 0, 0, 0, 0, 0, 0, 0, 0, 0, 0, 0, 0,
   2, 0, 88, 2, 0, 0]"
  by (simp add: fat12_big_def entry32_def)

lemma fat12_empty_literal: "fat12_empty =
  [69, 77, 80, 84, 89, 32, 32, 32, 32, 32, 32, 32, 0, 0, 0, 0, 0, 0, 0, 0, 0, 0, 0, 0, 0, 0,
   0, 0, 0, 0, 0, 0]"
  by (simp add: fat12_empty_def entry32_def)

lemma fat12_new_label_literal: "fat12_new_label =
  [78, 69, 87, 76, 65, 66, 69, 76, 32, 32, 32, 8, 0, 0, 0, 0, 0, 0, 0, 0, 0, 0, 0, 0, 0, 0,
   0, 0, 0, 0, 0, 0]"
  by (simp add: fat12_new_label_def entry32_def)

subsection \<open>The claims about the label\<close>

text \<open>
  C9, as the specification states it: label returns the 11-byte name field of the first
  entry whose attribute byte is \<open>0x08\<close>. On the volume \<open>fat12_nul_label\<close> the first root
  entry has the attribute \<open>0x08\<close> and the name bytes \<open>M Y NUL V O L U M E\<close> and two
  spaces; \<open>grub_strndup (dir.name, 11)\<close> copies a C string, and label returns the two
  bytes \<open>MY\<close>, not the 11 bytes of the field.
\<close>

theorem label_whole_name_counterexample:
  "grub_fat_mount mem0 (Some fat12_nul_label) = Inr fat12_handle
   \<and> dir_records fat12_nul_label fat12_handle 0 (Suc 0) = Some [fat12_label[2 := 0]]
   \<and> (fat12_label[2 := 0]) ! 0 \<noteq> 0 \<and> (fat12_label[2 := 0]) ! 11 = 0x08
   \<and> grub_fat_label mem0 fat12_nul_label = Some (Inr (Some [0x4D, 0x59]))
   \<and> [0x4D, 0x59] \<noteq> take 11 (fat12_label[2 := 0])"
  using grub_fat_label_scan [OF variant_mount(1) nul_label_records, of "Some [0x4D, 0x59]"]
    variant_mount(1) nul_label_records
  by (simp add: fat12_label_literal grub_strndup_def cstring_def)

text \<open>
  C9, amended: for every mountable volume, label scans the root directory raw and returns
  the name field of the first entry whose attribute byte equals \<open>0x08\<close> exactly, as a C
  string of at most 11 bytes: the field up to its first NUL byte, and all 11 bytes when it
  holds no NUL; if a record with first name byte 0 is reached before such an entry, it
  returns null with no error. (\<open>pre\<close> are the records read before \<open>r\<close>.)
\<close>

theorem label_first_volume_id:
  assumes "grub_fat_mount mem (Some disk) = Inr d"
    and "dir_records disk d 0 (Suc (length pre)) = Some (pre @ [r])"
    and "\<forall>x\<in>set pre. x ! 0 \<noteq> 0 \<and> x ! 11 \<noteq> 0x08"
  shows "(r ! 0 \<noteq> 0 \<and> r ! 11 = 0x08 \<longrightarrow>
            grub_fat_label mem disk = Some (Inr (Some (take 11 (cstring r)))))
       \<and> (r ! 0 \<noteq> 0 \<and> r ! 11 = 0x08 \<and> 0 \<notin> set (take 11 r) \<longrightarrow>
            grub_fat_label mem disk = Some (Inr (Some (take 11 r))))
       \<and> (r ! 0 = 0 \<longrightarrow> grub_fat_label mem disk = Some (Inr None))"
proof -
  have s: "label_scan (pre @ [r]) = label_scan [r]"
    by (rule label_scan_skip [OF assms(3)])
  note l = grub_fat_label_scan [OF assms(1,2)]
  have a: "grub_fat_label mem disk = Some (Inr (Some (take 11 (cstring r))))"
    if "r ! 0 \<noteq> 0 \<and> r ! 11 = 0x08"
    using that l [of "Some (take 11 (cstring r))"] s by (simp add: grub_strndup_def)
  have b: "grub_fat_label mem disk = Some (Inr None)" if "r ! 0 = 0"
    using that l [of None] s by simp
  from a b show ?thesis by (simp add: take_cstring)
qed

theorem label_first_volume_id_witness:
  "grub_fat_mount mem0 (Some fat12_vol) = Inr fat12_handle
   \<and> dir_records fat12_vol fat12_handle 0 (Suc 0) = Some [fat12_label]
   \<and> fat12_label ! 0 \<noteq> 0 \<and> fat12_label ! 11 = 0x08 \<and> 0 \<notin> set (take 11 fat12_label)
   \<and> grub_fat_label mem0 fat12_vol = Some (Inr (Some (map of_char ''MY VOLUME  '')))
   \<and> grub_fat_mount mem0 (Some fat12_no_label) = Inr fat12_handle
   \<and> dir_records fat12_no_label fat12_handle 0 (Suc (Suc (Suc (Suc (Suc 0)))))
       = Some ([fat12_label[11 := 0x28], fat12_hello, fat12_big, fat12_empty]
               @ [replicate 32 0])
   \<and> (fat12_label[11 := 0x28]) ! 0 \<noteq> 0 \<and> (fat12_label[11 := 0x28]) ! 11 \<noteq> 0x08
   \<and> fat12_hello ! 0 \<noteq> 0 \<and> fat12_hello ! 11 \<noteq> 0x08
   \<and> fat12_big ! 0 \<noteq> 0 \<and> fat12_big ! 11 \<noteq> 0x08
   \<and> fat12_empty ! 0 \<noteq> 0 \<and> fat12_empty ! 11 \<noteq> 0x08
   \<and> replicate 32 (0 :: u8) ! 0 = 0
   \<and> grub_fat_label mem0 fat12_no_label = Some (Inr None)"
proof -
  have r1: "dir_records fat12_vol fat12_handle 0 (Suc (length ([] :: u8 list list)))
      = Some ([] @ [fat12_label])"
    using fat12_vol_dir_records by simp
  have p1: "\<forall>x\<in>set ([] :: u8 list list). x ! 0 \<noteq> 0 \<and> x ! 11 \<noteq> 0x08" by simp
  have f1: "fat12_label ! 0 \<noteq> 0 \<and> fat12_label ! 11 = 0x08 \<and> 0 \<notin> set (take 11 fat12_label)"
    by (simp add: fat12_label_literal)
  have v1: "take 11 fat12_label = map of_char ''MY VOLUME  ''"
    by (simp add: fat12_label_literal)
  have r2: "dir_records fat12_no_label fat12_handle 0
        (Suc (length [fat12_label[11 := 0x28], fat12_hello, fat12_big, fat12_empty]))
      = Some ([fat12_label[11 := 0x28], fat12_hello, fat12_big, fat12_empty]
              @ [replicate 32 0])"
    using no_label_records by simp
  have p2: "\<forall>x\<in>set [fat12_label[11 := 0x28], fat12_hello, fat12_big, fat12_empty].
         x ! 0 \<noteq> 0 \<and> x ! 11 \<noteq> 0x08"
    by (simp add: fat12_label_literal fat12_hello_literal fat12_big_literal
        fat12_empty_literal)
  have z: "replicate 32 (0 :: u8) ! 0 = 0" by simp
  from label_first_volume_id [OF fat12_mount r1 p1] f1
  have "grub_fat_label mem0 fat12_vol = Some (Inr (Some (take 11 fat12_label)))"
    by blast
  then have a: "grub_fat_label mem0 fat12_vol
      = Some (Inr (Some (map of_char ''MY VOLUME  '')))"
    by (simp only: v1)
  from label_first_volume_id [OF variant_mount(2) r2 p2] z
  have b: "grub_fat_label mem0 fat12_no_label = Some (Inr None)"
    by blast
  from a b fat12_mount fat12_vol_dir_records f1 variant_mount(2) no_label_records p2 z
  show ?thesis by simp
qed

text \<open>
  C10: label applies no deleted-entry filtering. Its result is the raw scan
  \<open>label_scan\<close> of the records, which skips exactly the records whose attribute byte
  differs from \<open>0x08\<close> and stops at a first name byte of 0; so when a deleted entry
  (first name byte \<open>0xE5\<close>) with attribute byte \<open>0x08\<close> comes before any other entry with
  that attribute and before the end of the directory, label returns the name of the
  deleted entry.
\<close>

theorem label_no_deleted_filter:
  assumes "grub_fat_mount mem (Some disk) = Inr d"
    and "dir_records disk d 0 n = Some rs"
  shows "(label_scan rs = Some res \<longrightarrow> grub_fat_label mem disk = Some (Inr res))
       \<and> (rs = pre @ r # post \<and> (\<forall>x\<in>set pre. x ! 0 \<noteq> 0 \<and> x ! 11 \<noteq> 0x08)
            \<and> r ! 0 = 0xE5 \<and> r ! 11 = 0x08
          \<longrightarrow> grub_fat_label mem disk = Some (Inr (Some (grub_strndup r 11))))"
proof (intro conjI impI)
  assume "label_scan rs = Some res"
  then show "grub_fat_label mem disk = Some (Inr res)"
    by (rule grub_fat_label_scan [OF assms])
next
  assume h: "rs = pre @ r # post \<and> (\<forall>x\<in>set pre. x ! 0 \<noteq> 0 \<and> x ! 11 \<noteq> 0x08)
            \<and> r ! 0 = 0xE5 \<and> r ! 11 = 0x08"
  then have "label_scan rs = label_scan (r # post)"
    using label_scan_skip [of pre "r # post"] by simp
  also have "\<dots> = Some (Some (grub_strndup r 11))" using h by simp
  finally show "grub_fat_label mem disk = Some (Inr (Some (grub_strndup r 11)))"
    by (rule grub_fat_label_scan [OF assms])
qed

theorem label_no_deleted_filter_witness:
  "grub_fat_mount mem0 (Some fat12_deleted_label) = Inr fat12_handle
   \<and> dir_records fat12_deleted_label fat12_handle 0 (Suc (Suc (Suc 0)))
       = Some ([fat12_hello] @ fat12_label[0 := 0xE5] # [fat12_new_label])
   \<and> fat12_hello ! 0 \<noteq> 0 \<and> fat12_hello ! 11 \<noteq> 0x08
   \<and> (fat12_label[0 := 0xE5]) ! 0 = 0xE5 \<and> (fat12_label[0 := 0xE5]) ! 11 = 0x08
   \<and> label_scan ([fat12_hello] @ fat12_label[0 := 0xE5] # [fat12_new_label])
       = Some (Some (grub_strndup (fat12_label[0 := 0xE5]) 11))
   \<and> grub_strndup (fat12_label[0 := 0xE5]) 11
       = [0xE5, 0x59, 0x20, 0x56, 0x4F, 0x4C, 0x55, 0x4D, 0x45, 0x20, 0x20]
   \<and> grub_fat_label mem0 fat12_deleted_label
       = Some (Inr (Some (grub_strndup (fat12_label[0 := 0xE5]) 11)))"
proof -
  have f: "(\<forall>x\<in>set [fat12_hello]. x ! 0 \<noteq> 0 \<and> x ! 11 \<noteq> 0x08)
      \<and> (fat12_label[0 := 0xE5]) ! 0 = 0xE5 \<and> (fat12_label[0 := 0xE5]) ! 11 = 0x08"
    by (simp add: fat12_hello_literal fat12_label_literal)
  have s: "label_scan ([fat12_hello] @ fat12_label[0 := 0xE5] # [fat12_new_label])
       = Some (Some (grub_strndup (fat12_label[0 := 0xE5]) 11))"
    by (simp add: fat12_hello_literal fat12_label_literal)
  have v: "grub_strndup (fat12_label[0 := 0xE5]) 11
       = [0xE5, 0x59, 0x20, 0x56, 0x4F, 0x4C, 0x55, 0x4D, 0x45, 0x20, 0x20]"
    by (simp add: fat12_label_literal grub_strndup_def cstring_def)
  have r: "dir_records fat12_deleted_label fat12_handle 0 (Suc (Suc (Suc 0)))
       = Some ([fat12_hello] @ fat12_label[0 := 0xE5] # [fat12_new_label])"
    using deleted_label_records by simp
  from label_no_deleted_filter [OF variant_mount(3) r,
      of "Some (grub_strndup (fat12_label[0 := 0xE5]) 11)" "[fat12_hello]"
         "fat12_label[0 := 0xE5]" "[fat12_new_label]"] f s
  have "grub_fat_label mem0 fat12_deleted_label
       = Some (Inr (Some (grub_strndup (fat12_label[0 := 0xE5]) 11)))"
    by blast
  with variant_mount(3) r f s v show ?thesis by simp
qed

section \<open>The directory scanner\<close>

subsection \<open>Short names\<close>

lemma name_part_padded:
  assumes "space_padded bs"
  shows "name_part bs = map grub_tolower (strip_trailing_spaces bs)"
proof -
  define pre where "pre = strip_trailing_spaces bs"
  have "\<exists>k. bs = pre @ replicate k 0x20"
  proof -
    have "rev bs = takeWhile (\<lambda>c. c = 0x20) (rev bs) @ dropWhile (\<lambda>c. c = 0x20) (rev bs)"
      by simp
    then have "bs = rev (dropWhile (\<lambda>c. c = 0x20) (rev bs))
        @ rev (takeWhile (\<lambda>c. c = 0x20) (rev bs))"
      by (metis rev_append rev_rev_ident)
    moreover have "replicate (length (rev (takeWhile (\<lambda>c. c = 0x20) (rev bs)))) 0x20
        = rev (takeWhile (\<lambda>c. c = 0x20) (rev bs))"
      by (rule replicate_length_same) (auto dest: set_takeWhileD)
    ultimately show ?thesis unfolding pre_def strip_trailing_spaces_def by metis
  qed
  then obtain k where bs: "bs = pre @ replicate k 0x20" by blast
  have ok: "\<forall>c\<in>set pre. c \<noteq> 0 \<and> \<not> grub_isspace c"
    using assms by (simp add: space_padded_def pre_def)
  have "takeWhile (\<lambda>c. c \<noteq> 0 \<and> \<not> grub_isspace c) (pre @ replicate k 0x20) = pre"
  proof (cases k)
    case 0
    with ok show ?thesis by simp
  next
    case (Suc j)
    have "grub_isspace 0x20" by (simp add: grub_isspace_def)
    with ok Suc show ?thesis by (simp add: takeWhile_append2)
  qed
  then have "takeWhile (\<lambda>c. c \<noteq> 0 \<and> \<not> grub_isspace c) bs = pre"
    using bs by simp
  then show ?thesis by (simp add: name_part_def pre_def)
qed

lemma convert_8dot3_eq:
  "convert_8dot3 name =
     (let base = name_part (take 8 name); ext = name_part (take 3 (drop 8 name))
      in base @ (if ext = [] then []
                 else 0x2E # (if last ext = 0x2E then butlast ext else ext)))"
proof -
  define base where "base = name_part (take 8 name)"
  define ext where "ext = name_part (take 3 (drop 8 name))"
  have n: "(base @ [0x2E] @ ext) ! (length base + length ext) = last (0x2E # ext)"
    by (cases ext rule: rev_cases) (simp_all add: nth_append)
  show ?thesis
  proof (cases "ext = []")
    case True
    then show ?thesis
      unfolding convert_8dot3_def Let_def base_def [symmetric] ext_def [symmetric]
      by simp
  next
    case False
    then obtain e es where e: "ext = es @ [e]" by (cases ext rule: rev_cases) auto
    have t1: "take (length base + length ext) (base @ [0x2E] @ ext) = base @ 0x2E # es"
      by (simp add: e)
    have t2: "take (length base + length ext + 1) (base @ [0x2E] @ ext) = base @ 0x2E # ext"
      by (simp add: e)
    show ?thesis
      unfolding convert_8dot3_def Let_def base_def [symmetric] ext_def [symmetric] n
      using False t1 t2 by (simp add: e)
  qed
qed


lemma grub_tolower_dot: "grub_tolower c = 0x2E \<longleftrightarrow> c = 0x2E"
proof
  assume a: "grub_tolower c = 0x2E"
  show "c = 0x2E"
  proof (cases "0x41 \<le> c \<and> c \<le> 0x5A")
    case True
    then have "c - 0x41 + 0x61 = 0x2E" using a by (simp add: grub_tolower_def)
    then have "c = 0x0E" by (simp add: algebra_simps)
    with True show ?thesis by (simp add: word_le_nat_alt)
  next
    case False
    with a show ?thesis by (simp add: grub_tolower_def)
  qed
next
  assume "c = 0x2E"
  then show "grub_tolower c = 0x2E" by (simp add: grub_tolower_def word_le_nat_alt)
qed

lemma convert_8dot3_padded:
  assumes "space_padded (take 8 name)" "space_padded (take 3 (drop 8 name))"
    and "0x2E \<notin> set (take 3 (drop 8 name))"
  shows "convert_8dot3 name = spec_8dot3 name"
proof -
  let ?e = "strip_trailing_spaces (take 3 (drop 8 name))"
  have sub: "set ?e \<subseteq> set (take 3 (drop 8 name))"
    unfolding strip_trailing_spaces_def using set_dropWhileD by fastforce
  have "last (map grub_tolower ?e) \<noteq> 0x2E" if "?e \<noteq> []"
  proof -
    from that have "last ?e \<in> set ?e" by simp
    with sub assms(3) have "last ?e \<noteq> 0x2E" by auto
    then show ?thesis using that by (simp add: last_map grub_tolower_dot)
  qed
  then show ?thesis
    unfolding convert_8dot3_eq spec_8dot3_def Let_def
      name_part_padded [OF assms(1)] name_part_padded [OF assms(2)]
    by simp
qed


lemma scan_record_deleted:
  assumes "ds_dir st ! 0 = 0xe5" "ds_dir st ! 11 \<noteq> GRUB_FAT_ATTR_LONG_NAME"
  shows "scan_record u ch dn st = (st, Scan_Continue)"
  using assms by (simp add: scan_record_def)

lemma scan_record_short_list:
  assumes "ds_dir st ! 11 \<noteq> GRUB_FAT_ATTR_LONG_NAME" "ds_dir st ! 0 \<noteq> 0xe5"
    and "(ds_dir st ! 11) AND NOT GRUB_FAT_ATTR_VALID = 0"
    and "\<not> (ds_checksum st \<noteq> - 1 \<and> ds_slot st = 0)"
  shows "scan_record u (Some hook) [] st =
     (let dir1 = (if ds_dir st ! 0 = 0x05 then (ds_dir st)[0 := 0xe5] else ds_dir st);
          r = hook (ds_hook st) (convert_8dot3 (take 11 dir1))
                ((ds_dir st ! 11) AND GRUB_FAT_ATTR_DIRECTORY)
      in (st\<lparr> ds_dir := dir1, ds_hook := fst r \<rparr>,
          if snd r then Scan_Break else Scan_Continue))"
proof (cases "ds_dir st ! 0 = 0x05")
  case True
  have n: "(ds_dir st)[0 := 0xe5] ! 11 = ds_dir st ! 11" by simp
  show ?thesis
    using assms True
    by (auto simp add: scan_record_def match_name_def Let_def n split: prod.splits)
next
  case False
  show ?thesis
    using assms False
    by (auto simp add: scan_record_def match_name_def Let_def split: prod.splits)
qed

text \<open>
  C8, as the specification states it: the produced name has the trailing spaces of base
  and extension stripped. The scanner, listing a directory, meets the short entry with
  the name bytes \<open>A B\<close>, five spaces and \<open>TXT\<close>: it calls the hook with \<open>a.txt\<close>, where
  stripping trailing spaces gives \<open>a b.txt\<close>. The loops that convert the name stop at
  the first whitespace or NUL byte.
\<close>

theorem short_name_counterexample:
  "ds_hook (fst (scan_record utf16_ascii (Some collect_names) []
       ((init_scan [])\<lparr> ds_dir := entry_a_b \<rparr>))) = [map of_char ''a.txt'']
   \<and> spec_8dot3 (take 11 entry_a_b) = map of_char ''a b.txt''"
proof -
  have e: "entry_a_b = [65, 32, 66, 32, 32, 32, 32, 32, 84, 88, 84, 32, 0, 0, 0, 0, 0, 0,
      0, 0, 0, 0, 0, 0, 0, 0, 5, 0, 1, 0, 0, 0]"
    by (simp add: entry_a_b_def entry32_def)
  have c: "convert_8dot3 (take 11 entry_a_b) = map of_char ''a.txt''"
    by (simp add: e convert_8dot3_def name_part_def grub_isspace_def grub_tolower_def
        Let_def word_le_nat_alt)
  have s: "spec_8dot3 (take 11 entry_a_b) = map of_char ''a b.txt''"
    by (simp add: e spec_8dot3_def strip_trailing_spaces_def grub_tolower_def Let_def
        word_le_nat_alt)
  have "scan_record utf16_ascii (Some collect_names) []
       ((init_scan [])\<lparr> ds_dir := entry_a_b \<rparr>)
     = ((init_scan [])\<lparr> ds_dir := entry_a_b,
          ds_hook := [convert_8dot3 (take 11 entry_a_b)] \<rparr>, Scan_Continue)"
    by (subst scan_record_short_list)
       (simp_all add: e init_scan_def GRUB_FAT_ATTR_LONG_NAME_def GRUB_FAT_ATTR_VALID_def
        GRUB_FAT_ATTR_READ_ONLY_def GRUB_FAT_ATTR_HIDDEN_def GRUB_FAT_ATTR_SYSTEM_def
        GRUB_FAT_ATTR_VOLUME_ID_def GRUB_FAT_ATTR_DIRECTORY_def GRUB_FAT_ATTR_ARCHIVE_def
        collect_names_def Let_def)
  then show ?thesis using c s by simp
qed


text \<open>
  C8, amended. For every 32-byte record processed by the scanner: a record whose first
  name byte is \<open>0xE5\<close> and whose attribute byte is not the long-name attribute \<open>0x0F\<close> is
  skipped, the scanner's state unchanged; for a valid short entry with no long name
  pending, a first name byte of \<open>0x05\<close> is rewritten to \<open>0xE5\<close> before the name is formed,
  and the name produced (here: passed to the hook when a directory is listed) is
  \<open>convert_8dot3\<close> of the 11 name bytes; that name is the base, bytes 0 to 7 up to the first
  NUL or whitespace byte, lowercased, followed, only when the extension (bytes 8 to 10 up
  to the first NUL or whitespace byte) is not empty, by a dot and the lowercased extension
  (less a final dot, should the extension end in one); for a name whose parts are padded
  with spaces only at the end and whose extension holds no dot, this is the name with
  trailing spaces stripped, so an all-space extension gives no trailing dot.
\<close>

theorem short_entry_name:
  "(ds_dir st ! 0 = 0xe5 \<and> ds_dir st ! 11 \<noteq> GRUB_FAT_ATTR_LONG_NAME \<longrightarrow>
      scan_record u ch dn st = (st, Scan_Continue))
   \<and> (ds_dir st ! 11 \<noteq> GRUB_FAT_ATTR_LONG_NAME \<and> ds_dir st ! 0 \<noteq> 0xe5
        \<and> (ds_dir st ! 11) AND NOT GRUB_FAT_ATTR_VALID = 0
        \<and> \<not> (ds_checksum st \<noteq> - 1 \<and> ds_slot st = 0) \<longrightarrow>
      scan_record u (Some hook) [] st =
        (let dir1 = (if ds_dir st ! 0 = 0x05 then (ds_dir st)[0 := 0xe5] else ds_dir st);
             r = hook (ds_hook st) (convert_8dot3 (take 11 dir1))
                   ((ds_dir st ! 11) AND GRUB_FAT_ATTR_DIRECTORY)
         in (st\<lparr> ds_dir := dir1, ds_hook := fst r \<rparr>,
             if snd r then Scan_Break else Scan_Continue)))
   \<and> convert_8dot3 name =
        (let base = name_part (take 8 name); ext = name_part (take 3 (drop 8 name))
         in base @ (if ext = [] then []
                    else 0x2E # (if last ext = 0x2E then butlast ext else ext)))
   \<and> (space_padded (take 8 name) \<and> space_padded (take 3 (drop 8 name))
        \<and> 0x2E \<notin> set (take 3 (drop 8 name)) \<longrightarrow>
      convert_8dot3 name = spec_8dot3 name)"
  using scan_record_deleted [of st u ch dn] scan_record_short_list [of st u hook]
    convert_8dot3_eq [of name] convert_8dot3_padded [of name]
  by blast

theorem short_entry_name_witness:
  "scan_record utf16_ascii (None :: u8 list list fat_hook option) []
       ((init_scan [])\<lparr> ds_dir := fat12_hello[0 := 0xE5] \<rparr>)
     = ((init_scan [])\<lparr> ds_dir := fat12_hello[0 := 0xE5] \<rparr>, Scan_Continue)
   \<and> ds_hook (fst (scan_record utf16_ascii (Some collect_names) []
         ((init_scan [])\<lparr> ds_dir := entry_05 \<rparr>)))
       = [[0xE5, 0x62, 0x63, 0x2E, 0x74, 0x78, 0x74]]
   \<and> convert_8dot3 (take 11 entry_noext) = spec_8dot3 (take 11 entry_noext)
   \<and> spec_8dot3 (take 11 entry_noext) = map of_char ''readme''"
proof -
  let ?d = "(init_scan ([] :: u8 list list))\<lparr> ds_dir := fat12_hello[0 := 0xE5] \<rparr>"
  let ?s = "(init_scan ([] :: u8 list list))\<lparr> ds_dir := entry_05 \<rparr>"
  let ?n = "take 11 entry_noext"
  note t = short_entry_name [of ?d utf16_ascii None "[]" collect_names ?n]
  note t' = short_entry_name [of ?s utf16_ascii None "[]" collect_names ?n]
  have h: "fat12_hello =
    [72, 69, 76, 76, 79, 32, 32, 32, 84, 88, 84, 32, 0, 0, 0, 0, 0, 0, 0, 0, 0, 0, 0, 0, 0,
     0, 4, 0, 6, 0, 0, 0]"
    by (simp add: fat12_hello_def entry32_def)
  have e5: "entry_05 = [5, 66, 67, 32, 32, 32, 32, 32, 84, 88, 84, 32, 0, 0, 0, 0, 0, 0,
      0, 0, 0, 0, 0, 0, 0, 0, 5, 0, 1, 0, 0, 0]"
    by (simp add: entry_05_def entry32_def)
  have en: "entry_noext = [82, 69, 65, 68, 77, 69, 32, 32, 32, 32, 32, 32, 0, 0, 0, 0, 0,
      0, 0, 0, 0, 0, 0, 0, 0, 0, 5, 0, 1, 0, 0, 0]"
    by (simp add: entry_noext_def entry32_def)
  have a1: "ds_dir ?d ! 0 = 0xe5 \<and> ds_dir ?d ! 11 \<noteq> GRUB_FAT_ATTR_LONG_NAME"
    by (simp add: h GRUB_FAT_ATTR_LONG_NAME_def GRUB_FAT_ATTR_READ_ONLY_def
        GRUB_FAT_ATTR_HIDDEN_def GRUB_FAT_ATTR_SYSTEM_def GRUB_FAT_ATTR_VOLUME_ID_def)
  have a2: "ds_dir ?s ! 11 \<noteq> GRUB_FAT_ATTR_LONG_NAME \<and> ds_dir ?s ! 0 \<noteq> 0xe5
        \<and> (ds_dir ?s ! 11) AND NOT GRUB_FAT_ATTR_VALID = 0
        \<and> \<not> (ds_checksum ?s \<noteq> - 1 \<and> ds_slot ?s = 0)"
    by (simp add: e5 init_scan_def GRUB_FAT_ATTR_LONG_NAME_def GRUB_FAT_ATTR_VALID_def
        GRUB_FAT_ATTR_READ_ONLY_def GRUB_FAT_ATTR_HIDDEN_def GRUB_FAT_ATTR_SYSTEM_def
        GRUB_FAT_ATTR_VOLUME_ID_def GRUB_FAT_ATTR_DIRECTORY_def GRUB_FAT_ATTR_ARCHIVE_def)
  have a3: "space_padded (take 8 ?n) \<and> space_padded (take 3 (drop 8 ?n))
        \<and> 0x2E \<notin> set (take 3 (drop 8 ?n))"
    by (simp add: en space_padded_def strip_trailing_spaces_def grub_isspace_def)
  have c5: "convert_8dot3 (take 11 ((ds_dir ?s)[0 := 0xe5]))
      = [0xE5, 0x62, 0x63, 0x2E, 0x74, 0x78, 0x74]"
    by (simp add: e5 convert_8dot3_def name_part_def grub_isspace_def grub_tolower_def
        Let_def word_le_nat_alt)
  have sn: "spec_8dot3 ?n = map of_char ''readme''"
    by (simp add: en spec_8dot3_def strip_trailing_spaces_def grub_tolower_def Let_def
        word_le_nat_alt)
  from t a1 have r1: "scan_record utf16_ascii None [] ?d = (?d, Scan_Continue)" by blast
  from t' a2 have "scan_record utf16_ascii (Some collect_names) [] ?s =
        (let dir1 = (if ds_dir ?s ! 0 = 0x05 then (ds_dir ?s)[0 := 0xe5] else ds_dir ?s);
             r = collect_names (ds_hook ?s) (convert_8dot3 (take 11 dir1))
                   ((ds_dir ?s ! 11) AND GRUB_FAT_ATTR_DIRECTORY)
         in (?s\<lparr> ds_dir := dir1, ds_hook := fst r \<rparr>,
             if snd r then Scan_Break else Scan_Continue))"
    by blast
  moreover have "ds_dir ?s ! 0 = 0x05" by (simp add: e5)
  ultimately have r2: "ds_hook (fst (scan_record utf16_ascii (Some collect_names) [] ?s))
       = [[0xE5, 0x62, 0x63, 0x2E, 0x74, 0x78, 0x74]]"
    using c5 by (simp add: Let_def collect_names_def init_scan_def)
  from t a3 have r3: "convert_8dot3 ?n = spec_8dot3 ?n" by blast
  from r1 r2 r3 sn show ?thesis by simp
qed

subsection \<open>Long names\<close>

lemma ucast_add_down: "(ucast ((x::u32) + y) :: u8) = ucast x + ucast y"
proof -
  have d: "(256::nat) dvd 2 ^ 32" by (rule dvdI [of _ _ "2 ^ 24"]) simp
  have "unat (ucast (x + y) :: u8) = ((unat x + unat y) mod 2 ^ 32) mod 256"
    by (simp add: unsigned_ucast_eq take_bit_eq_mod unat_word_ariths)
  also have "\<dots> = (unat x + unat y) mod 256"
    using d by (rule mod_mod_cancel)
  also have "\<dots> = (unat x mod 256 + unat y mod 256) mod 256"
    by (simp add: mod_add_eq)
  also have "\<dots> = unat (ucast x + ucast y :: u8)"
    by (simp add: unsigned_ucast_eq take_bit_eq_mod unat_word_ariths)
  finally show ?thesis by (simp only: word_unat_eq_iff)
qed

lemma rotr_bits: "(ucast (drop_bit 1 (ucast (s::u8) :: u32) OR push_bit 7 (ucast s)) :: u8) = word_rotr 1 s"
proof (rule bit_word_eqI)
  fix n assume n: "n < LENGTH(8)"
  then have "n < 8" by simp
  show "bit (ucast (drop_bit 1 (ucast s :: u32) OR push_bit 7 (ucast s)) :: u8) n
      = bit (word_rotr 1 s) n"
  proof (cases "n = 7")
    case True
    then show ?thesis by (auto simp add: bit_simps dest: bit_imp_le_length)
  next
    case False
    with \<open>n < 8\<close> have "n < 7" by simp
    then show ?thesis by (simp add: bit_simps)
  qed
qed

lemma sum8dot3_step_rotr: "sum8dot3_step s b = word_rotr 1 s + b"
proof -
  have "sum8dot3_step s b
      = ucast (drop_bit 1 (ucast s :: u32) OR push_bit 7 (ucast s)) + ucast (ucast b :: u32)"
    unfolding sum8dot3_step_def by (rule ucast_add_down)
  also have "(ucast (ucast b :: u32) :: u8) = b"
    by (rule bit_word_eqI) (simp add: bit_simps)
  finally show ?thesis by (simp only: rotr_bits)
qed

lemma sum8dot3_spec: "sum8dot3 name = spec_sum8dot3 name"
proof -
  have "sum8dot3_step = (\<lambda>s b. word_rotr 1 s + b)"
    by (intro ext) (rule sum8dot3_step_rotr)
  then show ?thesis by (simp add: sum8dot3_def spec_sum8dot3_def)
qed

lemma scan_record_long_branch:
  assumes "ds_dir st ! 11 = GRUB_FAT_ATTR_LONG_NAME"
  shows "scan_record u ch dn st = (long_name_entry st, Scan_Continue)"
  using assms by (simp add: scan_record_def)

lemma long_name_entry_invalid:
  assumes "(ds_dir st ! 0) AND 0x40 = 0"
    and "uint (ds_dir st ! 0) \<noteq> ds_slot st \<or> uint (ds_dir st ! 13) \<noteq> ds_checksum st"
  shows "long_name_entry st = st\<lparr> ds_checksum := - 1 \<rparr>"
  using assms by (auto simp: long_name_entry_def Let_def)

lemma long_name_entry_next:
  assumes "(ds_dir st ! 0) AND 0x40 = 0"
    and "uint (ds_dir st ! 0) = ds_slot st" "ds_slot st \<noteq> 0"
    and "uint (ds_dir st ! 13) = ds_checksum st"
  shows "long_name_entry st =
     st\<lparr> ds_slot := ds_slot st - 1,
         ds_unibuf := write_units (ds_unibuf st) (nat ((ds_slot st - 1) * 13))
                        (long_name_units (ds_dir st)) \<rparr>"
  using assms by (auto simp: long_name_entry_def Let_def)

lemma long_name_entry_start:
  assumes "(ds_dir st ! 0) AND 0x40 \<noteq> 0" "(ds_dir st ! 0) AND 0x3f \<noteq> 0"
  shows "long_name_entry st =
     st\<lparr> ds_slots := uint ((ds_dir st ! 0) AND 0x3f),
         ds_slot := uint ((ds_dir st ! 0) AND 0x3f) - 1,
         ds_checksum := uint (ds_dir st ! 13),
         ds_unibuf := write_units (ds_unibuf st)
                        (nat ((uint ((ds_dir st ! 0) AND 0x3f) - 1) * 13))
                        (long_name_units (ds_dir st)) \<rparr>"
  using assms by (auto simp: long_name_entry_def Let_def uint_0_iff)

lemma scan_record_list:
  assumes "ds_dir st ! 11 \<noteq> GRUB_FAT_ATTR_LONG_NAME" "ds_dir st ! 0 \<noteq> 0xe5"
    and "(ds_dir st ! 11) AND NOT GRUB_FAT_ATTR_VALID = 0"
  shows "scan_record u (Some hook) [] st =
     (let dir1 = (if ds_dir st ! 0 = 0x05 then (ds_dir st)[0 := 0xe5] else ds_dir st);
          attach = (ds_slot st = 0 \<and> uint (sum8dot3 (take 11 dir1)) = ds_checksum st);
          filename = (if attach
                      then cstring (u (take (nat (ds_slots st * 13)) (ds_unibuf st)))
                      else convert_8dot3 (take 11 dir1));
          r = hook (ds_hook st) filename ((ds_dir st ! 11) AND GRUB_FAT_ATTR_DIRECTORY)
      in (st\<lparr> ds_dir := dir1, ds_hook := fst r,
              ds_checksum := (if ds_checksum st \<noteq> - 1 \<and> ds_slot st = 0
                                 \<and> \<not> (attach \<and> snd r)
                              then - 1 else ds_checksum st) \<rparr>,
          if snd r then Scan_Break else Scan_Continue))"
proof -
  have neg: "uint w \<noteq> - 1" for w :: u8
    using uint_ge_0 [of w] by linarith
  show ?thesis
  proof (cases "ds_dir st ! 0 = 0x05")
    case True
    have n: "(ds_dir st)[0 := 0xe5] ! 11 = ds_dir st ! 11" by simp
    show ?thesis
      using assms True neg
      by (auto simp add: scan_record_def match_name_def Let_def n split: prod.splits)
  next
    case False
    show ?thesis
      using assms False neg
      by (auto simp add: scan_record_def match_name_def Let_def split: prod.splits)
  qed
qed


lemma uint_u8_not_minus1: "uint (w :: u8) \<noteq> - 1"
  using uint_ge_0 [of w] by linarith

lemma scan_record_short_modes:
  assumes "ds_dir st ! 11 \<noteq> GRUB_FAT_ATTR_LONG_NAME" "ds_dir st ! 0 \<noteq> 0xe5"
    and "ds_dir st ! 0 \<noteq> 0x05"
    and "(ds_dir st ! 11) AND NOT GRUB_FAT_ATTR_VALID = 0"
  shows
    "(let name = take 11 (ds_dir st);
          attach = (ds_slot st = 0 \<and> uint (sum8dot3 name) = ds_checksum st);
          long = cstring (u (take (nat (ds_slots st * 13)) (ds_unibuf st)));
          short = convert_8dot3 name;
          dirflag = (ds_dir st ! 11) AND GRUB_FAT_ATTR_DIRECTORY;
          cleared = st\<lparr> ds_checksum := (if ds_slot st = 0 then - 1 else ds_checksum st) \<rparr>
      in scan_record u (Some hook) [] st =
           (let r = hook (ds_hook st) (if attach then long else short) dirflag
            in ((if attach \<and> snd r then st else cleared)\<lparr> ds_hook := fst r \<rparr>,
                if snd r then Scan_Break else Scan_Continue))
         \<and> scan_record u None dn st =
             (if attach \<and> dn = long then (st, Scan_Break)
              else if dn = short then (cleared, Scan_Break)
              else (cleared, Scan_Continue))
         \<and> (dn \<noteq> [] \<longrightarrow> scan_record u (Some hook) dn st =
             (if attach \<and> dn = long
              then (st\<lparr> ds_hook := fst (hook (ds_hook st) long dirflag) \<rparr>, Scan_Break)
              else if dn = short
              then (cleared\<lparr> ds_hook := fst (hook (ds_hook st) short dirflag) \<rparr>, Scan_Break)
              else (cleared, Scan_Continue))))"
  using assms uint_u8_not_minus1 [of "sum8dot3 (take 11 (ds_dir st))"]
  by (auto simp add: scan_record_def match_name_def Let_def split: prod.splits)

lemma entry_ab_literal: "entry_ab =
    [65, 66, 32, 32, 32, 32, 32, 32, 84, 88, 84, 32, 0, 0, 0, 0, 0, 0, 0, 0, 0, 0, 0, 0, 0,
     0, 5, 0, 1, 0, 0, 0]"
  by (simp add: entry_ab_def entry32_def)

lemma entry_ab_sum: "sum8dot3 (take 11 entry_ab) = 0x6E"
  by (simp add: entry_ab_literal sum8dot3_def sum8dot3_step_def)

lemma entry_ab_short: "convert_8dot3 (take 11 entry_ab) = map of_char ''ab.txt''"
  by (simp add: entry_ab_literal convert_8dot3_def name_part_def grub_isspace_def
      grub_tolower_def Let_def word_le_nat_alt)

lemma lfn_ab_units: "long_name_units lfn_ab =
    [0x41, 0x62, 0x2E, 0x74, 0x78, 0x74, 0, 0xFFFF, 0xFFFF, 0xFFFF, 0xFFFF, 0xFFFF, 0xFFFF]"
  by (simp add: long_name_units_def lfn_ab_def le16_def upt_conv_Cons)

lemma lfn_ab_name:
  "cstring (utf16_ascii (take 13 (long_name_units lfn_ab @ xs))) = map of_char ''Ab.txt''"
  by (simp add: lfn_ab_units utf16_ascii_def cstring_def)

lemma lfn_attr:
  "lfn_ab ! 11 = GRUB_FAT_ATTR_LONG_NAME" "lfn_stray ! 11 = GRUB_FAT_ATTR_LONG_NAME"
  "entry_ab ! 11 \<noteq> GRUB_FAT_ATTR_LONG_NAME" "entry_ab ! 0 \<noteq> 0xe5"
  "(entry_ab ! 11) AND NOT GRUB_FAT_ATTR_VALID = 0" "entry_ab ! 0 \<noteq> 0x05"
  by (simp_all add: lfn_ab_def lfn_stray_def entry_ab_literal GRUB_FAT_ATTR_LONG_NAME_def
      GRUB_FAT_ATTR_VALID_def GRUB_FAT_ATTR_READ_ONLY_def GRUB_FAT_ATTR_HIDDEN_def
      GRUB_FAT_ATTR_SYSTEM_def GRUB_FAT_ATTR_VOLUME_ID_def GRUB_FAT_ATTR_DIRECTORY_def
      GRUB_FAT_ATTR_ARCHIVE_def)

lemma entry_05_literal: "entry_05 =
    [5, 66, 67, 32, 32, 32, 32, 32, 84, 88, 84, 32, 0, 0, 0, 0, 0, 0, 0, 0, 0, 0, 0, 0, 0,
     0, 5, 0, 1, 0, 0, 0]"
  by (simp add: entry_05_def entry32_def)

lemma entry_05_sums:
  "sum8dot3 (take 11 entry_05) = 0xC2" "sum8dot3 (take 11 (entry_05[0 := 0xe5])) = 0xAA"
  by (simp_all add: entry_05_literal sum8dot3_def sum8dot3_step_def)

lemma entry_05_short:
  "convert_8dot3 (take 11 (entry_05[0 := 0xe5])) = [0xE5, 0x62, 0x63, 0x2E, 0x74, 0x78, 0x74]"
  by (simp add: entry_05_literal convert_8dot3_def name_part_def grub_isspace_def
      grub_tolower_def Let_def word_le_nat_alt)

lemma entry_05_attr:
  "entry_05 ! 11 \<noteq> GRUB_FAT_ATTR_LONG_NAME" "entry_05 ! 0 \<noteq> 0xe5"
  "(entry_05 ! 11) AND NOT GRUB_FAT_ATTR_VALID = 0" "entry_05 ! 0 = 0x05"
  by (simp_all add: entry_05_literal GRUB_FAT_ATTR_LONG_NAME_def
      GRUB_FAT_ATTR_VALID_def GRUB_FAT_ATTR_READ_ONLY_def GRUB_FAT_ATTR_HIDDEN_def
      GRUB_FAT_ATTR_SYSTEM_def GRUB_FAT_ATTR_VOLUME_ID_def GRUB_FAT_ATTR_DIRECTORY_def
      GRUB_FAT_ATTR_ARCHIVE_def)

lemma lfn_05_units: "long_name_units lfn_05 = long_name_units lfn_ab"
  by (simp add: long_name_units_def lfn_05_def lfn_ab_def le16_def upt_conv_Cons)

lemma scan_test_lfn_ab:
  "scan_test lfn_ab (init_scan []) =
     \<lparr> ds_dir = lfn_ab, ds_slot = 0, ds_slots = 1, ds_checksum = 110,
       ds_unibuf = long_name_units lfn_ab @ replicate 819 0, ds_hook = [] \<rparr>"
proof -
  let ?s = "(init_scan ([] :: u8 list list))\<lparr> ds_dir := lfn_ab \<rparr>"
  have "long_name_entry ?s =
     \<lparr> ds_dir = lfn_ab, ds_slot = 0, ds_slots = 1, ds_checksum = 110,
       ds_unibuf = long_name_units lfn_ab @ replicate 819 0, ds_hook = [] \<rparr>"
    by (subst long_name_entry_start)
       (simp_all add: init_scan_def write_units_def lfn_ab_units, simp_all add: lfn_ab_def)
  then show ?thesis
    by (simp add: scan_test_def scan_record_long_branch lfn_attr(1))
qed

lemma scan_test_lfn_05:
  "scan_test lfn_05 (init_scan []) =
     \<lparr> ds_dir = lfn_05, ds_slot = 0, ds_slots = 1, ds_checksum = 194,
       ds_unibuf = long_name_units lfn_ab @ replicate 819 0, ds_hook = [] \<rparr>"
proof -
  let ?s = "(init_scan ([] :: u8 list list))\<lparr> ds_dir := lfn_05 \<rparr>"
  have a: "lfn_05 ! 11 = GRUB_FAT_ATTR_LONG_NAME"
    by (simp add: lfn_05_def lfn_ab_def GRUB_FAT_ATTR_LONG_NAME_def
        GRUB_FAT_ATTR_READ_ONLY_def GRUB_FAT_ATTR_HIDDEN_def GRUB_FAT_ATTR_SYSTEM_def
        GRUB_FAT_ATTR_VOLUME_ID_def)
  have "long_name_entry ?s =
     \<lparr> ds_dir = lfn_05, ds_slot = 0, ds_slots = 1, ds_checksum = 194,
       ds_unibuf = long_name_units lfn_ab @ replicate 819 0, ds_hook = [] \<rparr>"
    by (subst long_name_entry_start)
       (simp_all add: init_scan_def write_units_def lfn_05_units lfn_ab_units,
        simp_all add: lfn_05_def lfn_ab_def)
  then show ?thesis
    by (simp add: scan_test_def scan_record_long_branch a)
qed

lemma entry_long_literal: "entry_long =
    [76, 79, 78, 71, 70, 73, 126, 49, 84, 88, 84, 32, 0, 0, 0, 0, 0, 0, 0, 0, 0, 0, 0, 0, 0,
     0, 5, 0, 1, 0, 0, 0]"
  by (simp add: entry_long_def entry32_def)

lemma entry_long_sum: "sum8dot3 (take 11 entry_long) = 0xD4"
  by (simp add: entry_long_literal sum8dot3_def sum8dot3_step_def)

lemma lfn_long_units:
  "long_name_units lfn_long2 =
    [0x74, 0x78, 0x74, 0, 0xFFFF, 0xFFFF, 0xFFFF, 0xFFFF, 0xFFFF, 0xFFFF, 0xFFFF, 0xFFFF,
     0xFFFF]"
  "long_name_units lfn_long1 =
    [0x4C, 0x6F, 0x6E, 0x67, 0x46, 0x69, 0x6C, 0x65, 0x4E, 0x61, 0x6D, 0x65, 0x2E]"
  by (simp_all add: long_name_units_def lfn_long2_def lfn_long1_def le16_def upt_conv_Cons)

lemma lfn_long_attr:
  "lfn_long2 ! 11 = GRUB_FAT_ATTR_LONG_NAME" "lfn_long1 ! 11 = GRUB_FAT_ATTR_LONG_NAME"
  "entry_long ! 11 \<noteq> GRUB_FAT_ATTR_LONG_NAME" "entry_long ! 0 \<noteq> 0xe5"
  "(entry_long ! 11) AND NOT GRUB_FAT_ATTR_VALID = 0" "entry_long ! 0 \<noteq> 0x05"
  by (simp_all add: lfn_long2_def lfn_long1_def entry_long_literal
      GRUB_FAT_ATTR_LONG_NAME_def
      GRUB_FAT_ATTR_VALID_def GRUB_FAT_ATTR_READ_ONLY_def GRUB_FAT_ATTR_HIDDEN_def
      GRUB_FAT_ATTR_SYSTEM_def GRUB_FAT_ATTR_VOLUME_ID_def GRUB_FAT_ATTR_DIRECTORY_def
      GRUB_FAT_ATTR_ARCHIVE_def)

subsection \<open>The claim about long names\<close>

text \<open>
  C6, as the specification states it: the long name is attached to the entry iff the group
  is complete and \<open>sum8dot3\<close> of the 11 name bytes of the entry equals the recorded
  checksum. After the group \<open>lfn_05\<close>, which is complete and records the checksum of the
  name bytes of \<open>entry_05\<close>, the scanner gives \<open>entry_05\<close> its 8.3 name: it sums the name
  after it has rewritten the first byte \<open>0x05\<close> to \<open>0xE5\<close>. After the group \<open>lfn_ab\<close>,
  which is complete and records the checksum of \<open>entry_ab\<close>, the long name \<open>Ab.txt\<close> is
  attached to \<open>entry_ab\<close>, and a lookup of \<open>ab.txt\<close> still finds the entry, by its 8.3
  name.
\<close>

theorem long_name_attach_counterexample:
  "spec_attach (scan_test lfn_05 (init_scan [])) entry_05
   \<and> ds_hook (scan_test entry_05 (scan_test lfn_05 (init_scan [])))
       = [[0xE5, 0x62, 0x63, 0x2E, 0x74, 0x78, 0x74]]
   \<and> spec_attach (scan_test lfn_ab (init_scan [])) entry_ab
   \<and> ds_hook (scan_test entry_ab (scan_test lfn_ab (init_scan []))) = [map of_char ''Ab.txt'']
   \<and> lookup_test (map of_char ''ab.txt'') entry_ab (scan_test lfn_ab (init_scan []))
       = Scan_Break"
proof -
  let ?s5 = "\<lparr> ds_dir = lfn_05, ds_slot = 0, ds_slots = 1, ds_checksum = 194,
       ds_unibuf = long_name_units lfn_ab @ replicate 819 0,
       ds_hook = ([] :: u8 list list) \<rparr>"
  let ?sa = "\<lparr> ds_dir = lfn_ab, ds_slot = 0, ds_slots = 1, ds_checksum = 110,
       ds_unibuf = long_name_units lfn_ab @ replicate 819 0,
       ds_hook = ([] :: u8 list list) \<rparr>"
  have c1: "spec_attach ?s5 entry_05"
    by (simp add: spec_attach_def sum8dot3_spec [symmetric] entry_05_sums)
  have c2: "ds_hook (scan_test entry_05 ?s5) = [[0xE5, 0x62, 0x63, 0x2E, 0x74, 0x78, 0x74]]"
    unfolding scan_test_def
    by (subst scan_record_list)
       (simp_all add: entry_05_attr entry_05_sums entry_05_short Let_def collect_names_def)
  have c3: "spec_attach ?sa entry_ab"
    by (simp add: spec_attach_def sum8dot3_spec [symmetric] entry_ab_sum)
  have c4: "ds_hook (scan_test entry_ab ?sa) = [map of_char ''Ab.txt'']"
    unfolding scan_test_def
    by (subst scan_record_list)
       (simp_all add: lfn_attr entry_ab_sum Let_def collect_names_def
          lfn_ab_units utf16_ascii_def cstring_def)
  have m: "scan_record utf16_ascii None (map of_char ''ab.txt'') (?sa\<lparr> ds_dir := entry_ab \<rparr>)
      = ((?sa\<lparr> ds_dir := entry_ab \<rparr>)\<lparr> ds_checksum := - 1 \<rparr>, Scan_Break)"
    using scan_record_short_modes [of "?sa\<lparr> ds_dir := entry_ab \<rparr>" utf16_ascii
        collect_names "map of_char ''ab.txt''"]
      lfn_attr entry_ab_sum entry_ab_short
    by (simp add: Let_def lfn_ab_units utf16_ascii_def cstring_def)
  have c5: "lookup_test (map of_char ''ab.txt'') entry_ab ?sa = Scan_Break"
    unfolding lookup_test_def m by simp
  from c1 c2 c3 c4 c5 show ?thesis
    unfolding scan_test_lfn_05 scan_test_lfn_ab by blast
qed

text \<open>
  C6, amended. For a valid short entry whose first name byte is not \<open>0x05\<close>, the long
  name is attached iff the expected next slot has reached 0 and \<open>sum8dot3\<close> of the 11
  name bytes equals the remembered checksum. Listing a directory, the hook is called once,
  with the long name if it is attached and with the 8.3 name otherwise. Looking up a path
  component, the entry is found if the long name is attached and equals the component, and
  also if the 8.3 name equals the component, whether or not a long name is attached; the
  hook, if there is one, is called with the name that matched. \<open>sum8dot3\<close> is the fold
  of \<open>s \<mapsto> rotate_right_8 (s) + b\<close> from 0. A long-name record goes to
  \<open>long_name_entry\<close>: a slot without the start flag whose id is not the expected one or
  whose checksum differs from the remembered one clears the remembered checksum (to
  \<open>- 1\<close>, which no sum equals, so that no long name is attached to the entry that
  follows); a slot in sequence stores its 13 code units and decrements the expected slot; a
  slot with the start flag begins a group and remembers its checksum.
\<close>

theorem long_name_attached:
  "(ds_dir st ! 11 \<noteq> GRUB_FAT_ATTR_LONG_NAME \<and> ds_dir st ! 0 \<noteq> 0xe5
      \<and> ds_dir st ! 0 \<noteq> 0x05 \<and> (ds_dir st ! 11) AND NOT GRUB_FAT_ATTR_VALID = 0 \<longrightarrow>
     (let name = take 11 (ds_dir st);
          attach = (ds_slot st = 0 \<and> uint (sum8dot3 name) = ds_checksum st);
          long = cstring (u (take (nat (ds_slots st * 13)) (ds_unibuf st)));
          short = convert_8dot3 name;
          dirflag = (ds_dir st ! 11) AND GRUB_FAT_ATTR_DIRECTORY;
          cleared = st\<lparr> ds_checksum := (if ds_slot st = 0 then - 1 else ds_checksum st) \<rparr>
      in scan_record u (Some hook) [] st =
           (let r = hook (ds_hook st) (if attach then long else short) dirflag
            in ((if attach \<and> snd r then st else cleared)\<lparr> ds_hook := fst r \<rparr>,
                if snd r then Scan_Break else Scan_Continue))
         \<and> scan_record u None dn st =
             (if attach \<and> dn = long then (st, Scan_Break)
              else if dn = short then (cleared, Scan_Break)
              else (cleared, Scan_Continue))
         \<and> (dn \<noteq> [] \<longrightarrow> scan_record u (Some hook) dn st =
             (if attach \<and> dn = long
              then (st\<lparr> ds_hook := fst (hook (ds_hook st) long dirflag) \<rparr>, Scan_Break)
              else if dn = short
              then (cleared\<lparr> ds_hook := fst (hook (ds_hook st) short dirflag) \<rparr>, Scan_Break)
              else (cleared, Scan_Continue)))))
   \<and> sum8dot3 bs = spec_sum8dot3 bs \<and> uint (sum8dot3 bs) \<noteq> - 1
   \<and> (ds_dir st ! 11 = GRUB_FAT_ATTR_LONG_NAME \<longrightarrow>
        scan_record u ch dn st = (long_name_entry st, Scan_Continue))
   \<and> ((ds_dir st ! 0) AND 0x40 = 0
        \<and> (uint (ds_dir st ! 0) \<noteq> ds_slot st \<or> uint (ds_dir st ! 13) \<noteq> ds_checksum st)
        \<longrightarrow> long_name_entry st = st\<lparr> ds_checksum := - 1 \<rparr>)
   \<and> ((ds_dir st ! 0) AND 0x40 = 0 \<and> uint (ds_dir st ! 0) = ds_slot st \<and> ds_slot st \<noteq> 0
        \<and> uint (ds_dir st ! 13) = ds_checksum st \<longrightarrow>
        long_name_entry st =
          st\<lparr> ds_slot := ds_slot st - 1,
              ds_unibuf := write_units (ds_unibuf st) (nat ((ds_slot st - 1) * 13))
                             (long_name_units (ds_dir st)) \<rparr>)
   \<and> ((ds_dir st ! 0) AND 0x40 \<noteq> 0 \<and> (ds_dir st ! 0) AND 0x3f \<noteq> 0 \<longrightarrow>
        long_name_entry st =
          st\<lparr> ds_slots := uint ((ds_dir st ! 0) AND 0x3f),
              ds_slot := uint ((ds_dir st ! 0) AND 0x3f) - 1,
              ds_checksum := uint (ds_dir st ! 13),
              ds_unibuf := write_units (ds_unibuf st)
                             (nat ((uint ((ds_dir st ! 0) AND 0x3f) - 1) * 13))
                             (long_name_units (ds_dir st)) \<rparr>)"
  using scan_record_short_modes [of st u hook dn] sum8dot3_spec [of bs]
    uint_u8_not_minus1 [of "sum8dot3 bs"]
    scan_record_long_branch [of st u ch dn] long_name_entry_invalid [of st]
    long_name_entry_next [of st] long_name_entry_start [of st]
  by blast

theorem long_name_attached_witness:
  "ds_hook (scan_test entry_ab (scan_test lfn_ab (init_scan []))) = [map of_char ''Ab.txt'']
   \<and> lookup_test (map of_char ''Ab.txt'') entry_ab (scan_test lfn_ab (init_scan []))
       = Scan_Break
   \<and> lookup_test (map of_char ''ab.txt'') entry_ab (scan_test lfn_ab (init_scan []))
       = Scan_Break
   \<and> lookup_test (map of_char ''ab.doc'') entry_ab (scan_test lfn_ab (init_scan []))
       = Scan_Continue
   \<and> ds_hook (fst (scan_record utf16_ascii (Some collect_names) (map of_char ''ab.txt'')
         ((scan_test lfn_ab (init_scan []))\<lparr> ds_dir := entry_ab \<rparr>)))
       = [map of_char ''ab.txt'']
   \<and> ds_hook (scan_test entry_ab (scan_test lfn_stray (scan_test lfn_ab (init_scan []))))
       = [map of_char ''ab.txt'']
   \<and> lookup_test (map of_char ''Ab.txt'') entry_ab
         (scan_test lfn_stray (scan_test lfn_ab (init_scan []))) = Scan_Continue
   \<and> ds_hook (scan_test entry_long (scan_test lfn_long1 (scan_test lfn_long2 (init_scan []))))
       = [map of_char ''LongFileName.txt'']
   \<and> spec_sum8dot3 (take 11 entry_ab) = 0x6E"
proof -
  let ?i = "init_scan ([] :: u8 list list)"
  define st1 :: "u8 list list dir_scan" where
    "st1 = \<lparr> ds_dir = lfn_ab, ds_slot = 0, ds_slots = 1, ds_checksum = 110,
             ds_unibuf = long_name_units lfn_ab @ replicate 819 0, ds_hook = [] \<rparr>"
  \<comment> \<open>the slot that starts the group \<open>lfn_ab\<close>\<close>
  note ta = long_name_attached [where st = "?i\<lparr> ds_dir := lfn_ab \<rparr>" and u = utf16_ascii
      and hook = collect_names and bs = "take 11 entry_ab" and ch = "Some collect_names"
      and dn = "[]"]
  have "scan_record utf16_ascii (Some collect_names) [] (?i\<lparr> ds_dir := lfn_ab \<rparr>)
      = (long_name_entry (?i\<lparr> ds_dir := lfn_ab \<rparr>), Scan_Continue)"
    using ta lfn_attr(1) by simp
  moreover have "(ds_dir (?i\<lparr> ds_dir := lfn_ab \<rparr>) ! 0) AND 0x40 \<noteq> 0
      \<and> (ds_dir (?i\<lparr> ds_dir := lfn_ab \<rparr>) ! 0) AND 0x3f \<noteq> 0"
    by (simp add: lfn_ab_def)
  with ta have "long_name_entry (?i\<lparr> ds_dir := lfn_ab \<rparr>) =
          (?i\<lparr> ds_dir := lfn_ab \<rparr>)
            \<lparr> ds_slots := uint ((ds_dir (?i\<lparr> ds_dir := lfn_ab \<rparr>) ! 0) AND 0x3f),
              ds_slot := uint ((ds_dir (?i\<lparr> ds_dir := lfn_ab \<rparr>) ! 0) AND 0x3f) - 1,
              ds_checksum := uint (ds_dir (?i\<lparr> ds_dir := lfn_ab \<rparr>) ! 13),
              ds_unibuf := write_units (ds_unibuf (?i\<lparr> ds_dir := lfn_ab \<rparr>))
                (nat ((uint ((ds_dir (?i\<lparr> ds_dir := lfn_ab \<rparr>) ! 0) AND 0x3f) - 1) * 13))
                (long_name_units (ds_dir (?i\<lparr> ds_dir := lfn_ab \<rparr>))) \<rparr>"
    by blast
  then have "long_name_entry (?i\<lparr> ds_dir := lfn_ab \<rparr>) = st1"
    by (simp add: st1_def init_scan_def write_units_def lfn_ab_units)
       (simp add: lfn_ab_def)
  ultimately have s1: "scan_test lfn_ab ?i = st1" by (simp add: scan_test_def)
  \<comment> \<open>the short entry after the complete group\<close>
  let ?e = "st1\<lparr> ds_dir := entry_ab \<rparr>"
  have ab: "ds_dir ?e ! 11 \<noteq> GRUB_FAT_ATTR_LONG_NAME \<and> ds_dir ?e ! 0 \<noteq> 0xe5
      \<and> ds_dir ?e ! 0 \<noteq> 0x05 \<and> (ds_dir ?e ! 11) AND NOT GRUB_FAT_ATTR_VALID = 0"
    using lfn_attr by simp
  have ev: "take 11 (ds_dir ?e) = take 11 entry_ab" "ds_slot ?e = 0" "ds_checksum ?e = 110"
    "cstring (utf16_ascii (take (nat (ds_slots ?e * 13)) (ds_unibuf ?e)))
       = map of_char ''Ab.txt''"
    by (simp_all add: st1_def lfn_ab_units utf16_ascii_def cstring_def)
  note tb = long_name_attached [where st = ?e and u = utf16_ascii
      and hook = collect_names and bs = "take 11 entry_ab" and ch = "Some collect_names"
      and dn = "map of_char ''Ab.txt''"]
  from tb ab have sum: "sum8dot3 (take 11 entry_ab) = spec_sum8dot3 (take 11 entry_ab)"
    by blast
  from conjunct1 [OF tb] ab
  have b: "scan_record utf16_ascii (Some collect_names) [] ?e
        = (?e\<lparr> ds_checksum := - 1, ds_hook := [map of_char ''Ab.txt''] \<rparr>, Scan_Continue)
      \<and> scan_record utf16_ascii None (map of_char ''Ab.txt'') ?e = (?e, Scan_Break)"
    unfolding Let_def ev entry_ab_sum entry_ab_short
    by (simp add: collect_names_def st1_def)
  from b have r1: "ds_hook (scan_test entry_ab (scan_test lfn_ab ?i)) = [map of_char ''Ab.txt'']"
    unfolding s1 by (simp add: scan_test_def)
  from b have r2: "lookup_test (map of_char ''Ab.txt'') entry_ab (scan_test lfn_ab ?i)
      = Scan_Break"
    unfolding s1 by (simp add: lookup_test_def)
  note tb2 = long_name_attached [where st = ?e and u = utf16_ascii
      and hook = collect_names and bs = "take 11 entry_ab" and ch = "Some collect_names"
      and dn = "map of_char ''ab.txt''"]
  from conjunct1 [OF tb2] ab
  have b2: "scan_record utf16_ascii None (map of_char ''ab.txt'') ?e
        = (?e\<lparr> ds_checksum := - 1 \<rparr>, Scan_Break)
      \<and> scan_record utf16_ascii (Some collect_names) (map of_char ''ab.txt'') ?e
        = (?e\<lparr> ds_checksum := - 1, ds_hook := [map of_char ''ab.txt''] \<rparr>, Scan_Break)"
    unfolding Let_def ev entry_ab_sum entry_ab_short
    by (simp add: collect_names_def st1_def)
  from b2 have r3: "lookup_test (map of_char ''ab.txt'') entry_ab (scan_test lfn_ab ?i)
      = Scan_Break"
    unfolding s1 by (simp add: lookup_test_def)
  from b2 have r5: "ds_hook (fst (scan_record utf16_ascii (Some collect_names)
         (map of_char ''ab.txt'') ((scan_test lfn_ab ?i)\<lparr> ds_dir := entry_ab \<rparr>)))
       = [map of_char ''ab.txt'']"
    unfolding s1 by simp
  note tb3 = long_name_attached [where st = ?e and u = utf16_ascii
      and hook = collect_names and bs = "take 11 entry_ab" and ch = "Some collect_names"
      and dn = "map of_char ''ab.doc''"]
  from conjunct1 [OF tb3] ab
  have "scan_record utf16_ascii None (map of_char ''ab.doc'') ?e
        = (?e\<lparr> ds_checksum := - 1 \<rparr>, Scan_Continue)"
    unfolding Let_def ev entry_ab_sum entry_ab_short
    by (simp add: st1_def)
  then have r4: "lookup_test (map of_char ''ab.doc'') entry_ab (scan_test lfn_ab ?i)
      = Scan_Continue"
    unfolding s1 by (simp add: lookup_test_def)
  \<comment> \<open>a slot out of sequence after the group\<close>
  note tc = long_name_attached [where st = "st1\<lparr> ds_dir := lfn_stray \<rparr>" and u = utf16_ascii
      and hook = collect_names and bs = "take 11 entry_ab" and ch = "Some collect_names"
      and dn = "[]"]
  have "scan_record utf16_ascii (Some collect_names) [] (st1\<lparr> ds_dir := lfn_stray \<rparr>)
      = (long_name_entry (st1\<lparr> ds_dir := lfn_stray \<rparr>), Scan_Continue)"
    using tc lfn_attr(2) by simp
  moreover have "(ds_dir (st1\<lparr> ds_dir := lfn_stray \<rparr>) ! 0) AND 0x40 = 0
      \<and> (uint (ds_dir (st1\<lparr> ds_dir := lfn_stray \<rparr>) ! 0) \<noteq> ds_slot (st1\<lparr> ds_dir := lfn_stray \<rparr>)
         \<or> uint (ds_dir (st1\<lparr> ds_dir := lfn_stray \<rparr>) ! 13)
             \<noteq> ds_checksum (st1\<lparr> ds_dir := lfn_stray \<rparr>))"
    by (simp add: lfn_stray_def lfn_ab_def st1_def)
  with tc have "long_name_entry (st1\<lparr> ds_dir := lfn_stray \<rparr>)
      = (st1\<lparr> ds_dir := lfn_stray \<rparr>)\<lparr> ds_checksum := - 1 \<rparr>"
    by blast
  ultimately have s2: "scan_test lfn_stray st1 = st1\<lparr> ds_dir := lfn_stray, ds_checksum := - 1 \<rparr>"
    by (simp add: scan_test_def)
  let ?f = "st1\<lparr> ds_dir := lfn_stray, ds_checksum := - 1, ds_dir := entry_ab \<rparr>"
  have fb: "ds_dir ?f ! 11 \<noteq> GRUB_FAT_ATTR_LONG_NAME \<and> ds_dir ?f ! 0 \<noteq> 0xe5
      \<and> ds_dir ?f ! 0 \<noteq> 0x05 \<and> (ds_dir ?f ! 11) AND NOT GRUB_FAT_ATTR_VALID = 0"
    using lfn_attr by simp
  have fv: "take 11 (ds_dir ?f) = take 11 entry_ab" "ds_slot ?f = 0" "ds_checksum ?f = - 1"
    by (simp_all add: st1_def)
  note td = long_name_attached [where st = ?f and u = utf16_ascii
      and hook = collect_names and bs = "take 11 entry_ab" and ch = "Some collect_names"
      and dn = "map of_char ''Ab.txt''"]
  from conjunct1 [OF td] fb
  have d: "ds_hook (fst (scan_record utf16_ascii (Some collect_names) [] ?f))
        = [map of_char ''ab.txt'']
      \<and> snd (scan_record utf16_ascii None (map of_char ''Ab.txt'') ?f) = Scan_Continue"
    unfolding Let_def fv entry_ab_sum entry_ab_short
    by (simp add: collect_names_def st1_def)
  from d have r6: "ds_hook (scan_test entry_ab (scan_test lfn_stray (scan_test lfn_ab ?i)))
       = [map of_char ''ab.txt'']"
    unfolding s1 s2 by (simp add: scan_test_def)
  from d have r7: "lookup_test (map of_char ''Ab.txt'') entry_ab
         (scan_test lfn_stray (scan_test lfn_ab ?i)) = Scan_Continue"
    unfolding s1 s2 by (simp add: lookup_test_def)
  \<comment> \<open>a group of two slots\<close>
  define sa :: "u8 list list dir_scan" where
    "sa = \<lparr> ds_dir = lfn_long2, ds_slot = 1, ds_slots = 2, ds_checksum = 212,
            ds_unibuf = replicate 13 0 @ long_name_units lfn_long2 @ replicate 806 0,
            ds_hook = [] \<rparr>"
  define sb :: "u8 list list dir_scan" where
    "sb = \<lparr> ds_dir = lfn_long1, ds_slot = 0, ds_slots = 2, ds_checksum = 212,
            ds_unibuf = long_name_units lfn_long1 @ long_name_units lfn_long2
                        @ replicate 806 0,
            ds_hook = [] \<rparr>"
  let ?g = "?i\<lparr> ds_dir := lfn_long2 \<rparr>"
  note te = long_name_attached [where st = ?g and u = utf16_ascii
      and hook = collect_names and bs = "take 11 entry_ab" and ch = "Some collect_names"
      and dn = "[]"]
  have "scan_record utf16_ascii (Some collect_names) [] ?g = (long_name_entry ?g, Scan_Continue)"
    using te lfn_long_attr(1) by simp
  moreover have "(ds_dir ?g ! 0) AND 0x40 \<noteq> 0 \<and> (ds_dir ?g ! 0) AND 0x3f \<noteq> 0"
    by (simp add: lfn_long2_def)
  with te have "long_name_entry ?g =
          ?g\<lparr> ds_slots := uint ((ds_dir ?g ! 0) AND 0x3f),
              ds_slot := uint ((ds_dir ?g ! 0) AND 0x3f) - 1,
              ds_checksum := uint (ds_dir ?g ! 13),
              ds_unibuf := write_units (ds_unibuf ?g)
                (nat ((uint ((ds_dir ?g ! 0) AND 0x3f) - 1) * 13))
                (long_name_units (ds_dir ?g)) \<rparr>"
    by blast
  then have "long_name_entry ?g = sa"
    by (simp add: sa_def init_scan_def write_units_def lfn_long_units)
       (simp add: lfn_long2_def)
  ultimately have s3: "scan_test lfn_long2 ?i = sa" by (simp add: scan_test_def)
  let ?h = "sa\<lparr> ds_dir := lfn_long1 \<rparr>"
  note tf = long_name_attached [where st = ?h and u = utf16_ascii
      and hook = collect_names and bs = "take 11 entry_ab" and ch = "Some collect_names"
      and dn = "[]"]
  have "scan_record utf16_ascii (Some collect_names) [] ?h = (long_name_entry ?h, Scan_Continue)"
    using tf lfn_long_attr(2) by simp
  moreover have "(ds_dir ?h ! 0) AND 0x40 = 0 \<and> uint (ds_dir ?h ! 0) = ds_slot ?h
      \<and> ds_slot ?h \<noteq> 0 \<and> uint (ds_dir ?h ! 13) = ds_checksum ?h"
    by (simp add: lfn_long1_def sa_def)
  with tf have "long_name_entry ?h =
          ?h\<lparr> ds_slot := ds_slot ?h - 1,
              ds_unibuf := write_units (ds_unibuf ?h) (nat ((ds_slot ?h - 1) * 13))
                             (long_name_units (ds_dir ?h)) \<rparr>"
    by blast
  then have "long_name_entry ?h = sb"
    by (simp add: sa_def sb_def write_units_def lfn_long_units)
  ultimately have s4: "scan_test lfn_long1 sa = sb" by (simp add: scan_test_def)
  let ?k = "sb\<lparr> ds_dir := entry_long \<rparr>"
  have kb: "ds_dir ?k ! 11 \<noteq> GRUB_FAT_ATTR_LONG_NAME \<and> ds_dir ?k ! 0 \<noteq> 0xe5
      \<and> ds_dir ?k ! 0 \<noteq> 0x05 \<and> (ds_dir ?k ! 11) AND NOT GRUB_FAT_ATTR_VALID = 0"
    using lfn_long_attr by simp
  have kv: "take 11 (ds_dir ?k) = take 11 entry_long" "ds_slot ?k = 0" "ds_checksum ?k = 212"
    "cstring (utf16_ascii (take (nat (ds_slots ?k * 13)) (ds_unibuf ?k)))
       = map of_char ''LongFileName.txt''"
    by (simp_all add: sb_def lfn_long_units utf16_ascii_def cstring_def)
  note tg = long_name_attached [where st = ?k and u = utf16_ascii
      and hook = collect_names and bs = "take 11 entry_ab" and ch = "Some collect_names"
      and dn = "[]"]
  from conjunct1 [OF tg] kb
  have "ds_hook (fst (scan_record utf16_ascii (Some collect_names) [] ?k))
        = [map of_char ''LongFileName.txt'']"
    unfolding Let_def kv entry_long_sum
    by (simp add: collect_names_def sb_def)
  then have r8: "ds_hook (scan_test entry_long (scan_test lfn_long1 (scan_test lfn_long2 ?i)))
       = [map of_char ''LongFileName.txt'']"
    unfolding s3 s4 by (simp add: scan_test_def)
  from r1 r2 r3 r4 r5 r6 r7 r8 sum entry_ab_sum show ?thesis by simp
qed

section \<open>The positional reader\<close>

subsection \<open>The loop over the clusters\<close>

lemma read_loop_0: "read_loop disk B d lc off 0 buf cl = Some (d, cl, Inr buf)"
  by (subst read_loop.simps) simp


lemma chunk_size:
  fixes len off :: u32
  assumes B: "B \<le> 30" and off: "unat off < 2 ^ B" and len: "unat len < 2 ^ 31" "len \<noteq> 0"
  defines "size0 \<equiv> push_bit B 1 - off"
  defines "sz \<equiv> (if len <s size0 then len else size0)"
  shows "unat sz = min (unat len) (2 ^ B - unat off)" "0 < unat sz" "unat sz \<le> unat len"
    "unat (len - sz) = unat len - unat sz"
proof -
  have p: "(2::nat) ^ B \<le> 2 ^ 30" using B by (rule power_increasing) simp
  have "(2::nat) ^ B < 2 ^ 32" using p by simp
  moreover have "(push_bit B 1 :: u32) = of_nat (2 ^ B)" by simp
  ultimately have pb: "unat (push_bit B 1 :: u32) = 2 ^ B"
    by (simp only: unat_of_nat) simp
  have le: "off \<le> push_bit B 1" using off pb by (simp add: word_le_nat_alt)
  have s0: "unat size0 = 2 ^ B - unat off"
    unfolding size0_def using le pb by (simp add: unat_sub)
  have s0_small: "unat size0 < 2 ^ 31" using s0 p by simp
  have cmp: "len <s size0 \<longleftrightarrow> unat len < unat size0"
    by (rule sless_small [OF len(1) s0_small])
  show 1: "unat sz = min (unat len) (2 ^ B - unat off)"
    unfolding sz_def cmp using s0 by (simp add: min_def)
  have "0 < unat len" using len(2) by (simp add: unat_gt_0)
  then show 2: "0 < unat sz" using 1 off by simp
  show 3: "unat sz \<le> unat len" using 1 by simp
  then have "sz \<le> len" by (simp add: word_le_nat_alt)
  then show "unat (len - sz) = unat len - unat sz" by (rule unat_sub)
qed


lemma read_loop_stop:
  assumes "len \<noteq> 0" "walk_chain disk d lc = (d1, w)" "w \<noteq> Walk_OK"
  shows "read_loop disk B d lc off len buf cl =
     Some (d1, cl, case w of Walk_Err e \<Rightarrow> Inl e | _ \<Rightarrow> Inr buf)"
  using assms by (subst read_loop.simps) (simp split: walk_result.splits)

lemma read_loop_step:
  assumes "len \<noteq> 0" "walk_chain disk d lc = (d1, Walk_OK)"
    and "sz = (if len <s push_bit B 1 - off then len else push_bit B 1 - off)"
  shows "read_loop disk B d lc off len buf cl =
     (case grub_disk_read disk
            (unat (cluster_sector d1
                   + push_bit (nat (cluster_bits d1 + logical_sector_bits d1))
                       (cur_cluster d1 - 2)))
            (unat off) (unat sz) of
        None \<Rightarrow> Some (d1, cl @ [cur_cluster d1], Inl GRUB_ERR_DISK)
      | Some bs \<Rightarrow>
          read_loop disk B d1 (lc + 1) 0 (len - sz) (buf @ bs) (cl @ [cur_cluster d1]))"
  using assms(1,2) unfolding assms(3)
  by (subst read_loop.simps) (simp add: Let_def cong: option.case_cong)




lemma walk_chain_here:
  "\<not> cur_cluster_num d < lc \<Longrightarrow> walk_chain disk d lc = (d, Walk_OK)"
  by (subst walk_chain.simps) simp





lemma find_dir_loop_step:
  assumes "grub_fat_read_data disk d (off + 32) 32 = Some (d1, cl, Inr bs)"
    and "length bs = 32" "bs ! 0 \<noteq> 0" "length (ds_dir st) \<le> 32"
  shows "find_dir_loop u disk ch dn d off st =
     (case scan_record u ch dn (st\<lparr> ds_dir := bs \<rparr>) of
        (st2, Scan_Break) \<Rightarrow> Some (d1, st2, None)
      | (st2, Scan_Continue) \<Rightarrow> find_dir_loop u disk ch dn d1 (off + 32) st2)"
  using assms
  by (subst find_dir_loop.simps) (simp add: GRUB_FAT_DIR_ENTRY_SIZE_def Let_def)

lemma scan_record_lookup:
  assumes "ds_dir st ! 11 \<noteq> GRUB_FAT_ATTR_LONG_NAME" "ds_dir st ! 0 \<noteq> 0xe5"
    and "(ds_dir st ! 11) AND NOT GRUB_FAT_ATTR_VALID = 0" "ds_dir st ! 0 \<noteq> 0x05"
    and "ds_checksum st = - 1"
  shows "scan_record u None dn st =
     (st, if dn = convert_8dot3 (take 11 (ds_dir st)) then Scan_Break else Scan_Continue)"
  using assms by (simp add: scan_record_def match_name_def Let_def)


lemma open_found:
  assumes mount: "grub_fat_mount mem0 (Some dk) = Inr fat12_handle"
    and loop: "find_dir_loop u dk None dn fat12_handle (- 32) (init_scan ())
                 = Some (fat12_handle, st, None)"
    and path: "0x2F \<notin> set dn"
    and isfile: "(ds_dir st ! 11) AND GRUB_FAT_ATTR_DIRECTORY = 0"
  shows "grub_fat_open u mem0 dk (0x2F # dn) =
     Some (Inr (fat12_handle\<lparr> attr := ds_dir st ! 11,
                  file_size := le32 (drop 28 (ds_dir st)),
                  file_cluster := push_bit 16 (ucast (le16 (drop 20 (ds_dir st))))
                                  OR ucast (le16 (drop 26 (ds_dir st))),
                  cur_cluster_num := - 1 \<rparr>))"
proof -
  have dw: "dropWhile (\<lambda>c. c \<noteq> 0x2F) dn = []" "takeWhile (\<lambda>c. c \<noteq> 0x2F) dn = dn"
    using path by (auto simp add: dropWhile_eq_Nil_conv takeWhile_eq_all_conv)
  have dw0: "dropWhile (\<lambda>c. c = 0x2F) dn = dn"
    using path by (cases dn) auto
  have a: "attr fat12_handle AND GRUB_FAT_ATTR_DIRECTORY \<noteq> 0"
    by (simp add: fat12_handle_def GRUB_FAT_ATTR_DIRECTORY_def)
  have "grub_fat_find_dir u dk fat12_handle (0x2F # dn) (None :: unit fat_hook option) () =
     Some (ds_hook st,
           Inr (fat12_handle\<lparr> attr := ds_dir st ! 11,
                  file_size := le32 (drop 28 (ds_dir st)),
                  file_cluster := push_bit 16 (ucast (le16 (drop 20 (ds_dir st))))
                                  OR ucast (le16 (drop 26 (ds_dir st))),
                  cur_cluster_num := - 1 \<rparr>, None))"
    using path a loop
    by (simp add: grub_fat_find_dir_def Let_def dw0 dw GRUB_FAT_DIR_ENTRY_SIZE_def)
  then show ?thesis
    using isfile
    by (simp add: grub_fat_open_def mount)
       (subst open_loop.simps, simp)
qed



lemma attr_values:
  "(0x08 :: u8) \<noteq> GRUB_FAT_ATTR_LONG_NAME" "(0x08 :: u8) AND NOT GRUB_FAT_ATTR_VALID \<noteq> 0"
  "(0x20 :: u8) \<noteq> GRUB_FAT_ATTR_LONG_NAME" "(0x20 :: u8) AND NOT GRUB_FAT_ATTR_VALID = 0"
  "(0x20 :: u8) AND GRUB_FAT_ATTR_DIRECTORY = 0"
  by (simp_all add: GRUB_FAT_ATTR_LONG_NAME_def
      GRUB_FAT_ATTR_VALID_def GRUB_FAT_ATTR_READ_ONLY_def GRUB_FAT_ATTR_HIDDEN_def
      GRUB_FAT_ATTR_SYSTEM_def GRUB_FAT_ATTR_VOLUME_ID_def GRUB_FAT_ATTR_DIRECTORY_def
      GRUB_FAT_ATTR_ARCHIVE_def)



lemma msb_clear:
  fixes w :: u32
  assumes "unat w < 2 ^ 31"
  shows "\<not> bit w 31"
proof -
  have "bit w 31 = bit (unat w) 31" by (simp add: bit_unsigned_iff)
  also have "\<dots> = odd (unat w div 2 ^ 31)" by (rule bit_iff_odd)
  also have "unat w div 2 ^ 31 = 0" using assms by simp
  finally show ?thesis by simp
qed

lemma signed_drop_bit_small:
  fixes w :: u32
  assumes "unat w < 2 ^ 31"
  shows "signed_drop_bit m w = drop_bit m w"
proof (rule bit_word_eqI)
  fix n assume "n < LENGTH(32)"
  show "bit (signed_drop_bit m w) n = bit (drop_bit m w) n"
    using msb_clear [OF assms]
    by (auto simp add: bit_signed_drop_bit_iff bit_drop_bit_eq dest: bit_imp_le_length)
qed

lemma signed_drop_bit_unat:
  fixes w :: u32
  assumes "unat w < 2 ^ 31"
  shows "unat (signed_drop_bit m w) = unat w div 2 ^ m"
proof -
  have "unat (signed_drop_bit m w) = unat (drop_bit m w)"
    by (simp only: signed_drop_bit_small [OF assms])
  also have "\<dots> = drop_bit m (unat w)" by (rule unat_drop_bit_eq)
  also have "\<dots> = unat w div 2 ^ m" by (rule drop_bit_eq_div)
  finally show ?thesis .
qed

lemma and_mask_unat: "unat ((w :: u32) AND (push_bit B 1 - 1)) = unat w mod 2 ^ B"
proof -
  have "(push_bit B 1 - 1 :: u32) = mask B" by (simp add: mask_eq_exp_minus_1)
  then have "w AND (push_bit B 1 - 1) = take_bit B w"
    by (simp add: take_bit_eq_mask)
  then have "unat (w AND (push_bit B 1 - 1)) = take_bit B (unat w)"
    by (simp only: unsigned_take_bit_eq)
  then show ?thesis by (simp add: take_bit_eq_mod)
qed

lemma read_in_first_cluster:
  assumes fc: "file_cluster d \<noteq> - 1"
    and B: "nat (cluster_bits d + logical_sector_bits d + int GRUB_DISK_SECTOR_BITS) = B"
      "B \<le> 30"
    and rng: "unat off + unat len \<le> 2 ^ B" and len: "len \<noteq> 0"
    and cur: "cur_cluster_num d \<noteq> 0"
  shows "grub_fat_read disk d off len =
     (case grub_disk_read disk
             (unat (cluster_sector d
                    + push_bit (nat (cluster_bits d + logical_sector_bits d))
                        (file_cluster d - 2)))
             (unat off) (unat len) of
        None \<Rightarrow> Some (d\<lparr> cur_cluster_num := 0, cur_cluster := file_cluster d \<rparr>,
                       [file_cluster d], Inl GRUB_ERR_DISK)
      | Some bs \<Rightarrow> Some (d\<lparr> cur_cluster_num := 0, cur_cluster := file_cluster d \<rparr>,
                          [file_cluster d], Inr bs))"
proof -
  let ?d = "d\<lparr> cur_cluster_num := 0, cur_cluster := file_cluster d \<rparr>"
  have p: "(2::nat) ^ B \<le> 2 ^ 30" using B(2) by (rule power_increasing) simp
  have l0: "0 < unat len" using len by (simp add: unat_gt_0)
  have o: "unat off < 2 ^ B" using rng l0 by simp
  have o31: "unat off < 2 ^ 31" using o p by simp
  have l31: "unat len < 2 ^ 31" using rng p by simp
  have "unat (signed_drop_bit B off) = 0"
    using o by (simp add: signed_drop_bit_unat [OF o31])
  then have lc: "signed_drop_bit B off = 0" by (simp add: unat_eq_0)
  have "unat (off AND (push_bit B 1 - 1)) = unat off"
    using o and_mask_unat [of off B] by simp
  then have "off AND (push_bit B 1 - 1) = off" by (simp only: word_unat_eq_iff)
  then have om: "off AND 2 ^ B - 1 = off" by simp
  have c0: "0 < cur_cluster_num d" using cur by (simp add: word_neq_0_conv)
  have w: "walk_chain disk ?d 0 = (?d, Walk_OK)" by (rule walk_chain_here) simp
  define sz where "sz = (if len <s push_bit B 1 - off then len else push_bit B 1 - off)"
  have "unat sz = unat len"
    using chunk_size(1) [OF B(2) o l31 len, folded sz_def] rng by simp
  then have sz: "sz = len" by (simp only: word_unat_eq_iff)
  have "read_loop disk B ?d 0 off len [] [] =
     (case grub_disk_read disk
             (unat (cluster_sector d
                    + push_bit (nat (cluster_bits d + logical_sector_bits d))
                        (file_cluster d - 2)))
             (unat off) (unat len) of
        None \<Rightarrow> Some (?d, [file_cluster d], Inl GRUB_ERR_DISK)
      | Some bs \<Rightarrow> Some (?d, [file_cluster d], Inr bs))"
    by (subst read_loop_step [OF len w sz_def [unfolded sz, symmetric, THEN sym]])
       (simp add: read_loop_0 cong: option.case_cong)
  then show ?thesis
    using fc c0
    by (simp add: grub_fat_read_def grub_fat_read_data_def Let_def B(1) lc om)
qed



lemma fat_log2_less:
  assumes "x < 2 ^ m"
  shows "fat_log2 x < int m"
proof (rule ccontr)
  assume "\<not> fat_log2 x < int m"
  then have "int m \<le> fat_log2 x" by simp
  then have "2 ^ m \<le> x" by (simp add: fat_log2_ge_iff)
  with assms show False by simp
qed

lemma mount_bpb_bits:
  assumes "grub_fat_mount_bpb mem disk bpb = Inr d"
  shows "\<exists>data. mount_variant disk bpb data = Inr d
       \<and> logical_sector_bits data = geom_logical_sector_bits bpb
       \<and> cluster_bits data = geom_cluster_bits bpb"
  using assms unfolding mount_bpb_unfold
  by (auto split: if_splits simp: not_a_fat_def)

lemma mount_variant_bits:
  assumes "mount_variant disk bpb data = Inr d"
  shows "logical_sector_bits d = logical_sector_bits data" "cluster_bits d = cluster_bits data"
  using assms
  by (auto simp: mount_variant_def not_a_fat_def Let_def
           split: if_splits dest!: mount_check_fat_Inr)

lemma mount_cluster_size:
  assumes "grub_fat_mount mem diskp = Inr d"
  shows "nat (cluster_bits d + logical_sector_bits d + int GRUB_DISK_SECTOR_BITS) \<le> 28"
proof -
  from grub_fat_mount_Inr [OF assms] obtain disk bpb where
    h: "grub_fat_mount_bpb mem disk bpb = Inr d" by blast
  from mount_bpb_bits [OF h] obtain data where
    v: "mount_variant disk bpb data = Inr d"
       "logical_sector_bits data = geom_logical_sector_bits bpb"
       "cluster_bits data = geom_cluster_bits bpb" by blast
  note b = mount_variant_bits [OF v(1)]
  have "unat (bytes_per_sector bpb) < 2 ^ 16"
    using unsigned_less [of "bytes_per_sector bpb", where 'a = nat] by simp
  then have 1: "fat_log2 (unat (bytes_per_sector bpb)) < 16"
    using fat_log2_less [of _ 16] by simp
  have "unat (sectors_per_cluster bpb) < 2 ^ 8"
    using unsigned_less [of "sectors_per_cluster bpb", where 'a = nat] by simp
  then have 2: "fat_log2 (unat (sectors_per_cluster bpb)) < 8"
    using fat_log2_less [of _ 8] by simp
  show ?thesis
    using 1 2 unfolding b v(2,3) geom_cluster_bits_def geom_logical_sector_bits_def
    by (simp add: GRUB_DISK_SECTOR_BITS_def)
qed




subsection \<open>Files whose first cluster is not a data cluster\<close>

lemma bad_alias_literal:
  "fat12_bad_entry =
    [66, 65, 68, 32, 32, 32, 32, 32, 66, 73, 78, 32, 0, 0, 0, 0, 0, 0, 0, 0, 0, 0, 0, 0, 0,
     0, 1, 0, 32, 0, 0, 0]"
  "fat12_alias_entry =
    [65, 76, 73, 65, 83, 32, 32, 32, 66, 73, 78, 32, 0, 0, 0, 0, 0, 0, 0, 0, 255, 255, 0, 0,
     0, 0, 255, 255, 0, 4, 0, 0]"
  by (simp_all add: fat12_bad_entry_def fat12_alias_entry_def entry32_def)

lemma bad_alias_lengths: "length fat12_bad_entry = 32" "length fat12_alias_entry = 32"
  by (simp_all add: bad_alias_literal)

lemma bad_alias_sizes: "disk_size fat12_bad_first = 32768" "disk_size fat12_alias = 32768"
  by (simp_all add: fat12_bad_first_def fat12_alias_def mk_disk_def)

lemma bad_alias_boot:
  "disk_range fat12_bad_first 0 52 = fat12_boot" "disk_range fat12_alias 0 52 = fat12_boot"
  by (simp_all add: fat12_bad_first_def fat12_alias_def
      fat12_segments_def seg_read fat12_lengths fat12_fat_length bad_alias_lengths)

lemma bad_alias_fat0:
  "grub_disk_read fat12_bad_first 1 0 4 = Some [0xF8, 0xFF, 0xFF, 0x03]"
  "grub_disk_read fat12_alias 1 0 4 = Some [0xF8, 0xFF, 0xFF, 0x03]"
  by (simp_all add: grub_disk_read_range bad_alias_sizes)
     (simp_all add: fat12_bad_first_def fat12_alias_def
      fat12_segments_def seg_read fat12_lengths fat12_fat_length fat12_fat_def
      bad_alias_lengths)

lemma bad_alias_mount:
  "grub_fat_mount mem0 (Some fat12_bad_first) = Inr fat12_handle"
  "grub_fat_mount mem0 (Some fat12_alias) = Inr fat12_handle"
proof -
  show "grub_fat_mount mem0 (Some fat12_bad_first) = Inr fat12_handle"
    by (rule fat12_like_mount
        [OF fat12_like_sector0 [OF bad_alias_sizes(1) bad_alias_boot(1)] bad_alias_fat0(1)])
  show "grub_fat_mount mem0 (Some fat12_alias) = Inr fat12_handle"
    by (rule fat12_like_mount
        [OF fat12_like_sector0 [OF bad_alias_sizes(2) bad_alias_boot(2)] bad_alias_fat0(2)])
qed

lemma bad_alias_records:
  "disk_range fat12_bad_first 1536 32 = fat12_bad_entry"
  "disk_range fat12_alias 1536 32 = fat12_alias_entry"
  by (simp_all add: fat12_bad_first_def fat12_alias_def seg_read bad_alias_lengths)

lemma bad_alias_short:
  "convert_8dot3 (take 11 fat12_bad_entry) = map of_char ''bad.bin''"
  "convert_8dot3 (take 11 fat12_alias_entry) = map of_char ''alias.bin''"
  by (simp_all add: bad_alias_literal convert_8dot3_def name_part_def grub_isspace_def
      grub_tolower_def Let_def word_le_nat_alt)

lemma open_first_entry:
  assumes mount: "grub_fat_mount mem0 (Some dk) = Inr fat12_handle"
    and sz: "disk_size dk = 32768"
    and rec: "disk_range dk 1536 32 = r" "length r = 32" "r ! 0 \<noteq> 0" "r ! 0 \<noteq> 0xe5"
      "r ! 0 \<noteq> 0x05" "r ! 11 = 0x20"
    and name: "convert_8dot3 (take 11 r) = dn" "0x2F \<notin> set dn"
  shows "grub_fat_open utf16_ascii mem0 dk (0x2F # dn) =
     Some (Inr (fat12_handle\<lparr> attr := 0x20,
                  file_size := le32 (drop 28 r),
                  file_cluster := push_bit 16 (ucast (le16 (drop 20 r)))
                                  OR ucast (le16 (drop 26 r)),
                  cur_cluster_num := - 1 \<rparr>))"
proof -
  let ?i = "init_scan ()"
  have r1: "grub_fat_read_data dk fat12_handle (- 32 + 32) 32
      = Some (fat12_handle, [], Inr r)"
    using root_read_fat12 [OF sz, of 0] by (simp add: rec(1))
  have s1: "scan_record utf16_ascii None dn (?i\<lparr> ds_dir := r \<rparr>)
      = (?i\<lparr> ds_dir := r \<rparr>, Scan_Break)"
    by (subst scan_record_lookup)
       (simp_all add: rec name attr_values, simp add: init_scan_def)
  have "find_dir_loop utf16_ascii dk None dn fat12_handle (- 32) ?i
      = Some (fat12_handle, ?i\<lparr> ds_dir := r \<rparr>, None)"
    by (subst find_dir_loop_step [OF r1])
       (simp_all add: rec s1, simp add: init_scan_def)
  from open_found [OF mount this name(2)]
  show ?thesis by (simp add: rec attr_values)
qed

lemma bad_open:
  "grub_fat_open utf16_ascii mem0 fat12_bad_first (map of_char ''/bad.bin'')
     = Some (Inr bad_handle)"
  using open_first_entry [OF bad_alias_mount(1) bad_alias_sizes(1) bad_alias_records(1)
      bad_alias_lengths(1) _ _ _ _ bad_alias_short(1)]
  by (simp add: bad_alias_literal le32_def le16_def bad_handle_def fat12_handle_def)


lemma bad_read:
  "grub_fat_read fat12_bad_first bad_handle 0 32 =
     Some (bad_handle\<lparr> cur_cluster_num := 0, cur_cluster := 1 \<rparr>, [1], Inr fat12_bad_entry)"
  by (subst read_in_first_cluster [where B = 9])
     (simp_all add: bad_handle_def fat12_handle_def GRUB_DISK_SECTOR_BITS_def
        grub_disk_read_range bad_alias_sizes bad_alias_records)


subsection \<open>Which clusters are read\<close>

lemma walk_chain_cluster:
  "walk_chain disk d lc = (d1, w) \<Longrightarrow>
     num_clusters d1 = num_clusters d
     \<and> (cur_cluster d1 = cur_cluster d
        \<or> 2 \<le> cur_cluster d1 \<and> cur_cluster d1 < num_clusters d)"
proof (induction disk d lc arbitrary: d1 w rule: walk_chain.induct)
  case (1 disk data lc)
  show ?case
  proof (cases "cur_cluster_num data < lc")
    case False
    with "1.prems" show ?thesis by (subst (asm) walk_chain.simps) simp
  next
    case True
    show ?thesis
    proof (cases "read_next_cluster disk data")
      case None
      with True "1.prems" show ?thesis by (subst (asm) walk_chain.simps) simp
    next
      case (Some n)
      show ?thesis
      proof (cases "cluster_eof_mark data \<le> n \<or> n < 2 \<or> num_clusters data \<le> n")
        case True
        with \<open>cur_cluster_num data < lc\<close> Some "1.prems" show ?thesis
          by (subst (asm) walk_chain.simps) (auto split: if_splits)
      next
        case False
        let ?d = "data\<lparr> cur_cluster := n, cur_cluster_num := cur_cluster_num data + 1 \<rparr>"
        from False \<open>cur_cluster_num data < lc\<close> Some "1.prems"
        have w: "walk_chain disk ?d lc = (d1, w)"
          by (subst (asm) walk_chain.simps) simp
        from False have f: "\<not> cluster_eof_mark data \<le> n"
          "\<not> (n < 2 \<or> num_clusters data \<le> n)" by simp_all
        from "1.IH" [OF \<open>cur_cluster_num data < lc\<close> Some f w] f
        show ?thesis by (auto simp: not_less not_le)
      qed
    qed
  qed
qed

lemma read_loop_clusters:
  assumes "read_loop disk B d lc off len buf cl = Some y"
  shows "\<forall>c \<in> set (fst (snd y)).
           c \<in> set cl \<or> c = cur_cluster d \<or> 2 \<le> c \<and> c < num_clusters d"
proof (rule read_loop.raw_induct [where P = "\<lambda>disk B d lc off len buf cl y.
    \<forall>c \<in> set (fst (snd y)).
       c \<in> set cl \<or> c = cur_cluster d \<or> 2 \<le> c \<and> c < num_clusters d", OF _ assms],
    goal_cases)
  case (1 rl disk B d lc off len buf cl y)
  show ?case
  proof (cases "len = 0")
    case True
    with 1(2) show ?thesis by auto
  next
    case False
    obtain d1 w where w: "walk_chain disk d lc = (d1, w)" by (cases "walk_chain disk d lc")
    note c = walk_chain_cluster [OF w]
    show ?thesis
    proof (cases w)
      case Walk_EOF
      with 1(2) False w show ?thesis by auto
    next
      case (Walk_Err e)
      with 1(2) False w show ?thesis by auto
    next
      case Walk_OK
      define sz where "sz = (if len <s push_bit B 1 - off then len else push_bit B 1 - off)"
      let ?sector = "cluster_sector d1
                    + push_bit (nat (cluster_bits d1 + logical_sector_bits d1))
                        (cur_cluster d1 - 2)"
      show ?thesis
      proof (cases "grub_disk_read disk (unat ?sector) (unat off) (unat sz)")
        case None
        with 1(2) False w Walk_OK c show ?thesis
          by (auto simp: Let_def sz_def simp del: push_bit_of_1)
      next
        case (Some bs)
        with 1(2) False w Walk_OK
        have "rl disk B d1 (lc + 1) 0 (len - sz) (buf @ bs) (cl @ [cur_cluster d1]) = Some y"
          by (simp add: Let_def sz_def del: push_bit_of_1 cong: option.case_cong)
        from 1(1) [OF this] c show ?thesis by auto
      qed
    qed
  qed
qed

lemma read_clusters_checked:
  assumes "grub_fat_read disk d off len = Some (d', cl, r)"
  shows "\<forall>c \<in> set cl.
           c = file_cluster d \<or> c = cur_cluster d \<or> 2 \<le> c \<and> c < num_clusters d"
proof (cases "file_cluster d = - 1")
  case True
  with assms show ?thesis
    by (auto simp: grub_fat_read_def grub_fat_read_data_def Let_def split: option.splits)
next
  case False
  with assms show ?thesis
    by (auto simp: grub_fat_read_def grub_fat_read_data_def Let_def
        split: if_splits dest!: read_loop_clusters)
qed

lemma walk_chain_fetch:
  assumes "cur_cluster_num d < lc" "read_next_cluster disk d = Some n"
  shows "cluster_eof_mark d \<le> n \<Longrightarrow> walk_chain disk d lc = (d, Walk_EOF)"
    and "n < cluster_eof_mark d \<Longrightarrow> n < 2 \<or> num_clusters d \<le> n \<Longrightarrow>
           walk_chain disk d lc = (d, Walk_Err (GRUB_ERR_BAD_FS_CLUSTER n))"
  using assms by (subst walk_chain.simps, auto)+

lemma read_loop_fetch:
  assumes "len \<noteq> 0" "cur_cluster_num d < lc" "read_next_cluster disk d = Some n"
  shows "cluster_eof_mark d \<le> n \<Longrightarrow>
           read_loop disk B d lc off len buf cl = Some (d, cl, Inr buf)"
    and "n < cluster_eof_mark d \<Longrightarrow> n < 2 \<or> num_clusters d \<le> n \<Longrightarrow>
           read_loop disk B d lc off len buf cl
             = Some (d, cl, Inl (GRUB_ERR_BAD_FS_CLUSTER n))"
proof -
  show "cluster_eof_mark d \<le> n \<Longrightarrow>
           read_loop disk B d lc off len buf cl = Some (d, cl, Inr buf)"
    using read_loop_stop [OF assms(1) walk_chain_fetch(1) [OF assms(2,3)]] by simp
  show "n < cluster_eof_mark d \<Longrightarrow> n < 2 \<or> num_clusters d \<le> n \<Longrightarrow>
           read_loop disk B d lc off len buf cl
             = Some (d, cl, Inl (GRUB_ERR_BAD_FS_CLUSTER n))"
    using read_loop_stop [OF assms(1) walk_chain_fetch(2) [OF assms(2,3)]] by simp
qed

subsection \<open>The claims about the chain walk and the cursor\<close>

text \<open>
  C2, at a file whose first cluster is 1. The claim has every cluster that is read as data
  in the range \<open>2 \<le> c < num_clusters\<close>, a value outside of it making the call fail with
  "invalid cluster". On the volume \<open>fat12_bad_first\<close> the directory entry \<open>BAD.BIN\<close> (32
  bytes) names the first cluster 1; open takes it as it is, and \<open>read (0, 32)\<close> reads
  cluster 1 as data, which is sector \<open>4 + (1 - 2) = 3\<close>, the root directory, and returns
  its first 32 bytes without an error.
\<close>

theorem first_cluster_unchecked:
  "grub_fat_open utf16_ascii mem0 fat12_bad_first (map of_char ''/bad.bin'')
     = Some (Inr bad_handle)
   \<and> file_cluster bad_handle = 1 \<and> file_size bad_handle = 32
   \<and> num_clusters bad_handle = 62
   \<and> grub_fat_read fat12_bad_first bad_handle 0 32
       = Some (bad_handle\<lparr> cur_cluster_num := 0, cur_cluster := 1 \<rparr>, [1],
               Inr fat12_bad_entry)
   \<and> disk_range fat12_bad_first (3 * 512) 32 = fat12_bad_entry"
  using bad_open bad_read bad_alias_records(1)
  by (simp add: bad_handle_def fat12_handle_def)


end
